theory Spec2Isabelle
  imports Main "HOL-Library.Sublist"
begin

section \<open>JavaScript values, strings and errors\<close>

text \<open>
  The server is one TypeScript module that registers handlers for listing and reading
  resources, listing and calling tools, and listing and rendering prompts. The repository
  holds two versions of it; the model follows the later one (six tools, Verilator
  enforced), and then gives the tool handler of the earlier one (\<^verbatim>\<open>src/index.ts\<close>, three
  tools).

  Texts are modelled as \<^typ>\<open>string\<close>: one \<^typ>\<open>char\<close> stands for one code unit below 256.
  The emoji of the fixed output texts are written as their UTF-8 bytes; they only occur in
  literals that the handlers emit, never in a text that is scanned.

  The values a tool argument can hold are the kinds the input schemas declare (string,
  boolean) and \<^verbatim>\<open>null\<close>; reading an absent property gives \<^verbatim>\<open>undefined\<close>. Numbers, arrays and
  objects as argument values are outside the model.
\<close>

datatype jsval = JUndefined | JNull | JBool bool | JStr string

text \<open>The \<^verbatim>\<open>arguments\<close> member of a request is optional: \<open>None\<close> is \<^verbatim>\<open>undefined\<close>.\<close>

type_synonym jsobject = "string \<rightharpoonup> jsval"

definition get_prop :: "jsobject \<Rightarrow> string \<Rightarrow> jsval" where
  "get_prop obj k = (case obj k of None \<Rightarrow> JUndefined | Some v \<Rightarrow> v)"

text \<open>A destructuring default \<^verbatim>\<open>{ debug = false }\<close> applies to \<^verbatim>\<open>undefined\<close> only.\<close>

fun with_default :: "jsval \<Rightarrow> jsval \<Rightarrow> jsval" where
  "with_default JUndefined d = d"
| "with_default v d = v"

fun truthy :: "jsval \<Rightarrow> bool" where
  "truthy JUndefined = False"
| "truthy JNull = False"
| "truthy (JBool b) = b"
| "truthy (JStr s) = (s \<noteq> [])"

text \<open>A value inside a template literal \<^verbatim>\<open>`${v}`\<close>.\<close>

fun toStr :: "jsval \<Rightarrow> string" where
  "toStr JUndefined = ''undefined''"
| "toStr JNull = ''null''"
| "toStr (JBool b) = (if b then ''true'' else ''false'')"
| "toStr (JStr s) = s"

definition digit_char :: "nat \<Rightarrow> char" where
  "digit_char d = char_of (48 + d)"

function string_of_nat :: "nat \<Rightarrow> string" where
  "string_of_nat n =
     (if n < 10 then [digit_char n] else string_of_nat (n div 10) @ [digit_char (n mod 10)])"
  by pat_completeness auto
termination
  by (relation "measure id") auto

definition string_of_int :: "int \<Rightarrow> string" where
  "string_of_int i = (if i < 0 then ''-'' @ string_of_nat (nat (- i)) else string_of_nat (nat i))"

text \<open>\<^verbatim>\<open>String.prototype.includes\<close>, through the prefix test at every position.\<close>

fun starts_with :: "string \<Rightarrow> string \<Rightarrow> bool" where
  "starts_with s [] = True"
| "starts_with [] (p # ps) = False"
| "starts_with (c # cs) (p # ps) = (c = p \<and> starts_with cs ps)"

fun includes_str :: "string \<Rightarrow> string \<Rightarrow> bool" where
  "includes_str [] p = (p = [])"
| "includes_str (c # cs) p = (starts_with (c # cs) p \<or> includes_str cs p)"

text \<open>\<^verbatim>\<open>Array.prototype.join\<close>.\<close>

fun join :: "string \<Rightarrow> string list \<Rightarrow> string" where
  "join sep [] = []"
| "join sep [x] = x"
| "join sep (x # y # ys) = x @ sep @ join sep (y # ys)"

text \<open>
  \<^verbatim>\<open>s.replace(pat, '')\<close> with a string pattern: the first occurrence of \<open>pat\<close> is removed,
  the rest of the text is kept.
\<close>

fun remove_first :: "string \<Rightarrow> string \<Rightarrow> string" where
  "remove_first pat [] = []"
| "remove_first pat (c # cs) =
     (if starts_with (c # cs) pat then drop (length pat) (c # cs) else c # remove_first pat cs)"

text \<open>
  The error codes of the protocol library and the errors of the runtime. An \<^verbatim>\<open>Error\<close> object
  is its name and its message; an \<^verbatim>\<open>McpError\<close> carries a protocol error code.
\<close>

datatype ErrorCode = ParseError | InvalidRequest | MethodNotFound | InvalidParams | InternalError

datatype jserror = JsError string string | McpError ErrorCode string

fun code_number :: "ErrorCode \<Rightarrow> int" where
  "code_number ParseError = - 32700"
| "code_number InvalidRequest = - 32600"
| "code_number MethodNotFound = - 32601"
| "code_number InvalidParams = - 32602"
| "code_number InternalError = - 32603"

text \<open>An error inside a template literal \<^verbatim>\<open>`${error}`\<close>: \<^verbatim>\<open>Error.prototype.toString\<close>.\<close>

fun error_toString :: "jserror \<Rightarrow> string" where
  "error_toString (JsError name msg) = (if msg = [] then name else name @ '': '' @ msg)"
| "error_toString (McpError c msg) =
     ''McpError: MCP error '' @ string_of_int (code_number c) @ '': '' @ msg"

section \<open>Effects: the collaborators and the outcome of an asynchronous call\<close>

text \<open>
  An asynchronous function either returns a value, throws (its promise is rejected), or
  never settles. Every call to a collaborator is recorded in the order it is made.
\<close>

datatype 'a completion = Pending | Throws jserror | Returns 'a

datatype effect =
    FsAccess string
  | FsReadFile jsval
  | Spawn string "jsval list" "string option"

text \<open>
  What a child process does after \<^verbatim>\<open>spawn\<close>: the events it emits, in order. \<open>Close None\<close> is
  a close with exit code \<^verbatim>\<open>null\<close> (the child was killed by a signal).
\<close>

datatype child_event =
    StdoutData string
  | StderrData string
  | Close "int option"
  | ErrorEvent jserror

datatype spawn_result = SpawnThrows jserror | Spawned "child_event list"

text \<open>
  The world outside the server. Each collaborator answers from the calls made so far, so
  that the same file may be read twice with different results.
\<close>

record world =
  fs_readFile :: "effect list \<Rightarrow> jsval \<Rightarrow> jserror + string"
  fs_access :: "effect list \<Rightarrow> string \<Rightarrow> jserror option"
  child_process_spawn :: "effect list \<Rightarrow> string \<Rightarrow> jsval list \<Rightarrow> string option \<Rightarrow> spawn_result"

type_synonym 'a io = "effect list \<Rightarrow> effect list \<times> 'a completion"

definition returnC :: "'a \<Rightarrow> 'a io" where
  "returnC x h = (h, Returns x)"

definition throwC :: "jserror \<Rightarrow> 'a io" where
  "throwC e h = (h, Throws e)"

text \<open>\<^verbatim>\<open>const x = await m; f(x)\<close>\<close>

definition bindC :: "'a io \<Rightarrow> ('a \<Rightarrow> 'b io) \<Rightarrow> 'b io" where
  "bindC m f h =
     (case m h of
        (h', Returns x) \<Rightarrow> f x h'
      | (h', Throws e) \<Rightarrow> (h', Throws e)
      | (h', Pending) \<Rightarrow> (h', Pending))"

text \<open>\<^verbatim>\<open>try { m } catch (error) { handler(error) }\<close>\<close>

definition catchC :: "'a io \<Rightarrow> (jserror \<Rightarrow> 'a io) \<Rightarrow> 'a io" where
  "catchC m handler h =
     (case m h of
        (h', Throws e) \<Rightarrow> handler e h'
      | (h', Returns x) \<Rightarrow> (h', Returns x)
      | (h', Pending) \<Rightarrow> (h', Pending))"

subsection \<open>readFileContent\<close>

definition readFileContent :: "world \<Rightarrow> jsval \<Rightarrow> string io" where
  "readFileContent w filePath h =
     (case fs_readFile w h filePath of
        Inr content \<Rightarrow> (h @ [FsReadFile filePath], Returns content)
      | Inl error \<Rightarrow>
          (h @ [FsReadFile filePath],
           Throws (JsError ''Error''
             (''Failed to read file '' @ toStr filePath @ '': '' @ error_toString error))))"

definition access :: "world \<Rightarrow> string \<Rightarrow> unit io" where
  "access w p h =
     (case fs_access w h p of
        None \<Rightarrow> (h @ [FsAccess p], Returns ())
      | Some error \<Rightarrow> (h @ [FsAccess p], Throws error))"

subsection \<open>executeCommand\<close>

fun exit_code_string :: "int option \<Rightarrow> string" where
  "exit_code_string None = ''null''"
| "exit_code_string (Some c) = string_of_int c"

text \<open>
  The promise of \<^verbatim>\<open>executeCommand\<close> under the events of the child: the two data listeners
  append to \<open>stdout\<close> and \<open>stderr\<close>, the first \<^verbatim>\<open>close\<close> or \<^verbatim>\<open>error\<close> event settles the
  promise, and later events change nothing. A child that emits neither leaves it pending.
\<close>

fun executeCommand_events :: "child_event list \<Rightarrow> string \<Rightarrow> string \<Rightarrow> (string \<times> string) completion" where
  "executeCommand_events [] stdout stderr = Pending"
| "executeCommand_events (StdoutData d # evs) stdout stderr =
     executeCommand_events evs (stdout @ d) stderr"
| "executeCommand_events (StderrData d # evs) stdout stderr =
     executeCommand_events evs stdout (stderr @ d)"
| "executeCommand_events (Close code # evs) stdout stderr =
     (if code = Some 0 then Returns (stdout, stderr)
      else Throws (JsError ''Error''
             (''Command failed with exit code '' @ exit_code_string code @ '': '' @ stderr)))"
| "executeCommand_events (ErrorEvent error # evs) stdout stderr = Throws error"

definition executeCommand :: "world \<Rightarrow> string \<Rightarrow> jsval list \<Rightarrow> string option \<Rightarrow> (string \<times> string) io" where
  "executeCommand w command args cwd h =
     (case child_process_spawn w h command args cwd of
        SpawnThrows error \<Rightarrow> (h @ [Spawn command args cwd], Throws error)
      | Spawned evs \<Rightarrow> (h @ [Spawn command args cwd], executeCommand_events evs [] []))"

subsection \<open>What a child process emitted before its promise settled\<close>

text \<open>
  The vocabulary for the properties of \<^verbatim>\<open>executeCommand\<close>: the first event that is not
  data, and the data emitted on each stream before it.
\<close>

fun is_data :: "child_event \<Rightarrow> bool" where
  "is_data (StdoutData d) = True"
| "is_data (StderrData d) = True"
| "is_data (Close code) = False"
| "is_data (ErrorEvent error) = False"

definition first_settling :: "child_event list \<Rightarrow> child_event option" where
  "first_settling evs = find (\<lambda>ev. \<not> is_data ev) evs"

fun stdout_chunk :: "child_event \<Rightarrow> string" where
  "stdout_chunk (StdoutData d) = d"
| "stdout_chunk (StderrData d) = []"
| "stdout_chunk (Close code) = []"
| "stdout_chunk (ErrorEvent error) = []"

fun stderr_chunk :: "child_event \<Rightarrow> string" where
  "stderr_chunk (StdoutData d) = []"
| "stderr_chunk (StderrData d) = d"
| "stderr_chunk (Close code) = []"
| "stderr_chunk (ErrorEvent error) = []"

definition emitted_stdout :: "child_event list \<Rightarrow> string" where
  "emitted_stdout evs = concat (map stdout_chunk (takeWhile is_data evs))"

definition emitted_stderr :: "child_event list \<Rightarrow> string" where
  "emitted_stderr evs = concat (map stderr_chunk (takeWhile is_data evs))"

section \<open>Regular expressions\<close>

text \<open>
  The analyzers are written with regular expression literals. The fragment they use is
  modelled as a datatype with the backtracking semantics of the language: a match attempt
  at a position yields its possible results in priority order (greedy quantifiers try the
  longest run first), and the first one is the match.

  The character classes: \<^verbatim>\<open>\s\<close> (white space and line terminators, with the no-break space
  U+00A0; the white space above U+00FF has no \<^typ>\<open>char\<close>), \<^verbatim>\<open>\w\<close> (letters, digits, underscore).
\<close>

definition is_space :: "char \<Rightarrow> bool" where
  "is_space c = (let n = (of_char c :: nat) in (9 \<le> n \<and> n \<le> 13) \<or> n = 32 \<or> n = 160)"

definition is_word :: "char \<Rightarrow> bool" where
  "is_word c =
     (let n = (of_char c :: nat)
      in (97 \<le> n \<and> n \<le> 122) \<or> (65 \<le> n \<and> n \<le> 90) \<or> (48 \<le> n \<and> n \<le> 57) \<or> n = 95)"

definition is_line_terminator :: "char \<Rightarrow> bool" where
  "is_line_terminator c = (let n = (of_char c :: nat) in n = 10 \<or> n = 13)"

datatype cclass =
    Space          \<comment> \<open>\<^verbatim>\<open>\s\<close>\<close>
  | NotSpace       \<comment> \<open>\<^verbatim>\<open>[^\s]\<close>\<close>
  | Word           \<comment> \<open>\<^verbatim>\<open>\w\<close>\<close>
  | NotRBracket    \<comment> \<open>\<^verbatim>\<open>[^\]]\<close>\<close>
  | OneOf string   \<comment> \<open>\<^verbatim>\<open>[...]\<close>\<close>

fun in_class :: "cclass \<Rightarrow> char \<Rightarrow> bool" where
  "in_class Space c = is_space c"
| "in_class NotSpace c = (\<not> is_space c)"
| "in_class Word c = is_word c"
| "in_class NotRBracket c = (c \<noteq> CHR '']'')"
| "in_class (OneOf cs) c = List.member cs c"

datatype regex =
    Lit string           \<comment> \<open>literal characters\<close>
  | One cclass           \<comment> \<open>one character of a class\<close>
  | Star cclass          \<comment> \<open>\<^verbatim>\<open>c*\<close>\<close>
  | Plus cclass          \<comment> \<open>\<^verbatim>\<open>c+\<close>\<close>
  | Opt regex            \<comment> \<open>\<^verbatim>\<open>r?\<close> and \<^verbatim>\<open>(?:r)?\<close>\<close>
  | Alt regex regex      \<comment> \<open>\<^verbatim>\<open>a|b\<close>\<close>
  | Seq regex regex      \<comment> \<open>\<^verbatim>\<open>ab\<close>\<close>
  | Group regex          \<comment> \<open>\<^verbatim>\<open>(r)\<close>, capturing\<close>
  | Bol                  \<comment> \<open>\<^verbatim>\<open>^\<close> under the \<^verbatim>\<open>m\<close> flag\<close>

text \<open>
  The state of a match attempt: the character before the current position (for \<^verbatim>\<open>^\<close>), the
  rest of the input, and the texts captured so far.
\<close>

type_synonym mstate = "char option \<times> string \<times> string list"

text \<open>A greedy run of a class: the longest run first, then each shorter one.\<close>

fun star_run :: "cclass \<Rightarrow> char option \<Rightarrow> string \<Rightarrow> string list \<Rightarrow> mstate list" where
  "star_run cl p [] g = [(p, [], g)]"
| "star_run cl p (c # cs) g =
     (if in_class cl c then star_run cl (Some c) cs g @ [(p, c # cs, g)] else [(p, c # cs, g)])"

fun re_match :: "regex \<Rightarrow> mstate \<Rightarrow> mstate list" where
  "re_match (Lit l) (p, s, g) =
     (if starts_with s l then [(if l = [] then p else Some (last l), drop (length l) s, g)] else [])"
| "re_match (One cl) (p, s, g) =
     (case s of [] \<Rightarrow> [] | c # cs \<Rightarrow> if in_class cl c then [(Some c, cs, g)] else [])"
| "re_match (Star cl) (p, s, g) = star_run cl p s g"
| "re_match (Plus cl) (p, s, g) =
     (case s of [] \<Rightarrow> [] | c # cs \<Rightarrow> if in_class cl c then star_run cl (Some c) cs g else [])"
| "re_match (Opt r) st = re_match r st @ [st]"
| "re_match (Alt a b) st = re_match a st @ re_match b st"
| "re_match (Seq a b) st = concat (map (re_match b) (re_match a st))"
| "re_match (Group r) (p, s, g) =
     map (\<lambda>(p', s', g'). (p', s', g' @ [take (length s - length s') s])) (re_match r (p, s, g))"
| "re_match Bol (p, s, g) =
     (case p of None \<Rightarrow> [(p, s, g)] | Some c \<Rightarrow> if is_line_terminator c then [(p, s, g)] else [])"

fun seqs :: "regex list \<Rightarrow> regex" where
  "seqs [] = Lit []"
| "seqs [r] = r"
| "seqs (r # rs) = Seq r (seqs rs)"

text \<open>The patterns without \<^verbatim>\<open>^\<close>: their matches do not look at the preceding character.\<close>

fun bol_free :: "regex \<Rightarrow> bool" where
  "bol_free (Lit l) = True"
| "bol_free (One cl) = True"
| "bol_free (Star cl) = True"
| "bol_free (Plus cl) = True"
| "bol_free (Opt r) = bol_free r"
| "bol_free (Alt a b) = (bol_free a \<and> bol_free b)"
| "bol_free (Seq a b) = (bol_free a \<and> bol_free b)"
| "bol_free (Group r) = bol_free r"
| "bol_free Bol = False"

text \<open>
  \<^verbatim>\<open>text.match(re)\<close> without the \<^verbatim>\<open>g\<close> flag: the leftmost match, as the matched text and the
  captured groups, or \<open>None\<close> for \<^verbatim>\<open>null\<close>.
\<close>

fun re_search :: "regex \<Rightarrow> char option \<Rightarrow> string \<Rightarrow> (string \<times> string list) option" where
  "re_search r p [] =
     (case re_match r (p, [], []) of [] \<Rightarrow> None | (p', s', g) # rest \<Rightarrow> Some ([], g))"
| "re_search r p (c # cs) =
     (case re_match r (p, c # cs, []) of
        [] \<Rightarrow> re_search r (Some c) cs
      | (p', s', g) # rest \<Rightarrow> Some (take (length (c # cs) - length s') (c # cs), g))"

text \<open>\<^verbatim>\<open>match?.[1]\<close>: the first captured group, \<^verbatim>\<open>undefined\<close> (here the empty text) without one.\<close>

fun group1 :: "(string \<times> string list) option \<Rightarrow> string" where
  "group1 None = []"
| "group1 (Some (m, [])) = []"
| "group1 (Some (m, x # xs)) = x"

text \<open>
  \<^verbatim>\<open>text.match(re) || []\<close> with the \<^verbatim>\<open>g\<close> flag: the matched texts, left to right, each search
  starting where the previous match ended (one character further after an empty match).
\<close>

function re_match_all :: "regex \<Rightarrow> char option \<Rightarrow> string \<Rightarrow> string list" where
  "re_match_all r p s =
     (case re_match r (p, s, []) of
        [] \<Rightarrow> (case s of [] \<Rightarrow> [] | c # cs \<Rightarrow> re_match_all r (Some c) cs)
      | (p', s', g) # rest \<Rightarrow>
          if length s' < length s then take (length s - length s') s # re_match_all r p' s'
          else (case s of [] \<Rightarrow> [[]] | c # cs \<Rightarrow> [] # re_match_all r (Some c) cs))"
  by pat_completeness auto
termination
  by (relation "measure (\<lambda>(r, p, s). length s)") auto

declare re_match_all.simps [simp del]

text \<open>
  \<^verbatim>\<open>text.split(/\s+/)\<close>: the pieces between the runs of white space; a text that starts or
  ends with white space has an empty first or last piece.
\<close>

function split_ws_from :: "string \<Rightarrow> string \<Rightarrow> string list" where
  "split_ws_from cur [] = [cur]"
| "split_ws_from cur (c # cs) =
     (if is_space c then cur # split_ws_from [] (dropWhile is_space cs)
      else split_ws_from (cur @ [c]) cs)"
  by pat_completeness auto
termination
  by (relation "measure (\<lambda>(cur, s). length s)") (auto simp: le_imp_less_Suc length_dropWhile_le)

definition split_ws :: "string \<Rightarrow> string list" where
  "split_ws s = split_ws_from [] s"

text \<open>\<^verbatim>\<open>xs.pop() || ''\<close>\<close>

definition pop_or_empty :: "string list \<Rightarrow> string" where
  "pop_or_empty xs = (if xs = [] then [] else last xs)"

section \<open>The text analyzers\<close>

subsection \<open>analyzeVerilogFile\<close>

record verilog_analysis =
  syntax_issues :: "string list"
  package_dependencies :: "string list"
  signal_definitions :: "string list"
  interface_ports :: "string list"

text \<open>\<^verbatim>\<open>/import\s+(\w+)::\*/\<close>\<close>

definition import_re :: regex where
  "import_re = seqs [Lit ''import'', Plus Space, Group (Plus Word), Lit ''::*'']"

text \<open>\<^verbatim>\<open>\[[^\]]+\]\<close>\<close>

definition range_re :: regex where
  "range_re = seqs [Lit ''['', Plus NotRBracket, Lit '']'']"

text \<open>\<^verbatim>\<open>/(?:logic|wire|reg)\s+(?:\[[^\]]+\])?\s*(\w+)/\<close>\<close>

definition signal_re :: regex where
  "signal_re =
     seqs [Alt (Lit ''logic'') (Alt (Lit ''wire'') (Lit ''reg'')), Plus Space,
           Opt range_re, Star Space, Group (Plus Word)]"

text \<open>\<^verbatim>\<open>/(?:input|output|inout)\s+(?:logic|wire|reg)?\s*(?:\[[^\]]+\])?\s*(\w+)/\<close>\<close>

definition port_re :: regex where
  "port_re =
     seqs [Alt (Lit ''input'') (Alt (Lit ''output'') (Lit ''inout'')), Plus Space,
           Opt (Alt (Lit ''logic'') (Alt (Lit ''wire'') (Lit ''reg''))), Star Space,
           Opt range_re, Star Space, Group (Plus Word)]"

text \<open>
  The body of \<^verbatim>\<open>analyzeVerilogFile\<close> after the file is read: three passes over the same
  text, each an array of the matches in text order with the empty entries filtered out.
\<close>

definition analyzeVerilogFile_content :: "string \<Rightarrow> verilog_analysis" where
  "analyzeVerilogFile_content content =
     (let packageMatches = re_match_all import_re None content;
          packages = map (\<lambda>m. group1 (re_search import_re None m)) packageMatches;
          signalMatches = re_match_all signal_re None content;
          signals = map (\<lambda>m. pop_or_empty (split_ws m)) signalMatches;
          portMatches = re_match_all port_re None content;
          ports = map (\<lambda>m. pop_or_empty (split_ws m)) portMatches
      in \<lparr> syntax_issues = [],
           package_dependencies = filter (\<lambda>p. length p > 0) packages,
           signal_definitions = filter (\<lambda>s. length s > 0) signals,
           interface_ports = filter (\<lambda>p. length p > 0) ports \<rparr>)"

definition analyzeVerilogFile :: "world \<Rightarrow> jsval \<Rightarrow> verilog_analysis io" where
  "analyzeVerilogFile w filePath =
     catchC
       (bindC (readFileContent w filePath) (\<lambda>content.
          returnC (analyzeVerilogFile_content content)))
       (\<lambda>error. throwC (JsError ''Error'' (''Verilog analysis failed: '' @ error_toString error)))"

subsection \<open>analyzeMakefile\<close>

record makefile_analysis =
  simulator_config :: string
  test_targets :: "string list"
  dependencies :: "string list"
  issues :: "string list"

text \<open>\<^verbatim>\<open>/SIM\s*[:?]?=\s*(\w+)/\<close>\<close>

definition sim_re :: regex where
  "sim_re =
     seqs [Lit ''SIM'', Star Space, Opt (One (OneOf '':?'')), Lit ''='', Star Space,
           Group (Plus Word)]"

text \<open>\<^verbatim>\<open>/^(\w+):/gm\<close>\<close>

definition target_re :: regex where
  "target_re = seqs [Bol, Group (Plus Word), Lit '':'']"

text \<open>\<^verbatim>\<open>/include\s+([^\s]+)/g\<close>\<close>

definition include_re :: regex where
  "include_re = seqs [Lit ''include'', Plus Space, Group (Plus NotSpace)]"

definition issue_sim_unset :: string where
  "issue_sim_unset = ''SIM variable not explicitly set - may cause simulator selection issues''"

definition issue_missing_cocotb :: string where
  "issue_missing_cocotb = ''Missing COCOTB configuration variables''"

definition issue_missing_sources :: string where
  "issue_missing_sources = ''VERILOG_SOURCES not defined - required for compilation''"

text \<open>The body of \<^verbatim>\<open>analyzeMakefile\<close> after the file is read.\<close>

definition analyzeMakefile_content :: "string \<Rightarrow> makefile_analysis" where
  "analyzeMakefile_content content =
     (let simMatch = re_search sim_re None content;
          simulator = (if group1 simMatch = [] then ''not_specified'' else group1 simMatch);
          targetMatches = re_match_all target_re None content;
          targets = map (remove_first '':'') targetMatches;
          depMatches = re_match_all include_re None content;
          deps = map (remove_first ''include '') depMatches;
          issues0 = [];
          issues1 = (if simulator = ''not_specified'' then issues0 @ [issue_sim_unset] else issues0);
          issues2 = (if \<not> includes_str content ''COCOTB_''
                     then issues1 @ [issue_missing_cocotb] else issues1);
          issues3 = (if \<not> includes_str content ''VERILOG_SOURCES''
                     then issues2 @ [issue_missing_sources] else issues2)
      in \<lparr> simulator_config = simulator,
           test_targets = targets,
           dependencies = deps,
           issues = issues3 \<rparr>)"

definition analyzeMakefile :: "world \<Rightarrow> jsval \<Rightarrow> makefile_analysis io" where
  "analyzeMakefile w makefilePath =
     catchC
       (bindC (readFileContent w makefilePath) (\<lambda>content.
          returnC (analyzeMakefile_content content)))
       (\<lambda>error. throwC (JsError ''Error'' (''Makefile analysis failed: '' @ error_toString error)))"

section \<open>Responses and the catalogue\<close>

text \<open>The emoji of the output texts, as UTF-8.\<close>

definition check_mark :: string where
  "check_mark = [CHR 0xE2, CHR 0x9C, CHR 0x85]"

definition cross_mark :: string where
  "cross_mark = [CHR 0xE2, CHR 0x9D, CHR 0x8C]"

definition warning_sign :: string where
  "warning_sign = [CHR 0xE2, CHR 0x9A, CHR 0xA0, CHR 0xEF, CHR 0xB8, CHR 0x8F]"

definition wrench :: string where
  "wrench = [CHR 0xF0, CHR 0x9F, CHR 0x94, CHR 0xA7]"

definition bar_chart :: string where
  "bar_chart = [CHR 0xF0, CHR 0x9F, CHR 0x93, CHR 0x8A]"

definition clipboard :: string where
  "clipboard = [CHR 0xF0, CHR 0x9F, CHR 0x93, CHR 0x8B]"

definition magnifying_glass :: string where
  "magnifying_glass = [CHR 0xF0, CHR 0x9F, CHR 0x94, CHR 0x8D]"

definition broom :: string where
  "broom = [CHR 0xF0, CHR 0x9F, CHR 0xA7, CHR 0xB9]"

text \<open>A content block \<^verbatim>\<open>{ type: "text", text: ... }\<close>.\<close>

record content_block =
  block_type :: string
  block_text :: string

definition text_block :: "string \<Rightarrow> content_block" where
  "text_block t = \<lparr> block_type = ''text'', block_text = t \<rparr>"

subsection \<open>Resources\<close>

record resource =
  uri :: string
  resource_name :: string
  mimeType :: string
  resource_description :: string

definition listResources :: "resource list" where
  "listResources =
     [\<lparr> uri = ''opennic://filter-requirements'',
         resource_name = ''OpenNIC Packet Filter Requirements Document'',
         mimeType = ''text/plain'',
         resource_description = ''Requirements document for the packet filter implementation'' \<rparr>,
      \<lparr> uri = ''opennic://filter-implementation'',
         resource_name = ''OpenNIC Packet Filter Implementation Overview'',
         mimeType = ''text/markdown'',
         resource_description = ''Detailed implementation overview and submission document'' \<rparr>,
      \<lparr> uri = ''opennic://register-map'',
         resource_name = ''Packet Filter Register Map Documentation'',
         mimeType = ''text/markdown'',
         resource_description = ''CSR register map documentation for the packet filter'' \<rparr>,
      \<lparr> uri = ''opennic://simulation-guide'',
         resource_name = ''How to Run Filter Simulations with Verilator'',
         mimeType = ''text/markdown'',
         resource_description = ''Complete guide for Verilator-based Cocotb simulations'' \<rparr>,
      \<lparr> uri = ''opennic://debug-workflow'',
         resource_name = ''Hardware Debug Workflow Guide'',
         mimeType = ''text/markdown'',
         resource_description = ''Step-by-step debugging methodology for OpenNIC filter issues'' \<rparr>]"

definition simulation_guide :: string where
  \<open>simulation_guide =
     ''# OpenNIC Filter Simulation Guide (Verilator Only)\<newline>'' @
     ''\<newline>'' @
     ''## Prerequisites\<newline>'' @
     ''1. **Verilator** - SystemVerilog simulator (REQUIRED - enforced by MCP server)\<newline>'' @
     ''   - macOS: `brew install verilator`\<newline>'' @
     ''   - Ubuntu: `sudo apt-get install verilator`\<newline>'' @
     ''   - Verify: `verilator --version` (minimum v4.200+)\<newline>'' @
     ''2. Python virtual environment with Cocotb\<newline>'' @
     ''3. OpenNIC shell project setup\<newline>'' @
     ''\<newline>'' @
     ''## Simulator Compatibility Check\<newline>'' @
     ''The MCP server automatically enforces Verilator usage and validates:\<newline>'' @
     ''- '' @ check_mark @ '' Verilator installation and version\<newline>'' @
     ''- '' @ check_mark @ '' SystemVerilog package syntax compatibility\<newline>'' @
     ''- '' @ check_mark @ '' Test signal cross-referencing\<newline>'' @
     ''- '' @ check_mark @ '' Build dependency detection\<newline>'' @
     ''\<newline>'' @
     ''## Running Filter Tests (Verilator-Optimized)\<newline>'' @
     ''\<newline>'' @
     ''### Setup Environment\<newline>'' @
     ''```bash\<newline>'' @
     ''cd /Users/jonafta/Dev/open-nic-shell-ji-mb/tb/tests/filter_rx_pipeline\<newline>'' @
     ''source venv/bin/activate\<newline>'' @
     ''pip install -r requirements.txt\<newline>'' @
     ''```\<newline>'' @
     ''\<newline>'' @
     ''### Test Execution (Always Verilator)\<newline>'' @
     ''```bash\<newline>'' @
     ''# The MCP server sets SIM=verilator automatically\<newline>'' @
     ''make test                    # Basic test with Verilator\<newline>'' @
     ''make test WAVES=1           # Generate VCD waveforms\<newline>'' @
     ''make test COCOTB_DEBUG=1    # Enable detailed logging\<newline>'' @
     ''```\<newline>'' @
     ''\<newline>'' @
     ''### Verilator-Specific Features\<newline>'' @
     ''- **Fast Compilation**: C++ backend for optimal performance\<newline>'' @
     ''- **VCD Waveforms**: `--trace --trace-structs` for detailed signals\<newline>'' @
     ''- **Lint Checking**: Built-in SystemVerilog compliance checking\<newline>'' @
     ''- **Coverage**: Optional `--coverage` for code coverage analysis\<newline>'' @
     ''\<newline>'' @
     ''## Debug Workflow Integration\<newline>'' @
     ''The MCP server provides enhanced debugging assistance:\<newline>'' @
     ''1. **Makefile Analysis**: Detects configuration issues\<newline>'' @
     ''2. **Interface Matching**: Validates port connections\<newline>'' @
     ''3. **Signal Cross-Reference**: Maps testbench to RTL signals\<newline>'' @
     ''4. **Build Dependency**: Tracks include files and packages\<newline>'' @
     ''\<newline>'' @
     ''## Test Structure\<newline>'' @
     ''- **test_filter_basic.py**: IPv4/IPv6 basic filtering\<newline>'' @
     ''- **test_filter_advanced.py**: Edge cases and stress tests\<newline>'' @
     ''- **test_csr_interface.py**: Register access validation\<newline>'' @
     ''- **test_performance.py**: Throughput and timing tests\<newline>'' @
     ''\<newline>'' @
     ''## Verilator Performance Optimization\<newline>'' @
     ''```bash\<newline>'' @
     ''# High-performance simulation options\<newline>'' @
     ''VERILATOR_ARGS="--threads 4 -O3" make test\<newline>'' @
     ''VERILATOR_ARGS="--x-assign unique --x-initial unique" make test\<newline>'' @
     ''```\<newline>'' @
     ''\<newline>'' @
     ''## Debugging with Enhanced Capabilities\<newline>'' @
     ''- **Syntax Validation**: Real-time SystemVerilog syntax checking\<newline>'' @
     ''- **Package Dependencies**: Automatic import resolution\<newline>'' @
     ''- **Signal Analysis**: Cross-reference test signals with RTL\<newline>'' @
     ''- **Build Issues**: Intelligent dependency detection and fixes\<newline>''\<close>

definition debug_workflow :: string where
  \<open>debug_workflow =
     ''# OpenNIC Filter Hardware Debug Workflow\<newline>'' @
     ''\<newline>'' @
     ''## Phase 1: Pre-Simulation Analysis\<newline>'' @
     ''1. **Verilog Syntax Check**\<newline>'' @
     ''   - MCP server validates SystemVerilog syntax\<newline>'' @
     ''   - Checks package import dependencies\<newline>'' @
     ''   - Identifies signal definition issues\<newline>'' @
     ''\<newline>'' @
     ''2. **Build Environment Validation**\<newline>'' @
     ''   - Makefile configuration analysis\<newline>'' @
     ''   - Simulator compatibility verification\<newline>'' @
     ''   - Dependency resolution checking\<newline>'' @
     ''\<newline>'' @
     ''## Phase 2: Compilation Debug\<newline>'' @
     ''1. **Verilator Lint Phase**\<newline>'' @
     ''   ```bash\<newline>'' @
     ''   verilator --lint-only -Wall filter_rx_pipeline.sv\<newline>'' @
     ''   ```\<newline>'' @
     ''\<newline>'' @
     ''2. **Package Dependency Resolution**\<newline>'' @
     ''   - Verify all imported packages are available\<newline>'' @
     ''   - Check include file paths\<newline>'' @
     ''   - Validate interface definitions\<newline>'' @
     ''\<newline>'' @
     ''## Phase 3: Simulation Debug\<newline>'' @
     ''1. **Signal Cross-Reference**\<newline>'' @
     ''   - Map testbench signals to RTL hierarchy\<newline>'' @
     ''   - Identify interface mismatches\<newline>'' @
     ''   - Validate clock domain connections\<newline>'' @
     ''\<newline>'' @
     ''2. **Waveform Analysis**\<newline>'' @
     ''   ```bash\<newline>'' @
     ''   # Generate detailed VCD with all signals\<newline>'' @
     ''   WAVES=1 VERILATOR_ARGS="--trace --trace-structs" make test\<newline>'' @
     ''   gtkwave sim_build/filter_rx_pipeline.vcd\<newline>'' @
     ''   ```\<newline>'' @
     ''\<newline>'' @
     ''## Phase 4: Functional Debug\<newline>'' @
     ''1. **Packet Processing Pipeline**\<newline>'' @
     ''   - Verify AXI-Stream handshaking\<newline>'' @
     ''   - Check packet parsing stages\<newline>'' @
     ''   - Validate filter decision logic\<newline>'' @
     ''\<newline>'' @
     ''2. **CSR Interface Debug**\<newline>'' @
     ''   - Test register read/write operations\<newline>'' @
     ''   - Verify address decoding\<newline>'' @
     ''   - Check statistics counter updates\<newline>'' @
     ''\<newline>'' @
     ''## Phase 5: Performance Debug\<newline>'' @
     ''1. **Timing Analysis**\<newline>'' @
     ''   - Check for combinational loops\<newline>'' @
     ''   - Verify pipeline stage timing\<newline>'' @
     ''   - Validate 250MHz operation\<newline>'' @
     ''\<newline>'' @
     ''2. **Throughput Validation**\<newline>'' @
     ''   - Measure packet processing rate\<newline>'' @
     ''   - Check for backpressure handling\<newline>'' @
     ''   - Validate flow control mechanisms\<newline>'' @
     ''\<newline>'' @
     ''## MCP Server Debug Tools\<newline>'' @
     ''- `analyze-verilog-syntax`: SystemVerilog validation\<newline>'' @
     ''- `check-interface-compatibility`: Port matching verification\<newline>'' @
     ''- `suggest-makefile-fixes`: Build configuration recommendations\<newline>'' @
     ''- `cross-reference-signals`: Test-to-RTL signal mapping\<newline>'' @
     ''\<newline>'' @
     ''## Common Issues and Solutions\<newline>'' @
     ''1. **Interface Mismatch**: Use signal cross-reference tool\<newline>'' @
     ''2. **Build Failures**: Run Makefile analysis for suggestions\<newline>'' @
     ''3. **Timing Violations**: Check pipeline stage implementation\<newline>'' @
     ''4. **Functional Errors**: Use waveform analysis with VCD viewer\<newline>''\<close>

definition requirementsPath :: string where
  "requirementsPath = ''/Users/jonafta/Dev/open-nic-shell-ji-mb/requirements.md''"

definition submissionPath :: string where
  "submissionPath = ''/Users/jonafta/Dev/open-nic-shell-ji-mb/opennic_packet_filter_submission.md''"

definition registerMapPath :: string where
  "registerMapPath = ''/Users/jonafta/Dev/open-nic-shell-ji-mb/plugin/p2p/box_250mhz/csr/doc/register_map.md''"

text \<open>The handler of \<^verbatim>\<open>ReadResourceRequestSchema\<close>: a switch on the uri.\<close>

definition readResource :: "world \<Rightarrow> string \<Rightarrow> content_block list io" where
  "readResource w u =
     (if u = ''opennic://filter-requirements'' then
        catchC
          (bindC (readFileContent w (JStr requirementsPath)) (\<lambda>content.
             returnC [text_block content]))
          (\<lambda>error. returnC [text_block
             ''Requirements document not found. Please ensure the OpenNIC project is available.''])
      else if u = ''opennic://filter-implementation'' then
        catchC
          (bindC (readFileContent w (JStr submissionPath)) (\<lambda>content.
             returnC [text_block content]))
          (\<lambda>error. returnC [text_block
             ''Implementation document not found. Please ensure the submission document exists.''])
      else if u = ''opennic://register-map'' then
        catchC
          (bindC (readFileContent w (JStr registerMapPath)) (\<lambda>content.
             returnC [text_block content]))
          (\<lambda>error. returnC [text_block
             ''Register map documentation not found.''])
      else if u = ''opennic://simulation-guide'' then returnC [text_block simulation_guide]
      else if u = ''opennic://debug-workflow'' then returnC [text_block debug_workflow]
      else throwC (McpError InvalidRequest (''Unknown resource: '' @ u)))"

subsection \<open>Tools\<close>

datatype json_type = TString | TBoolean

record property =
  property_name :: string
  property_type :: json_type
  enum_values :: "string list option"
  property_description :: string
  default_value :: "jsval option"

record tool =
  tool_name :: string
  tool_description :: string
  properties :: "property list"
  required :: "string list"

text \<open>The handler of \<^verbatim>\<open>ListToolsRequestSchema\<close>: the declared catalogue with its input schemas.\<close>

definition listTools :: "tool list" where
  "listTools =
     [\<lparr> tool_name = ''run-filter-simulation'',
         tool_description = ''Run OpenNIC packet filter simulation with Verilator (enforced)'',
         properties =
           [\<lparr> property_name = ''test_type'', property_type = TString,
              enum_values = Some [''basic'', ''advanced'', ''csr'', ''performance'', ''all''],
              property_description = ''Type of test to run'',
              default_value = None \<rparr>,
            \<lparr> property_name = ''debug'', property_type = TBoolean,
              enum_values = None,
              property_description = ''Enable debug logging'',
              default_value = None \<rparr>,
            \<lparr> property_name = ''waves'', property_type = TBoolean,
              enum_values = None,
              property_description = ''Generate VCD waveform files'',
              default_value = None \<rparr>],
         required = [''test_type''] \<rparr>,
      \<lparr> tool_name = ''analyze-verilog-syntax'',
         tool_description = ''Analyze SystemVerilog code for syntax and package dependencies'',
         properties =
           [\<lparr> property_name = ''file_path'', property_type = TString,
              enum_values = None,
              property_description = ''Path to SystemVerilog file to analyze'',
              default_value = None \<rparr>,
            \<lparr> property_name = ''check_packages'', property_type = TBoolean,
              enum_values = None,
              property_description = ''Check package import dependencies'',
              default_value = Some (JBool True) \<rparr>],
         required = [''file_path''] \<rparr>,
      \<lparr> tool_name = ''check-interface-compatibility'',
         tool_description = ''Verify interface connections between testbench and RTL'',
         properties =
           [\<lparr> property_name = ''testbench_file'', property_type = TString,
              enum_values = None,
              property_description = ''Path to testbench file'',
              default_value = None \<rparr>,
            \<lparr> property_name = ''rtl_file'', property_type = TString,
              enum_values = None,
              property_description = ''Path to RTL file'',
              default_value = None \<rparr>],
         required = [''testbench_file'', ''rtl_file''] \<rparr>,
      \<lparr> tool_name = ''suggest-makefile-fixes'',
         tool_description = ''Analyze Makefile and suggest configuration improvements'',
         properties =
           [\<lparr> property_name = ''makefile_path'', property_type = TString,
              enum_values = None,
              property_description = ''Path to Makefile to analyze'',
              default_value = None \<rparr>],
         required = [''makefile_path''] \<rparr>,
      \<lparr> tool_name = ''cross-reference-signals'',
         tool_description = ''Map testbench signals to RTL hierarchy for debugging'',
         properties =
           [\<lparr> property_name = ''hierarchy_level'', property_type = TString,
              enum_values = Some [''top'', ''filter'', ''parser'', ''all''],
              property_description = ''RTL hierarchy level to analyze'',
              default_value = None \<rparr>],
         required = [''hierarchy_level''] \<rparr>,
      \<lparr> tool_name = ''check-requirements-compliance'',
         tool_description = ''Check if the filter implementation meets specified requirements'',
         properties =
           [\<lparr> property_name = ''requirement_type'', property_type = TString,
              enum_values = Some [''functional'', ''interface'', ''performance'', ''all''],
              property_description = ''Type of requirements to check'',
              default_value = None \<rparr>],
         required = [''requirement_type''] \<rparr>]"

text \<open>
  \<^verbatim>\<open>const { a, b } = args\<close> throws a \<^verbatim>\<open>TypeError\<close> when \<^verbatim>\<open>args\<close> is \<^verbatim>\<open>undefined\<close>; the message
  names the first property of the pattern.
\<close>

definition destructure_error :: "string \<Rightarrow> jserror" where
  "destructure_error k =
     JsError ''TypeError''
       (''Cannot destructure property '' @ [CHR 0x27] @ k @ [CHR 0x27] @ '' of '' @ [CHR 0x27] @
        ''args'' @ [CHR 0x27] @ '' as it is undefined.'')"

text \<open>
  An assignment \<^verbatim>\<open>env.KEY = value\<close> on a \<^verbatim>\<open>Record<string, string>\<close>: a new key goes last,
  which is the order of \<^verbatim>\<open>Object.entries\<close>.
\<close>

fun env_set :: "string \<Rightarrow> string \<Rightarrow> (string \<times> string) list \<Rightarrow> (string \<times> string) list" where
  "env_set k v [] = [(k, v)]"
| "env_set k v ((k', v') # kvs) = (if k' = k then (k, v) # kvs else (k', v') # env_set k v kvs)"

definition testDir :: string where
  "testDir = ''/Users/jonafta/Dev/open-nic-shell-ji-mb/tb/tests/filter_rx_pipeline''"

text \<open>The command line of \<^verbatim>\<open>run-filter-simulation\<close>, as the handler builds it inside its \<^verbatim>\<open>try\<close>.\<close>

definition simulation_env :: "jsval \<Rightarrow> jsval \<Rightarrow> jsval \<Rightarrow> (string \<times> string) list" where
  "simulation_env test_type debug waves =
     (let env0 = [];
          env1 = env_set ''SIM'' ''verilator'' env0;
          env2 = (if truthy debug then env_set ''COCOTB_DEBUG'' ''1'' env1 else env1);
          env3 = (if truthy waves
                  then env_set ''EXTRA_ARGS'' ''--trace --trace-structs'' (env_set ''WAVES'' ''1'' env2)
                  else env2)
      in if test_type = JStr ''basic'' then env_set ''TESTCASE'' ''test_filter_basic'' env3
         else if test_type = JStr ''advanced'' then env_set ''TESTCASE'' ''test_filter_advanced'' env3
         else if test_type = JStr ''csr'' then env_set ''TESTCASE'' ''test_csr_interface'' env3
         else if test_type = JStr ''performance'' then env_set ''TESTCASE'' ''test_performance'' env3
         else env3)"

definition simulation_command :: "jsval \<Rightarrow> jsval \<Rightarrow> jsval \<Rightarrow> string" where
  "simulation_command test_type debug waves =
     (let makeCommand = ''make test'';
          envString = join '' '' (map (\<lambda>(key, value). key @ ''='' @ value)
                                   (simulation_env test_type debug waves));
          fullCommand = envString @ '' '' @ makeCommand
      in fullCommand)"

definition simulation_success_text :: "string \<Rightarrow> string \<times> string \<Rightarrow> string" where
  \<open>simulation_success_text fullCommand result =
     check_mark @ '' Verilator simulation completed successfully!\<newline>'' @
     ''\<newline>'' @
     wrench @ '' Command: '' @ fullCommand @ ''\<newline>'' @
     bar_chart @ '' Simulator: Verilator (enforced)\<newline>'' @
     ''\<newline>'' @
     clipboard @ '' STDOUT:\<newline>'' @
     fst result @ ''\<newline>'' @
     ''\<newline>'' @
     warning_sign @ ''  STDERR:\<newline>'' @
     snd result\<close>

definition simulation_failure_text :: "jserror \<Rightarrow> string" where
  \<open>simulation_failure_text error =
     cross_mark @ '' Verilator simulation failed: '' @ error_toString error @ ''\<newline>'' @
     ''\<newline>'' @
     magnifying_glass @ '' Troubleshooting Steps:\<newline>'' @
     ''1. Verify Verilator installation: verilator --version\<newline>'' @
     ''2. Check OpenNIC project setup\<newline>'' @
     ''3. Activate virtual environment\<newline>'' @
     ''4. Install dependencies: pip install -r requirements.txt\<newline>'' @
     ''5. Use 'suggest-makefile-fixes' tool for configuration issues''\<close>

definition run_filter_simulation :: "world \<Rightarrow> jsobject option \<Rightarrow> content_block list io" where
  "run_filter_simulation w args =
     (case args of
        None \<Rightarrow> throwC (destructure_error ''test_type'')
      | Some a \<Rightarrow>
          (let test_type = get_prop a ''test_type'';
               debug = with_default (get_prop a ''debug'') (JBool False);
               waves = with_default (get_prop a ''waves'') (JBool False)
           in catchC
                (bindC (access w testDir) (\<lambda>u.
                   let fullCommand = simulation_command test_type debug waves
                   in bindC (executeCommand w ''bash'' [JStr ''-c'', JStr fullCommand] (Some testDir))
                        (\<lambda>result. returnC [text_block (simulation_success_text fullCommand result)])))
                (\<lambda>error. returnC [text_block (simulation_failure_text error)])))"

text \<open>The report of \<^verbatim>\<open>analyze-verilog-syntax\<close> before the lint run is appended.\<close>

definition verilog_report :: "jsval \<Rightarrow> jsval \<Rightarrow> verilog_analysis \<Rightarrow> string" where
  \<open>verilog_report file_path check_packages analysis =
     (let report0 =
            ''# SystemVerilog Analysis Report\<newline>'' @
            ''\<newline>'' @
            ''**File:** '' @ toStr file_path @ ''\<newline>'' @
            ''\<newline>'' ;
          report1 =
            (if truthy check_packages then
               report0 @ ''## Package Dependencies\<newline>'' @
               (if length (package_dependencies analysis) > 0
                then join ''\<newline>'' (map (\<lambda>pkg. ''- '' @ pkg) (package_dependencies analysis)) @
                     ''\<newline>\<newline>''
                else ''No package imports found.\<newline>'' @ ''\<newline>'')
             else report0);
          report2 = report1 @ ''## Signal Definitions\<newline>'';
          report3 =
            (if length (signal_definitions analysis) > 0 then
               report2 @
               join ''\<newline>'' (map (\<lambda>sig. ''- '' @ sig) (take 10 (signal_definitions analysis))) @
               (if length (signal_definitions analysis) > 10
                then ''\<newline>'' @ ''... and '' @ string_of_nat (length (signal_definitions analysis) - 10) @ '' more signals\<newline>''
                else [])
             else report2 @ ''No signal definitions found.\<newline>'');
          report4 = report3 @ ''\<newline>'' @ ''## Interface Ports\<newline>'';
          report5 =
            (if length (interface_ports analysis) > 0
             then report4 @ join ''\<newline>'' (map (\<lambda>port. ''- '' @ port) (interface_ports analysis))
             else report4 @ ''No interface ports found.\<newline>'')
      in report5)\<close>

definition analyze_verilog_syntax :: "world \<Rightarrow> jsobject option \<Rightarrow> content_block list io" where
  \<open>analyze_verilog_syntax w args =
     (case args of
        None \<Rightarrow> throwC (destructure_error ''file_path'')
      | Some a \<Rightarrow>
          (let file_path = get_prop a ''file_path'';
               check_packages = with_default (get_prop a ''check_packages'') (JBool True)
           in catchC
                (bindC (analyzeVerilogFile w file_path) (\<lambda>analysis.
                   let report = verilog_report file_path check_packages analysis
                   in bindC
                        (catchC
                           (bindC (executeCommand w ''verilator''
                                     [JStr ''--lint-only'', JStr ''-Wall'', file_path] None)
                              (\<lambda>verilatorResult. returnC (report @
                                 ''\<newline>'' @
                                 ''## Verilator Syntax Check\<newline>'' @
                                 check_mark @ '' No syntax errors found.\<newline>'')))
                           (\<lambda>verilatorError. returnC (report @
                                 ''\<newline>'' @
                                 ''## Verilator Syntax Check\<newline>'' @
                                 warning_sign @ '' Issues found:\<newline>'' @
                                 error_toString verilatorError @ ''\<newline>'')))
                        (\<lambda>report'. returnC [text_block report'])))
                (\<lambda>error. returnC [text_block (cross_mark @ '' Verilog analysis failed: '' @ error_toString error)])))\<close>

text \<open>The two parts of the report of \<^verbatim>\<open>suggest-makefile-fixes\<close>.\<close>

definition makefile_issues_section :: "makefile_analysis \<Rightarrow> string" where
  \<open>makefile_issues_section analysis =
     (if length (issues analysis) > 0 then
        ''## Issues Found\<newline>'' @
        concat (map (\<lambda>(index, issue).
                  string_of_nat (index + 1) @ ''. '' @ warning_sign @ '' '' @ issue @ ''\<newline>'')
          (enumerate 0 (issues analysis))) @
        ''\<newline>''
      else [])\<close>

definition makefile_fixes_section :: "makefile_analysis \<Rightarrow> string" where
  \<open>makefile_fixes_section analysis =
     ''## Recommended Fixes\<newline>'' @
     (if simulator_config analysis \<noteq> ''verilator'' then
        ''1. '' @ wrench @ '' **Force Verilator Usage:**\<newline>'' @
        ''   Add to Makefile: `SIM ?= verilator`\<newline>'' @
        ''\<newline>''
      else []) @
     (if \<not> List.member (test_targets analysis) ''clean'' then
        ''2. '' @ broom @ '' **Add Clean Target:**\<newline>'' @
        ''   ```makefile\<newline>'' @
        ''   clean:\<newline>'' @
        ''       rm -rf sim_build/ __pycache__/ *.vcd\<newline>'' @
        ''   ```\<newline>'' @
        ''\<newline>''
      else []) @
     ''3. '' @ bar_chart @ '' **Enhanced Verilator Configuration:**\<newline>'' @
     ''   ```makefile\<newline>'' @
     ''   EXTRA_ARGS += --trace --trace-structs\<newline>'' @
     ''   EXTRA_ARGS += --x-assign unique --x-initial unique\<newline>'' @
     ''   COMPILE_ARGS += -Wall -Wno-fatal\<newline>'' @
     ''   ```\<newline>'' @
     ''\<newline>''\<close>

definition makefile_report :: "jsval \<Rightarrow> makefile_analysis \<Rightarrow> string" where
  \<open>makefile_report makefile_path analysis =
     ''# Makefile Analysis and Suggestions\<newline>'' @
     ''\<newline>'' @
     ''**File:** '' @ toStr makefile_path @ ''\<newline>'' @
     ''\<newline>'' @
     ''## Current Configuration\<newline>'' @
     ''- **Simulator:** '' @ simulator_config analysis @ ''\<newline>'' @
     ''- **Targets:** '' @ join '', '' (test_targets analysis) @ ''\<newline>'' @
     ''- **Dependencies:** '' @ (if join '', '' (dependencies analysis) = [] then ''None detected'' else join '', '' (dependencies analysis)) @
     ''\<newline>'' @
     ''\<newline>'' @
     makefile_issues_section analysis @
     makefile_fixes_section analysis\<close>

definition suggest_makefile_fixes :: "world \<Rightarrow> jsobject option \<Rightarrow> content_block list io" where
  \<open>suggest_makefile_fixes w args =
     (case args of
        None \<Rightarrow> throwC (destructure_error ''makefile_path'')
      | Some a \<Rightarrow>
          (let makefile_path = get_prop a ''makefile_path''
           in catchC
                (bindC (analyzeMakefile w makefile_path) (\<lambda>analysis.
                   returnC [text_block (makefile_report makefile_path analysis)]))
                (\<lambda>error. returnC [text_block (cross_mark @ '' Makefile analysis failed: '' @ error_toString error)])))\<close>

text \<open>
  The compatibility score of \<^verbatim>\<open>check-interface-compatibility\<close> is the floating-point value
  \<^verbatim>\<open>common / Math.max(total, 1) * 100\<close>. The handler takes the text
  \<^verbatim>\<open>score.toFixed(1)\<close> and the test \<^verbatim>\<open>score < 80\<close> as functions of the two lengths; their
  double-precision instance is \<^verbatim>\<open>double_score_ops\<close> below.
\<close>

record float_ops =
  score_toFixed1 :: "nat \<Rightarrow> nat \<Rightarrow> string"
  score_below_80 :: "nat \<Rightarrow> nat \<Rightarrow> bool"

definition compatibility_report ::
  "float_ops \<Rightarrow> jsval \<Rightarrow> jsval \<Rightarrow> verilog_analysis \<Rightarrow> verilog_analysis \<Rightarrow> string" where
  \<open>compatibility_report fl testbench_file rtl_file testbenchAnalysis rtlAnalysis =
     (let commonPorts = filter (\<lambda>port. List.member (interface_ports rtlAnalysis) port)
                          (interface_ports testbenchAnalysis);
          testbenchOnlyPorts = filter (\<lambda>port. \<not> List.member (interface_ports rtlAnalysis) port)
                                 (interface_ports testbenchAnalysis);
          rtlOnlyPorts = filter (\<lambda>port. \<not> List.member (interface_ports testbenchAnalysis) port)
                           (interface_ports rtlAnalysis);
          report0 = ''# Interface Compatibility Analysis\<newline>'' @ ''\<newline>'';
          report1 = report0 @ ''**Testbench:** '' @ toStr testbench_file @ ''\<newline>'' @
                              ''**RTL:** '' @ toStr rtl_file @ ''\<newline>'' @ ''\<newline>'';
          report2 = report1 @ ''## '' @ check_mark @ '' Matching Interfaces\<newline>'';
          report3 =
            (if length commonPorts > 0
             then report2 @ join ''\<newline>'' (map (\<lambda>port. ''- '' @ port) commonPorts) @ ''\<newline>\<newline>''
             else report2 @ ''No matching port names found.\<newline>'' @ ''\<newline>'');
          report4 =
            (if length testbenchOnlyPorts > 0
             then report3 @ ''## '' @ warning_sign @ '' Testbench-Only Signals\<newline>'' @
                  join ''\<newline>'' (map (\<lambda>port. ''- '' @ port) testbenchOnlyPorts) @ ''\<newline>\<newline>''
             else report3);
          report5 =
            (if length rtlOnlyPorts > 0
             then report4 @ ''## '' @ warning_sign @ '' RTL-Only Ports\<newline>'' @
                  join ''\<newline>'' (map (\<lambda>port. ''- '' @ port) rtlOnlyPorts) @ ''\<newline>\<newline>''
             else report4);
          total = max (length (interface_ports testbenchAnalysis)) 1;
          report6 = report5 @ ''## Compatibility Score: '' @ score_toFixed1 fl (length commonPorts) total @ ''%\<newline>''
      in if score_below_80 fl (length commonPorts) total
         then report6 @ ''\<newline>'' @
              warning_sign @ '' **Recommendation:** Review interface connections - '' @
              ''low compatibility score suggests potential issues.\<newline>''
         else report6)\<close>

definition check_interface_compatibility ::
  "float_ops \<Rightarrow> world \<Rightarrow> jsobject option \<Rightarrow> content_block list io" where
  \<open>check_interface_compatibility fl w args =
     (case args of
        None \<Rightarrow> throwC (destructure_error ''testbench_file'')
      | Some a \<Rightarrow>
          (let testbench_file = get_prop a ''testbench_file'';
               rtl_file = get_prop a ''rtl_file''
           in catchC
                (bindC (analyzeVerilogFile w testbench_file) (\<lambda>testbenchAnalysis.
                 bindC (analyzeVerilogFile w rtl_file) (\<lambda>rtlAnalysis.
                   returnC [text_block
                     (compatibility_report fl testbench_file rtl_file testbenchAnalysis rtlAnalysis)])))
                (\<lambda>error. returnC [text_block (cross_mark @ '' Interface compatibility check failed: '' @ error_toString error)])))\<close>


definition signalMap :: "(string \<times> string list) list" where
  "signalMap =
     [(''top'',
       [''aclk - Main clock signal'',
        ''aresetn - Active-low reset'',
        ''s_axis_* - Input AXI-Stream interface'',
        ''m_axis_* - Output AXI-Stream interface'',
        ''s_axil_* - AXI-Lite configuration interface'']),
      (''filter'',
       [''filter_enable - Enable/disable filtering'',
        ''rule_*_ip_addr - Filter rule IP addresses'',
        ''rule_*_port - Filter rule port numbers'',
        ''hit_count_* - Statistics counters'',
        ''packet_match - Filter decision output'']),
      (''parser'',
       [''eth_type - Ethernet type field'',
        ''ip_version - IP version (4 or 6)'',
        ''ip_dst_addr - Destination IP address'',
        ''tcp_dst_port - TCP destination port'',
        ''udp_dst_port - UDP destination port'',
        ''parse_valid - Parser output valid''])]"

text \<open>
  A property read \<^verbatim>\<open>signalMap[key]\<close> also finds the properties every object inherits from
  \<^verbatim>\<open>Object.prototype\<close>; none of them is an array.
\<close>

definition object_prototype_keys :: "string list" where
  "object_prototype_keys =
     [''constructor'', ''__defineGetter__'', ''__defineSetter__'', ''hasOwnProperty'',
      ''__lookupGetter__'', ''__lookupSetter__'', ''isPrototypeOf'', ''propertyIsEnumerable'',
      ''toString'', ''valueOf'', ''__proto__'', ''toLocaleString'']"

text \<open>\<^verbatim>\<open>toUpperCase\<close> and \<^verbatim>\<open>toLowerCase\<close> on the letters below U+0100 that stay below U+0100.\<close>

definition upper_char :: "char \<Rightarrow> char" where
  "upper_char c =
     (let n = (of_char c :: nat)
      in if (97 \<le> n \<and> n \<le> 122) \<or> (224 \<le> n \<and> n \<le> 254 \<and> n \<noteq> 247) then char_of (n - 32) else c)"

definition lower_char :: "char \<Rightarrow> char" where
  "lower_char c =
     (let n = (of_char c :: nat)
      in if (65 \<le> n \<and> n \<le> 90) \<or> (192 \<le> n \<and> n \<le> 222 \<and> n \<noteq> 215) then char_of (n + 32) else c)"

definition toUpperCase :: "string \<Rightarrow> string" where
  "toUpperCase s = map upper_char s"

definition toLowerCase :: "string \<Rightarrow> string" where
  "toLowerCase s = map lower_char s"

definition testbench_access_patterns :: string where
  \<open>testbench_access_patterns =
     ''## Testbench Access Patterns\<newline>'' @
     ''```python\<newline>'' @
     ''# Access top-level signals\<newline>'' @
     ''await ClockCycles(dut.aclk, 10)\<newline>'' @
     ''dut.aresetn.value = 0\<newline>'' @
     ''\<newline>'' @
     ''# Access filter configuration\<newline>'' @
     ''dut.rule_0_ip_addr.value = 0x0A000001  # 10.0.0.1\<newline>'' @
     ''await ClockCycles(dut.aclk, 1)\<newline>'' @
     ''\<newline>'' @
     ''# Monitor statistics\<newline>'' @
     ''hit_count = dut.hit_count_0.value\<newline>'' @
     ''```\<newline>''\<close>

definition cross_reference_signals :: "jsobject option \<Rightarrow> content_block list io" where
  \<open>cross_reference_signals args =
     (case args of
        None \<Rightarrow> throwC (destructure_error ''hierarchy_level'')
      | Some a \<Rightarrow>
          (let hierarchy_level = get_prop a ''hierarchy_level''
           in catchC
                (let report0 =
                       ''# Signal Cross-Reference Map\<newline>'' @
                       ''\<newline>'' @
                       ''**Hierarchy Level:** '' @ toStr hierarchy_level @ ''\<newline>'' @
                       ''\<newline>''
                 in bindC
                      (if hierarchy_level = JStr ''all'' then
                         returnC (report0 @
                           concat (map (\<lambda>(level, signals).
                             ''## '' @ toUpperCase level @ '' Level\<newline>'' @
                             join ''\<newline>'' (map (\<lambda>sig. ''- '' @ sig) signals) @ ''\<newline>\<newline>'') signalMap))
                       else
                         (case map_of signalMap (toStr hierarchy_level) of
                            Some signals \<Rightarrow>
                              returnC (report0 @ ''## Signal Definitions\<newline>'' @
                                join ''\<newline>'' (map (\<lambda>sig. ''- '' @ sig) signals) @ ''\<newline>\<newline>'')
                          | None \<Rightarrow>
                              if List.member object_prototype_keys (toStr hierarchy_level)
                              then throwC (JsError ''TypeError''
                                     ''signalMap[hierarchy_level]?.map is not a function'')
                              else returnC (report0 @ ''## Signal Definitions\<newline>'' @
                                     ''undefined'' @ ''\<newline>\<newline>'')))
                      (\<lambda>report. returnC [text_block (report @ testbench_access_patterns)]))
                (\<lambda>error. returnC [text_block (cross_mark @ '' Signal cross-reference failed: '' @ error_toString error)])))\<close>


record compliance_check =
  check_name :: string
  check_text :: string
  status :: string

definition functional_checks :: "compliance_check list" where
  "functional_checks =
     [\<lparr> check_name = ''IPv4/IPv6 Filtering'',
          check_text = ''Verify packet parsing and filtering logic'',
          status = check_mark @ '' Implemented in filter_rx_pipeline.sv with Verilator validation'' \<rparr>,
      \<lparr> check_name = ''Port-based Filtering'',
          check_text = ''Verify TCP/UDP port filtering'',
          status = check_mark @ '' Implemented with wildcard support and syntax validation'' \<rparr>,
      \<lparr> check_name = ''Statistics Counters'',
          check_text = ''Verify hit/miss/total counters'',
          status = check_mark @ '' Implemented in CSR registers with interface compatibility check'' \<rparr>]"

definition interface_checks :: "compliance_check list" where
  "interface_checks =
     [\<lparr> check_name = ''AXI-Stream Interface'',
          check_text = ''Verify 512-bit data width compliance'',
          status = check_mark @ '' Maintains existing interface with cross-reference validation'' \<rparr>,
      \<lparr> check_name = ''AXI-Lite CSR Interface'',
          check_text = ''Verify register map at 0xB000'',
          status = check_mark @ '' Implemented with proper addressing and Makefile integration'' \<rparr>]"

definition performance_checks :: "compliance_check list" where
  "performance_checks =
     [\<lparr> check_name = ''Throughput Maintenance'',
          check_text = ''Verify no performance degradation'',
          status = check_mark @ '' Single-cycle filtering decision with Verilator timing analysis'' \<rparr>,
      \<lparr> check_name = ''Clock Domain'',
          check_text = ''Verify 250MHz operation'',
          status = check_mark @ '' Integrated in 250MHz user box with dependency validation'' \<rparr>]"

definition checksToRun :: "jsval \<Rightarrow> compliance_check list" where
  "checksToRun requirement_type =
     (if requirement_type = JStr ''functional'' \<or> requirement_type = JStr ''all''
      then functional_checks else []) @
     (if requirement_type = JStr ''interface'' \<or> requirement_type = JStr ''all''
      then interface_checks else []) @
     (if requirement_type = JStr ''performance'' \<or> requirement_type = JStr ''all''
      then performance_checks else [])"

definition compliance_text :: "jsval \<Rightarrow> string" where
  \<open>compliance_text requirement_type =
     (let report = join ''\<newline>'' (map (\<lambda>check.
                        ''**'' @ check_name check @ ''**\<newline>'' @
                        ''- Check: '' @ check_text check @ ''\<newline>'' @
                        ''- Status: '' @ status check @ ''\<newline>'')
                     (checksToRun requirement_type))
      in
        ''# Enhanced Requirements Compliance Report\<newline>'' @
        ''\<newline>'' @
        report @ ''\<newline>'' @
        ''\<newline>'' @
        ''**Overall Status**: '' @ check_mark @ '' All specified requirements met with enhanced verification capabilities\<newline>'' @
        ''\<newline>'' @
        ''**Verification Tools Used:**\<newline>'' @
        ''- Verilator syntax validation\<newline>'' @
        ''- Interface compatibility checking\<newline>'' @
        ''- Signal cross-referencing\<newline>'' @
        ''- Makefile configuration analysis'')\<close>

definition check_requirements_compliance :: "jsobject option \<Rightarrow> content_block list io" where
  \<open>check_requirements_compliance args =
     (case args of
        None \<Rightarrow> throwC (destructure_error ''requirement_type'')
      | Some a \<Rightarrow>
          (let requirement_type = get_prop a ''requirement_type''
           in catchC
                (returnC [text_block (compliance_text requirement_type)])
                (\<lambda>error. returnC [text_block (cross_mark @ '' Requirements compliance check failed: '' @ error_toString error)])))\<close>


text \<open>The handler of \<^verbatim>\<open>CallToolRequestSchema\<close>: a switch on the tool name.\<close>

definition callTool :: "float_ops \<Rightarrow> world \<Rightarrow> string \<Rightarrow> jsobject option \<Rightarrow> content_block list io" where
  "callTool fl w name args =
     (if name = ''run-filter-simulation'' then run_filter_simulation w args
      else if name = ''analyze-verilog-syntax'' then analyze_verilog_syntax w args
      else if name = ''suggest-makefile-fixes'' then suggest_makefile_fixes w args
      else if name = ''check-interface-compatibility'' then check_interface_compatibility fl w args
      else if name = ''cross-reference-signals'' then cross_reference_signals args
      else if name = ''check-requirements-compliance'' then check_requirements_compliance args
      else throwC (McpError InvalidRequest (''Unknown tool: '' @ name)))"

subsection \<open>Prompts\<close>

record prompt_argument =
  arg_name :: string
  arg_description :: string
  arg_required :: bool

record prompt =
  prompt_name :: string
  prompt_description :: string
  arguments :: "prompt_argument list"

definition listPrompts :: "prompt list" where
  "listPrompts =
     [\<lparr> prompt_name = ''create-test-scenario'',
         prompt_description = ''Generate a comprehensive test scenario for the packet filter'',
         arguments =
           [\<lparr> arg_name = ''scenario_type'',
              arg_description = ''Type of test scenario (basic, advanced, edge_case, performance)'',
              arg_required = True \<rparr>,
            \<lparr> arg_name = ''packet_type'',
              arg_description = ''IPv4 or IPv6 packet type'',
              arg_required = False \<rparr>,
            \<lparr> arg_name = ''include_debug'',
              arg_description = ''Include debugging and analysis steps'',
              arg_required = False \<rparr>] \<rparr>,
      \<lparr> prompt_name = ''debug-workflow-guide'',
         prompt_description = ''Generate a specific debug workflow for a given issue'',
         arguments =
           [\<lparr> arg_name = ''issue_type'',
              arg_description = ''Type of issue (compilation, simulation, functional, timing)'',
              arg_required = True \<rparr>,
            \<lparr> arg_name = ''symptoms'',
              arg_description = ''Observed symptoms or error messages'',
              arg_required = False \<rparr>] \<rparr>]"

text \<open>A rendered prompt: its description and one message of the user role.\<close>

record prompt_message =
  role :: string
  message_content :: content_block

record prompt_result =
  description :: string
  messages :: "prompt_message list"

text \<open>\<^verbatim>\<open>args?.key || fallback\<close> on the string-valued arguments of a prompt.\<close>

definition arg_or :: "(string \<rightharpoonup> string) option \<Rightarrow> string \<Rightarrow> string \<Rightarrow> string" where
  "arg_or args k fallback =
     (case args of
        None \<Rightarrow> fallback
      | Some a \<Rightarrow> (case a k of None \<Rightarrow> fallback | Some v \<Rightarrow> if v = [] then fallback else v))"

text \<open>\<^verbatim>\<open>args?.include_debug || false\<close>, then used as a condition.\<close>

definition arg_truthy :: "(string \<rightharpoonup> string) option \<Rightarrow> string \<Rightarrow> bool" where
  "arg_truthy args k =
     (case args of
        None \<Rightarrow> False
      | Some a \<Rightarrow> (case a k of None \<Rightarrow> False | Some v \<Rightarrow> v \<noteq> []))"


definition test_scenario_text :: "string \<Rightarrow> string \<Rightarrow> bool \<Rightarrow> string" where
  \<open>test_scenario_text scenarioType packetType includeDebug =
     ''# Test Scenario: '' @ scenarioType @ '' - '' @ packetType @ '' Packet Filtering\<newline>'' @
     ''\<newline>'' @
     ''## Test Objective\<newline>'' @
     ''Verify packet filter behavior for '' @ scenarioType @ '' scenario using '' @ packetType @ '' packets with Verilator simulation.\<newline>'' @
     ''\<newline>'' @
     ''## Prerequisites Verification\<newline>'' @
     ''- [ ] Verilator installation: `verilator --version`\<newline>'' @
     ''- [ ] SystemVerilog syntax validation complete\<newline>'' @
     ''- [ ] Interface compatibility verified\<newline>'' @
     ''- [ ] Makefile configuration optimized\<newline>'' @
     ''\<newline>'' @
     ''## Test Setup\<newline>'' @
     ''1. **Configure Filter Rules:**\<newline>'' @
     ''   - Rule 0: [Define specific '' @ packetType @ '' criteria]\<newline>'' @
     ''   - Rule 1: [Define specific '' @ packetType @ '' criteria]\<newline>'' @
     ''\<newline>'' @
     ''2. **Generate Test Packets:**\<newline>'' @
     ''   - Protocol: '' @ packetType @ ''\<newline>'' @
     ''   - Source: [IP address]\<newline>'' @
     ''   - Destination: [IP address] \<newline>'' @
     ''   - Port: [TCP/UDP port]\<newline>'' @
     ''   - Payload: [Test data pattern]\<newline>'' @
     ''\<newline>'' @
     ''3. **Verilator Configuration:**\<newline>'' @
     ''   ```bash\<newline>'' @
     ''   SIM=verilator WAVES=1 EXTRA_ARGS="--trace --trace-structs" make test\<newline>'' @
     ''   ```\<newline>'' @
     ''\<newline>'' @
     ''## Expected Results\<newline>'' @
     ''- '' @ check_mark @ '' Matching packets: Forwarded with statistics update\<newline>'' @
     ''- '' @ cross_mark @ '' Non-matching packets: Dropped with counter increment\<newline>'' @
     ''- '' @ bar_chart @ '' Statistics: Accurate counter updates verified\<newline>'' @
     ''\<newline>'' @
     ''## Verification Points\<newline>'' @
     ''- [ ] Packet parsing correctness (use analyze-verilog-syntax)\<newline>'' @
     ''- [ ] Filter rule matching logic\<newline>'' @
     ''- [ ] AXI-Stream flow control (check-interface-compatibility) \<newline>'' @
     ''- [ ] CSR register updates (cross-reference-signals)\<newline>'' @
     ''\<newline>'' @
     ''## Enhanced Debugging Steps\<newline>'' @
     (if includeDebug then
        ''\<newline>'' @
        ''### Debug Analysis\<newline>'' @
        ''1. **Pre-simulation:**\<newline>'' @
        ''   - Run `analyze-verilog-syntax` on filter RTL\<newline>'' @
        ''   - Use `suggest-makefile-fixes` for build optimization\<newline>'' @
        ''   - Verify with `check-interface-compatibility`\<newline>'' @
        ''\<newline>'' @
        ''2. **During Simulation:**\<newline>'' @
        ''   - Monitor signals with `cross-reference-signals`\<newline>'' @
        ''   - Generate VCD waveforms for analysis\<newline>'' @
        ''   - Check real-time statistics updates\<newline>'' @
        ''\<newline>'' @
        ''3. **Post-simulation:**\<newline>'' @
        ''   - Analyze waveforms with GTKWave\<newline>'' @
        ''   - Validate against requirements compliance\<newline>'' @
        ''   - Performance analysis with Verilator metrics\<newline>''
      else []) @
     ''\<newline>'' @
     ''\<newline>'' @
     ''## Cocotb Test Code Template\<newline>'' @
     ''```python\<newline>'' @
     ''@cocotb.test()\<newline>'' @
     ''async def test_'' @ toLowerCase scenarioType @ ''_'' @ toLowerCase packetType @ ''(dut):\<newline>'' @
     ''    """Enhanced '' @ scenarioType @ '' test with debugging support"""\<newline>'' @
     ''    \<newline>'' @
     ''    # Initialize with Verilator-optimized setup\<newline>'' @
     ''    clock = Clock(dut.aclk, 4, units="ns")  # 250MHz\<newline>'' @
     ''    cocotb.start_soon(clock.start())\<newline>'' @
     ''    \<newline>'' @
     ''    # Reset sequence with signal validation\<newline>'' @
     ''    dut.aresetn.value = 0\<newline>'' @
     ''    await ClockCycles(dut.aclk, 10)\<newline>'' @
     ''    dut.aresetn.value = 1\<newline>'' @
     ''    await ClockCycles(dut.aclk, 10)\<newline>'' @
     ''    \<newline>'' @
     ''    # Configure filter rules (use cross-reference for signal names)\<newline>'' @
     ''    # [Configuration code here]\<newline>'' @
     ''    \<newline>'' @
     ''    # Send test packets with AXI-Stream verification\<newline>'' @
     ''    # [Packet generation code here]\<newline>'' @
     ''    \<newline>'' @
     ''    # Verify results with enhanced checking\<newline>'' @
     ''    # [Verification code here]\<newline>'' @
     ''    \<newline>'' @
     ''    # Debug output with signal cross-reference\<newline>'' @
     ''    dut._log.info(f"Test completed - Use VCD analysis for detailed review")\<newline>'' @
     ''```\<newline>'' @
     ''\<newline>'' @
     ''## Performance Metrics\<newline>'' @
     ''- Simulation speed: Expected 10-100x faster with Verilator\<newline>'' @
     ''- Memory usage: Monitor with Verilator built-in profiling\<newline>'' @
     ''- Coverage: Optional `--coverage` flag for analysis\<newline>''\<close>

definition debug_workflow_guide_text :: "string \<Rightarrow> string \<Rightarrow> string" where
  \<open>debug_workflow_guide_text issueType symptoms =
     ''# Debug Workflow Guide: '' @ issueType @ '' Issues\<newline>'' @
     ''\<newline>'' @
     ''## Issue Classification\<newline>'' @
     ''**Type:** '' @ issueType @ ''\<newline>'' @
     ''**Symptoms:** '' @ symptoms @ ''\<newline>'' @
     ''\<newline>'' @
     ''## Systematic Debug Approach\<newline>'' @
     ''\<newline>'' @
     ''### Phase 1: Environment Validation\<newline>'' @
     ''1. **Simulator Check:**\<newline>'' @
     ''   ```bash\<newline>'' @
     ''   verilator --version  # Must be v4.200+\<newline>'' @
     ''   which verilator      # Verify PATH\<newline>'' @
     ''   ```\<newline>'' @
     ''\<newline>'' @
     ''2. **Project Structure:**\<newline>'' @
     ''   - Use `analyze-verilog-syntax` on main RTL files\<newline>'' @
     ''   - Run `suggest-makefile-fixes` for configuration issues\<newline>'' @
     ''   - Verify dependencies with build analysis\<newline>'' @
     ''\<newline>'' @
     ''### Phase 2: Targeted Analysis\<newline>'' @
     (if issueType = ''compilation'' then
        ''\<newline>'' @
        ''**Compilation-Specific Steps:**\<newline>'' @
        ''1. Run Verilator lint: `verilator --lint-only -Wall *.sv`\<newline>'' @
        ''2. Check package imports with syntax analyzer\<newline>'' @
        ''3. Validate include paths and dependencies\<newline>'' @
        ''4. Review Makefile configuration suggestions\<newline>''
      else []) @
     ''\<newline>'' @
     ''\<newline>'' @
     (if issueType = ''simulation'' then
        ''\<newline>'' @
        ''**Simulation-Specific Steps:**\<newline>'' @
        ''1. Use `check-interface-compatibility` for testbench/RTL matching\<newline>'' @
        ''2. Enable detailed logging: `COCOTB_DEBUG=1`\<newline>'' @
        ''3. Generate waveforms: `WAVES=1` with trace analysis\<newline>'' @
        ''4. Cross-reference signals for hierarchy validation\<newline>''
      else []) @
     ''\<newline>'' @
     ''\<newline>'' @
     (if issueType = ''functional'' then
        ''\<newline>'' @
        ''**Functional-Specific Steps:**\<newline>'' @
        ''1. Use `cross-reference-signals` to map test to RTL\<newline>'' @
        ''2. Analyze packet processing pipeline stages  \<newline>'' @
        ''3. Verify filter logic with waveform analysis\<newline>'' @
        ''4. Check CSR interface with register cross-reference\<newline>''
      else []) @
     ''\<newline>'' @
     ''\<newline>'' @
     (if issueType = ''timing'' then
        ''\<newline>'' @
        ''**Timing-Specific Steps:**\<newline>'' @
        ''1. Review pipeline implementation for combinational loops\<newline>'' @
        ''2. Check clock domain crossings\<newline>'' @
        ''3. Analyze critical path with Verilator timing reports\<newline>'' @
        ''4. Validate 250MHz constraint compliance\<newline>''
      else []) @
     ''\<newline>'' @
     ''\<newline>'' @
     ''### Phase 3: Resolution Steps\<newline>'' @
     ''1. **Apply MCP Tool Recommendations:**\<newline>'' @
     ''   - Follow suggestions from Makefile analyzer\<newline>'' @
     ''   - Implement interface compatibility fixes\<newline>'' @
     ''   - Use signal cross-reference for debugging\<newline>'' @
     ''\<newline>'' @
     ''2. **Iterative Testing:**\<newline>'' @
     ''   - Test with simplified scenarios first\<newline>'' @
     ''   - Gradually increase complexity\<newline>'' @
     ''   - Use enhanced debugging capabilities\<newline>'' @
     ''\<newline>'' @
     ''3. **Validation:**\<newline>'' @
     ''   - Run comprehensive test suite\<newline>'' @
     ''   - Verify with requirements compliance check\<newline>'' @
     ''   - Document resolution for future reference\<newline>'' @
     ''\<newline>'' @
     ''## MCP Tools for This Issue Type\<newline>'' @
     (if issueType = ''compilation'' then
        ''\<newline>'' @
        ''- `analyze-verilog-syntax`: Check RTL files\<newline>'' @
        ''- `suggest-makefile-fixes`: Fix build configuration\<newline>''
      else []) @
     ''\<newline>'' @
     (if issueType = ''simulation'' then
        ''\<newline>'' @
        ''- `check-interface-compatibility`: Verify connections\<newline>'' @
        ''- `cross-reference-signals`: Map testbench signals\<newline>''
      else []) @
     ''\<newline>'' @
     (if issueType = ''functional'' then
        ''\<newline>'' @
        ''- `cross-reference-signals`: Debug signal flow\<newline>'' @
        ''- `check-requirements-compliance`: Verify functionality\<newline>''
      else []) @
     ''\<newline>'' @
     (if issueType = ''timing'' then
        ''\<newline>'' @
        ''- `analyze-verilog-syntax`: Check for timing issues\<newline>'' @
        ''- `run-filter-simulation`: Performance testing\<newline>''
      else []) @
     ''\<newline>'' @
     ''\<newline>'' @
     ''## Success Criteria\<newline>'' @
     ''- [ ] Issue symptoms resolved\<newline>'' @
     ''- [ ] All MCP tools report clean status\<newline>'' @
     ''- [ ] Simulation runs successfully with Verilator\<newline>'' @
     ''- [ ] Requirements compliance verified\<newline>''\<close>

text \<open>The handler of \<^verbatim>\<open>GetPromptRequestSchema\<close>.\<close>

definition getPrompt :: "string \<Rightarrow> (string \<rightharpoonup> string) option \<Rightarrow> prompt_result io" where
  \<open>getPrompt name args =
     (if name = ''create-test-scenario'' then
        (let scenarioType = arg_or args ''scenario_type'' ''basic'';
             packetType = arg_or args ''packet_type'' ''IPv4'';
             includeDebug = arg_truthy args ''include_debug''
         in returnC
              \<lparr> description = ''Enhanced test scenario for '' @ scenarioType @ '' with '' @ packetType @ '' packets'',
                messages = [\<lparr> role = ''user'',
                              message_content =
                                text_block (test_scenario_text scenarioType packetType includeDebug) \<rparr>] \<rparr>)
      else if name = ''debug-workflow-guide'' then
        (let issueType = arg_or args ''issue_type'' ''compilation'';
             symptoms = arg_or args ''symptoms'' ''Not specified''
         in returnC
              \<lparr> description = ''Debug workflow guide for '' @ issueType @ '' issues'',
                messages = [\<lparr> role = ''user'',
                              message_content =
                                text_block (debug_workflow_guide_text issueType symptoms) \<rparr>] \<rparr>)
      else throwC (McpError InvalidRequest (''Unknown prompt: '' @ name)))\<close>

section \<open>The earlier module\<close>

text \<open>
  The repository also holds the earlier version of the module (\<^verbatim>\<open>src/index.ts\<close>): three
  tools, no analyzers, and a simulation command without the simulator assignment. Its
  \<^verbatim>\<open>readFileContent\<close> and \<^verbatim>\<open>executeCommand\<close> are the ones above; its tool catalogue and its
  handler of \<^verbatim>\<open>CallToolRequestSchema\<close> follow.
\<close>

definition listTools_earlier :: "tool list" where
  "listTools_earlier =
     [\<lparr> tool_name = ''run-filter-simulation'',
         tool_description = ''Run OpenNIC packet filter simulation tests'',
         properties =
           [\<lparr> property_name = ''test_type'', property_type = TString,
              enum_values = Some [''basic'', ''advanced'', ''csr'', ''all''],
              property_description = ''Type of test to run'',
              default_value = None \<rparr>,
            \<lparr> property_name = ''debug'', property_type = TBoolean,
              enum_values = None,
              property_description = ''Enable debug logging'',
              default_value = None \<rparr>,
            \<lparr> property_name = ''waves'', property_type = TBoolean,
              enum_values = None,
              property_description = ''Generate waveform files'',
              default_value = None \<rparr>],
         required = [''test_type''] \<rparr>,
      \<lparr> tool_name = ''check-requirements-compliance'',
         tool_description = ''Check if the filter implementation meets specified requirements'',
         properties =
           [\<lparr> property_name = ''requirement_type'', property_type = TString,
              enum_values = Some [''functional'', ''interface'', ''performance'', ''all''],
              property_description = ''Type of requirements to check'',
              default_value = None \<rparr>],
         required = [''requirement_type''] \<rparr>,
      \<lparr> tool_name = ''analyze-filter-code'',
         tool_description = ''Analyze the filter implementation code for potential issues'',
         properties =
           [\<lparr> property_name = ''analysis_type'', property_type = TString,
              enum_values = Some [''syntax'', ''logic'', ''timing'', ''all''],
              property_description = ''Type of analysis to perform'',
              default_value = None \<rparr>],
         required = [''analysis_type''] \<rparr>]"

definition simulation_env_earlier :: "jsval \<Rightarrow> jsval \<Rightarrow> jsval \<Rightarrow> (string \<times> string) list" where
  "simulation_env_earlier test_type debug waves =
     (let env0 = [];
          env1 = (if truthy debug then env_set ''COCOTB_DEBUG'' ''1'' env0 else env0);
          env2 = (if truthy waves then env_set ''WAVES'' ''1'' env1 else env1)
      in if test_type = JStr ''basic'' then env_set ''TESTCASE'' ''test_filter_basic'' env2
         else if test_type = JStr ''advanced'' then env_set ''TESTCASE'' ''test_filter_advanced'' env2
         else if test_type = JStr ''csr'' then env_set ''TESTCASE'' ''test_csr_interface'' env2
         else env2)"

definition simulation_command_earlier :: "jsval \<Rightarrow> jsval \<Rightarrow> jsval \<Rightarrow> string" where
  "simulation_command_earlier test_type debug waves =
     (let makeCommand = ''make test'';
          envString = join '' '' (map (\<lambda>(key, value). key @ ''='' @ value)
                                   (simulation_env_earlier test_type debug waves));
          fullCommand = envString @ '' '' @ makeCommand
      in fullCommand)"

definition simulation_success_text_earlier :: "string \<times> string \<Rightarrow> string" where
  \<open>simulation_success_text_earlier result =
     ''Simulation completed successfully!\<newline>'' @
     ''\<newline>'' @
     ''STDOUT:\<newline>'' @
     fst result @ ''\<newline>'' @
     ''\<newline>'' @
     ''STDERR:\<newline>'' @
     snd result\<close>

definition simulation_failure_text_earlier :: "jserror \<Rightarrow> string" where
  \<open>simulation_failure_text_earlier error =
     ''Simulation failed: '' @ error_toString error @ ''\<newline>'' @
     ''\<newline>'' @
     ''Please ensure:\<newline>'' @
     ''1. OpenNIC project is set up correctly\<newline>'' @
     ''2. Virtual environment is activated\<newline>'' @
     ''3. All dependencies are installed''\<close>

definition run_filter_simulation_earlier :: "world \<Rightarrow> jsobject option \<Rightarrow> content_block list io" where
  "run_filter_simulation_earlier w args =
     (case args of
        None \<Rightarrow> throwC (destructure_error ''test_type'')
      | Some a \<Rightarrow>
          (let test_type = get_prop a ''test_type'';
               debug = with_default (get_prop a ''debug'') (JBool False);
               waves = with_default (get_prop a ''waves'') (JBool False)
           in catchC
                (bindC (access w testDir) (\<lambda>u.
                   let fullCommand = simulation_command_earlier test_type debug waves
                   in bindC (executeCommand w ''bash'' [JStr ''-c'', JStr fullCommand] (Some testDir))
                        (\<lambda>result. returnC [text_block (simulation_success_text_earlier result)])))
                (\<lambda>error. returnC [text_block (simulation_failure_text_earlier error)])))"

definition functional_checks_earlier :: "compliance_check list" where
  "functional_checks_earlier =
     [\<lparr> check_name = ''IPv4/IPv6 Filtering'',
          check_text = ''Verify packet parsing and filtering logic'',
          status = check_mark @ '' Implemented in filter_rx_pipeline.sv'' \<rparr>,
      \<lparr> check_name = ''Port-based Filtering'',
          check_text = ''Verify TCP/UDP port filtering'',
          status = check_mark @ '' Implemented with wildcard support'' \<rparr>,
      \<lparr> check_name = ''Statistics Counters'',
          check_text = ''Verify hit/miss/total counters'',
          status = check_mark @ '' Implemented in CSR registers'' \<rparr>]"

definition interface_checks_earlier :: "compliance_check list" where
  "interface_checks_earlier =
     [\<lparr> check_name = ''AXI-Stream Interface'',
          check_text = ''Verify 512-bit data width compliance'',
          status = check_mark @ '' Maintains existing interface'' \<rparr>,
      \<lparr> check_name = ''AXI-Lite CSR Interface'',
          check_text = ''Verify register map at 0xB000'',
          status = check_mark @ '' Implemented with proper addressing'' \<rparr>]"

definition performance_checks_earlier :: "compliance_check list" where
  "performance_checks_earlier =
     [\<lparr> check_name = ''Throughput Maintenance'',
          check_text = ''Verify no performance degradation'',
          status = check_mark @ '' Single-cycle filtering decision'' \<rparr>,
      \<lparr> check_name = ''Clock Domain'',
          check_text = ''Verify 250MHz operation'',
          status = check_mark @ '' Integrated in 250MHz user box'' \<rparr>]"

definition checksToRun_earlier :: "jsval \<Rightarrow> compliance_check list" where
  "checksToRun_earlier requirement_type =
     (if requirement_type = JStr ''functional'' \<or> requirement_type = JStr ''all''
      then functional_checks_earlier else []) @
     (if requirement_type = JStr ''interface'' \<or> requirement_type = JStr ''all''
      then interface_checks_earlier else []) @
     (if requirement_type = JStr ''performance'' \<or> requirement_type = JStr ''all''
      then performance_checks_earlier else [])"

definition compliance_text_earlier :: "jsval \<Rightarrow> string" where
  \<open>compliance_text_earlier requirement_type =
     (let report = join ''\<newline>'' (map (\<lambda>check.
                        ''**'' @ check_name check @ ''**\<newline>'' @
                        ''- Check: '' @ check_text check @ ''\<newline>'' @
                        ''- Status: '' @ status check @ ''\<newline>'')
                     (checksToRun_earlier requirement_type))
      in
        ''# Requirements Compliance Report\<newline>'' @
        ''\<newline>'' @
        report @ ''\<newline>'' @
        ''\<newline>'' @
        ''**Overall Status**: All specified requirements appear to be met based on implementation review.'')\<close>

definition check_requirements_compliance_earlier :: "jsobject option \<Rightarrow> content_block list io" where
  \<open>check_requirements_compliance_earlier args =
     (case args of
        None \<Rightarrow> throwC (destructure_error ''requirement_type'')
      | Some a \<Rightarrow>
          (let requirement_type = get_prop a ''requirement_type''
           in catchC
                (returnC [text_block (compliance_text_earlier requirement_type)])
                (\<lambda>error. returnC [text_block (''Failed to check requirements: '' @ error_toString error)])))\<close>

record code_analysis =
  analysis_kind :: string
  analysis_description :: string
  analysis_result :: string

definition filterDir :: string where
  "filterDir = ''/Users/jonafta/Dev/open-nic-shell-ji-mb/plugin/p2p/box_250mhz/filter_rx_pipeline/src''"

definition syntax_analysis :: code_analysis where
  "syntax_analysis =
     \<lparr> analysis_kind = ''Syntax Check'',
       analysis_description = ''Basic SystemVerilog syntax validation'',
       analysis_result = ''Use: iverilog -t null -Wall filter_rx_pipeline.sv'' \<rparr>"

definition logic_analysis :: code_analysis where
  "logic_analysis =
     \<lparr> analysis_kind = ''Logic Analysis'',
       analysis_description = ''Review packet parsing and filtering logic'',
       analysis_result = ''Review IPv4/IPv6 header extraction, port matching, and statistics update logic'' \<rparr>"

definition timing_analysis :: code_analysis where
  "timing_analysis =
     \<lparr> analysis_kind = ''Timing Analysis'',
       analysis_description = ''Check for potential timing issues'',
       analysis_result = ''Verify pipeline stages meet 250MHz constraint - consider adding pipeline registers if needed'' \<rparr>"

definition analyses_earlier :: "jsval \<Rightarrow> code_analysis list" where
  "analyses_earlier analysis_type =
     (if analysis_type = JStr ''syntax'' \<or> analysis_type = JStr ''all'' then [syntax_analysis] else []) @
     (if analysis_type = JStr ''logic'' \<or> analysis_type = JStr ''all'' then [logic_analysis] else []) @
     (if analysis_type = JStr ''timing'' \<or> analysis_type = JStr ''all'' then [timing_analysis] else [])"

definition code_analysis_text :: "jsval \<Rightarrow> string" where
  \<open>code_analysis_text analysis_type =
     (let report = join ''\<newline>'' (map (\<lambda>analysis.
                        ''**'' @ analysis_kind analysis @ ''**\<newline>'' @
                        ''- '' @ analysis_description analysis @ ''\<newline>'' @
                        ''- Recommendation: '' @ analysis_result analysis @ ''\<newline>'')
                     (analyses_earlier analysis_type))
      in
        ''# Filter Code Analysis\<newline>'' @
        ''\<newline>'' @
        report @ ''\<newline>'' @
        ''\<newline>'' @
        ''**Note**: For detailed analysis, run the specific tools mentioned above.'')\<close>

definition analyze_filter_code :: "world \<Rightarrow> jsobject option \<Rightarrow> content_block list io" where
  \<open>analyze_filter_code w args =
     (case args of
        None \<Rightarrow> throwC (destructure_error ''analysis_type'')
      | Some a \<Rightarrow>
          (let analysis_type = get_prop a ''analysis_type''
           in catchC
                (bindC (access w filterDir) (\<lambda>u.
                   returnC [text_block (code_analysis_text analysis_type)]))
                (\<lambda>error. returnC [text_block (
                   ''Code analysis failed: '' @ error_toString error @ ''\<newline>'' @
                   ''\<newline>'' @
                   ''Please ensure the filter source directory exists.'')])))\<close>

definition callTool_earlier :: "world \<Rightarrow> string \<Rightarrow> jsobject option \<Rightarrow> content_block list io" where
  "callTool_earlier w name args =
     (if name = ''run-filter-simulation'' then run_filter_simulation_earlier w args
      else if name = ''check-requirements-compliance'' then check_requirements_compliance_earlier args
      else if name = ''analyze-filter-code'' then analyze_filter_code w args
      else throwC (McpError InvalidRequest (''Unknown tool: '' @ name)))"
section \<open>Sample worlds\<close>

text \<open>
  Concrete worlds for the instances below: a file system with the given files and
  directories, in which every child process emits the given events. A path that is not
  there fails the way the runtime reports it, and so does a path that is not a string.
\<close>

definition enoent :: "string \<Rightarrow> string \<Rightarrow> jserror" where
  "enoent syscall p =
     JsError ''Error''
       (''ENOENT: no such file or directory, '' @ syscall @ '' '' @ [CHR 0x27] @ p @ [CHR 0x27])"

definition received :: "jsval \<Rightarrow> string" where
  "received v =
     (case v of
        JUndefined \<Rightarrow> ''Received undefined''
      | JNull \<Rightarrow> ''Received null''
      | JBool b \<Rightarrow> ''Received type boolean ('' @ toStr v @ '')''
      | JStr s \<Rightarrow> ''Received type string ('' @ [CHR 0x27] @ s @ [CHR 0x27] @ '')'')"

definition invalid_path :: "jsval \<Rightarrow> jserror" where
  \<open>invalid_path v =
     JsError ''TypeError [ERR_INVALID_ARG_TYPE]''
       (''The "path" argument must be of type string or an instance of Buffer or URL. '' @
        received v)\<close>

definition sample_world :: "(string \<times> string) list \<Rightarrow> string list \<Rightarrow> child_event list \<Rightarrow> world" where
  "sample_world files dirs evs =
     \<lparr> fs_readFile = (\<lambda>h p. case p of
                            JStr s \<Rightarrow> (case map_of files s of
                                         Some content \<Rightarrow> Inr content
                                       | None \<Rightarrow> Inl (enoent ''open'' s))
                          | JUndefined \<Rightarrow> Inl (invalid_path p)
                          | JNull \<Rightarrow> Inl (invalid_path p)
                          | JBool b \<Rightarrow> Inl (invalid_path p)),
       fs_access = (\<lambda>h p. if List.member dirs p then None else Some (enoent ''access'' p)),
       child_process_spawn = (\<lambda>h command args cwd. Spawned evs) \<rparr>"

text \<open>
  The score of the interface check in double precision. A double is written as a fraction
  of two naturals. \<^verbatim>\<open>round_double a b\<close> is the double nearest to \<^verbatim>\<open>a / b\<close> (53 significant
  bits, ties to even; the lengths of two port lists stay far from the subnormal and the
  infinite range). The score is the rounded quotient, times 100, rounded again;
  \<^verbatim>\<open>toFixed(1)\<close> takes the nearest tenth of the exact value of that double, the larger one
  of two equally near.
\<close>

fun bit_length :: "nat \<Rightarrow> nat" where
  "bit_length n = (if n = 0 then 0 else Suc (bit_length (n div 2)))"

declare bit_length.simps [simp del]

definition round_half_even :: "nat \<Rightarrow> nat \<Rightarrow> nat" where
  "round_half_even num den =
     (let q = num div den; r = num mod den
      in if 2 * r < den then q
         else if den < 2 * r then q + 1
         else if even q then q else q + 1)"

definition round_double :: "nat \<Rightarrow> nat \<Rightarrow> nat \<times> nat" where
  "round_double a b =
     (if a = 0 then (0, 1)
      else
        let e0 = int (bit_length a) - int (bit_length b);
            ge = (if 0 \<le> e0 then b * 2 ^ nat e0 \<le> a else b \<le> a * 2 ^ nat (- e0));
            e = (if ge then e0 else e0 - 1);
            sh = 52 - e
        in if 0 \<le> sh then (round_half_even (a * 2 ^ nat sh) b, 2 ^ nat sh)
           else (round_half_even a (b * 2 ^ nat (- sh)) * 2 ^ nat (- sh), 1))"

definition score_double :: "nat \<Rightarrow> nat \<Rightarrow> nat \<times> nat" where
  "score_double common_length ports_length =
     (let quotient = round_double common_length ports_length
      in round_double (fst quotient * 100) (snd quotient))"

definition double_score_ops :: float_ops where
  "double_score_ops =
     \<lparr> score_toFixed1 = (\<lambda>common total.
          let score = score_double common total;
              tenths = (20 * fst score + snd score) div (2 * snd score)
          in string_of_nat (tenths div 10) @ ''.'' @ string_of_nat (tenths mod 10)),
       score_below_80 = (\<lambda>common total.
          let score = score_double common total in fst score < 80 * snd score) \<rparr>"

section \<open>Properties\<close>

subsection \<open>Substrings\<close>

lemma starts_with_iff: "starts_with s p \<longleftrightarrow> (\<exists>b. s = p @ b)"
  by (induction s p rule: starts_with.induct) auto

lemma includes_str_iff: "includes_str s p \<longleftrightarrow> (\<exists>a b. s = a @ p @ b)"
proof (induction s)
  case Nil
  then show ?case by auto
next
  case (Cons c cs)
  show ?case
  proof
    assume "includes_str (c # cs) p"
    then consider "starts_with (c # cs) p" | "includes_str cs p" by auto
    then show "\<exists>a b. c # cs = a @ p @ b"
    proof cases
      case 1
      then obtain b where "c # cs = p @ b" by (auto simp: starts_with_iff)
      then have "c # cs = [] @ p @ b" by simp
      then show ?thesis by blast
    next
      case 2
      then obtain a b where "cs = a @ p @ b" using Cons.IH by blast
      then have "c # cs = (c # a) @ p @ b" by simp
      then show ?thesis by blast
    qed
  next
    assume "\<exists>a b. c # cs = a @ p @ b"
    then obtain a b where ab: "c # cs = a @ p @ b" by blast
    show "includes_str (c # cs) p"
    proof (cases a)
      case Nil
      with ab have "starts_with (c # cs) p" by (auto simp: starts_with_iff)
      then show ?thesis by simp
    next
      case (Cons x xs)
      with ab have "cs = xs @ p @ b" by simp
      then have "includes_str cs p" using Cons.IH by blast
      then show ?thesis by simp
    qed
  qed
qed

lemma includes_str_mid: "includes_str (a @ p @ b) p"
  using includes_str_iff by blast

lemma includes_str_here: "includes_str (p @ b) p"
  using includes_str_mid [of "[]" p b] by simp

lemma includes_str_later: "includes_str t p \<Longrightarrow> includes_str (a @ t) p"
  by (metis append.assoc includes_str_iff)

lemma includes_str_last: "includes_str p p"
  using includes_str_here [of p "[]"] by simp

lemmas includes_str_search = includes_str_here includes_str_last includes_str_later

subsection \<open>Awaiting and catching\<close>

lemma read_or_fallback:
  "catchC (bindC (readFileContent w p) (\<lambda>content. returnC [text_block content]))
          (\<lambda>error. returnC [text_block msg]) h =
     (h @ [FsReadFile p],
      Returns [text_block (case fs_readFile w h p of Inl e \<Rightarrow> msg | Inr content \<Rightarrow> content)])"
  by (simp add: catchC_def bindC_def returnC_def readFileContent_def split: sum.splits)

lemma executeCommand_fst: "fst (executeCommand w command args cwd h) = h @ [Spawn command args cwd]"
  by (simp add: executeCommand_def split: spawn_result.splits)

lemma executeCommand_pair:
  "executeCommand w command args cwd h =
     (h @ [Spawn command args cwd], snd (executeCommand w command args cwd h))"
  using executeCommand_fst [of w command args cwd h] by (metis prod.collapse)

subsection \<open>The Process Runner\<close>

lemma executeCommand_events_acc:
  "executeCommand_events evs out err =
     (case first_settling evs of
        None \<Rightarrow> Pending
      | Some (Close code) \<Rightarrow>
          if code = Some 0 then Returns (out @ emitted_stdout evs, err @ emitted_stderr evs)
          else Throws (JsError ''Error''
                 (''Command failed with exit code '' @ exit_code_string code @ '': '' @ err @ emitted_stderr evs))
      | Some (ErrorEvent e) \<Rightarrow> Throws e
      | Some ev \<Rightarrow> Pending)"
proof (induction evs out err rule: executeCommand_events.induct)
qed (auto simp: first_settling_def emitted_stdout_def emitted_stderr_def split: option.splits child_event.splits)

lemma first_settling_not_data:
  "first_settling evs \<noteq> Some (StdoutData d)" "first_settling evs \<noteq> Some (StderrData d)"
  by (induction evs) (auto simp: first_settling_def)

lemma executeCommand_events_cases:
  "executeCommand_events evs [] [] =
     (case first_settling evs of
        None \<Rightarrow> Pending
      | Some (Close code) \<Rightarrow>
          if code = Some 0 then Returns (emitted_stdout evs, emitted_stderr evs)
          else Throws (JsError ''Error''
                 (''Command failed with exit code '' @ exit_code_string code @ '': '' @ emitted_stderr evs))
      | Some (ErrorEvent e) \<Rightarrow> Throws e
      | Some ev \<Rightarrow> Pending)"
  using executeCommand_events_acc [of evs "[]" "[]"]
  by (auto split: option.splits child_event.splits)

text \<open>
  C5, as the claim states it, fails on a spawn failure. A working directory that does not
  exist makes the child emit \<^verbatim>\<open>error\<close> and then \<^verbatim>\<open>close\<close> with code -2; the promise is rejected
  with the spawn error as it is, which carries neither the exit code nor captured stderr.
\<close>

theorem executeCommand_spawn_failure_counterexample:
  "snd (executeCommand
          (sample_world [] [] [ErrorEvent (JsError ''Error'' ''spawn /bin/sh ENOENT''), Close (Some (- 2))])
          ''bash'' [JStr ''-c'', JStr ''SIM=verilator make test''] (Some ''/missing'') [])
     = Throws (JsError ''Error'' ''spawn /bin/sh ENOENT'')
   \<and> \<not> includes_str ''spawn /bin/sh ENOENT'' ''exit code''"
  by (simp add: executeCommand_def sample_world_def)

text \<open>
  C5, amended. For every command, argument list and working directory, with the events
  the child emits: the call is recorded; it resolves successfully if and only if the first
  settling event is a close with exit code zero, and then with the stdout and stderr
  emitted so far; a close with any other exit code is a failure whose message carries the
  exit code and the captured stderr; an \<^verbatim>\<open>error\<close> event (a spawn failure) is a failure with
  the spawn error itself; a child that never closes leaves the call pending.
\<close>

theorem executeCommand_outcome:
  assumes "child_process_spawn w h command args cwd = Spawned evs"
  shows "fst (executeCommand w command args cwd h) = h @ [Spawn command args cwd]
    \<and> ((\<exists>r. snd (executeCommand w command args cwd h) = Returns r)
          \<longleftrightarrow> first_settling evs = Some (Close (Some 0)))
    \<and> (first_settling evs = Some (Close (Some 0)) \<longrightarrow>
          snd (executeCommand w command args cwd h) = Returns (emitted_stdout evs, emitted_stderr evs))
    \<and> (\<forall>code. first_settling evs = Some (Close code) \<and> code \<noteq> Some 0 \<longrightarrow>
          snd (executeCommand w command args cwd h) =
            Throws (JsError ''Error''
              (''Command failed with exit code '' @ exit_code_string code @ '': '' @ emitted_stderr evs)))
    \<and> (\<forall>error. first_settling evs = Some (ErrorEvent error) \<longrightarrow>
          snd (executeCommand w command args cwd h) = Throws error)
    \<and> (first_settling evs = None \<longrightarrow> snd (executeCommand w command args cwd h) = Pending)"
proof -
  have run: "executeCommand w command args cwd h =
               (h @ [Spawn command args cwd], executeCommand_events evs [] [])"
    using assms by (simp add: executeCommand_def)
  show ?thesis
    unfolding run fst_conv snd_conv executeCommand_events_cases
    using first_settling_not_data [of evs]
    by (auto split: option.splits child_event.splits)
qed

theorem executeCommand_outcome_witness:
  "snd (executeCommand (sample_world [] [] [StdoutData ''hello'', StdoutData '' world'', Close (Some 0)])
          ''echo'' [JStr ''hello world''] None []) = Returns (''hello world'', [])
   \<and> snd (executeCommand (sample_world [] [] [StderrData ''boom'', Close (Some 1)])
          ''false'' [] None []) = Throws (JsError ''Error'' ''Command failed with exit code 1: boom'')
   \<and> snd (executeCommand (sample_world [] [] [ErrorEvent (JsError ''Error'' ''spawn /bin/sh ENOENT'')])
          ''make'' [] (Some ''/nowhere'') []) = Throws (JsError ''Error'' ''spawn /bin/sh ENOENT'')"
proof -
  let ?w2 = "sample_world [] [] [ErrorEvent (JsError ''Error'' ''spawn /bin/sh ENOENT'')]"
  have s2: "child_process_spawn ?w2 [] ''make'' [] (Some ''/nowhere'') =
              Spawned [ErrorEvent (JsError ''Error'' ''spawn /bin/sh ENOENT'')]"
    by (simp add: sample_world_def)
  let ?w0 = "sample_world [] [] [StdoutData ''hello'', StdoutData '' world'', Close (Some 0)]"
  let ?w1 = "sample_world [] [] [StderrData ''boom'', Close (Some 1)]"
  have s0: "child_process_spawn ?w0 [] ''echo'' [JStr ''hello world''] None =
              Spawned [StdoutData ''hello'', StdoutData '' world'', Close (Some 0)]"
    by (simp add: sample_world_def)
  have s1: "child_process_spawn ?w1 [] ''false'' [] None = Spawned [StderrData ''boom'', Close (Some 1)]"
    by (simp add: sample_world_def)
  have n1: "string_of_nat 1 = ''1''"
    by code_simp
  show ?thesis
    using executeCommand_outcome [OF s0] executeCommand_outcome [OF s1]
      executeCommand_outcome [OF s2] n1
    by (simp add: first_settling_def emitted_stdout_def emitted_stderr_def string_of_int_def)
qed

subsection \<open>Build-script analysis of the empty text\<close>

text \<open>
  C7. Build-script analysis applied to the empty string returns the simulator name
  \<^verbatim>\<open>not_specified\<close>, no targets, no dependencies, and exactly three diagnostics in the order
  of the checks: simulator unset, missing \<^verbatim>\<open>COCOTB_\<close> configuration, missing
  \<^verbatim>\<open>VERILOG_SOURCES\<close>.
\<close>

theorem analyzeMakefile_content_empty:
  "analyzeMakefile_content [] =
     \<lparr> simulator_config = ''not_specified'',
       test_targets = [],
       dependencies = [],
       issues = [''SIM variable not explicitly set - may cause simulator selection issues'',
                 ''Missing COCOTB configuration variables'',
                 ''VERILOG_SOURCES not defined - required for compilation''] \<rparr>
   \<and> length (issues (analyzeMakefile_content [])) = 3"
  by code_simp

subsection \<open>The extraction passes\<close>

text \<open>
  A pattern without \<^verbatim>\<open>^\<close> matches the same way whatever character precedes the position:
  the results of two attempts on the same rest of the input differ in the first component
  only.
\<close>

lemma same_rest_refl: "list_all2 (\<lambda>x y. snd x = snd y) xs xs"
  by (simp add: list_all2_refl)

lemma star_run_prev:
  "list_all2 (\<lambda>x y. snd x = snd y) (star_run cl p s g) (star_run cl q s g)"
  by (cases s) (auto intro: list_all2_appendI same_rest_refl)

lemma concat_related:
  assumes "list_all2 R xs ys" and "\<And>x y. R x y \<Longrightarrow> list_all2 R (f x) (f y)"
  shows "list_all2 R (concat (map f xs)) (concat (map f ys))"
  using assms(1) by induction (auto intro: list_all2_appendI assms(2))

lemma re_match_prev:
  "bol_free r \<Longrightarrow> snd st = snd st' \<Longrightarrow>
     list_all2 (\<lambda>x y. snd x = snd y) (re_match r st) (re_match r st')"
proof (induction r arbitrary: st st')
  case (Lit l)
  then show ?case by (cases st; cases st') auto
next
  case (One cl)
  then show ?case by (cases st; cases st') (auto split: list.splits)
next
  case (Star cl)
  then show ?case by (cases st; cases st') (auto intro: star_run_prev)
next
  case (Plus cl)
  then show ?case by (cases st; cases st') (auto split: list.splits intro: same_rest_refl)
next
  case (Opt r)
  have "list_all2 (\<lambda>x y. snd x = snd y) (re_match r st) (re_match r st')"
    using Opt.prems by (intro Opt.IH) simp_all
  moreover have "list_all2 (\<lambda>x y. snd x = snd y) [st] [st']"
    using Opt.prems by simp
  ultimately show ?case by (simp add: list_all2_appendI)
next
  case (Alt a b)
  have "list_all2 (\<lambda>x y. snd x = snd y) (re_match a st) (re_match a st')"
    using Alt.prems by (intro Alt.IH) simp_all
  moreover have "list_all2 (\<lambda>x y. snd x = snd y) (re_match b st) (re_match b st')"
    using Alt.prems by (intro Alt.IH) simp_all
  ultimately show ?case by (simp add: list_all2_appendI)
next
  case (Seq a b)
  have "list_all2 (\<lambda>x y. snd x = snd y)
          (concat (map (re_match b) (re_match a st))) (concat (map (re_match b) (re_match a st')))"
    using Seq by (intro concat_related) auto
  then show ?case by simp
next
  case (Group r)
  obtain p s g where st: "st = (p, s, g)" by (cases st) auto
  with Group.prems obtain q where st': "st' = (q, s, g)" by (cases st') auto
  have "list_all2 (\<lambda>x y. snd x = snd y) (re_match r (p, s, g)) (re_match r (q, s, g))"
    using Group by simp
  then show ?case
    unfolding st st'
    by (auto simp: list_all2_map1 list_all2_map2 elim!: list_all2_mono)
next
  case Bol
  then show ?case by simp
qed

lemma re_match_all_prev:
  assumes "bol_free r"
  shows "re_match_all r p s = re_match_all r q s"
proof (induction "length s" arbitrary: p q s rule: less_induct)
  case less
  have rel: "list_all2 (\<lambda>x y. snd x = snd y) (re_match r (p, s, [])) (re_match r (q, s, []))"
    by (rule re_match_prev [OF assms]) simp
  show ?case
  proof (cases "re_match r (p, s, [])")
    case Nil
    with rel have "re_match r (q, s, []) = []" by simp
    with Nil show ?thesis
      by (subst re_match_all.simps [of r p s], subst re_match_all.simps [of r q s]) simp
  next
    case (Cons x xs)
    with rel obtain y ys where q: "re_match r (q, s, []) = y # ys" and xy: "snd x = snd y"
      by (auto simp: list_all2_Cons1)
    obtain p' s' g where x: "x = (p', s', g)" by (cases x) auto
    with xy obtain q' where y: "y = (q', s', g)" by (cases y) auto
    have "re_match_all r p' s' = re_match_all r q' s'" if "length s' < length s"
      using less that by blast
    then show ?thesis
      by (subst re_match_all.simps [of r p s], subst re_match_all.simps [of r q s])
         (simp add: Cons q x y)
  qed
qed

lemma bol_free_passes: "bol_free import_re" "bol_free signal_re" "bol_free port_re"
  by (simp_all add: import_re_def signal_re_def port_re_def range_re_def)

text \<open>An identifier followed by a character that is not a letter, a digit or an underscore.\<close>

lemma word_char:
  "is_word c \<Longrightarrow> \<not> is_space c"
  "is_word c \<Longrightarrow> c \<noteq> CHR ''[''"
  "\<not> is_word CHR '';''" "\<not> is_word CHR '':''" "\<not> is_space CHR '';''"
  by (auto simp: is_word_def is_space_def Let_def)

lemma word_run:
  "list_all is_word r \<Longrightarrow> \<not> is_word c \<Longrightarrow>
     \<exists>shorter. star_run Word p (r @ c # rest) g =
       ((if r = [] then p else Some (last r)), c # rest, g) # shorter"
proof (induction r arbitrary: p)
  case Nil
  then show ?case by simp
next
  case (Cons x xs)
  then obtain shorter where
    "star_run Word (Some x) (xs @ c # rest) g =
       ((if xs = [] then Some x else Some (last xs)), c # rest, g) # shorter"
    by fastforce
  with Cons.prems show ?case by simp
qed

lemma group_word:
  assumes "r \<noteq> []" and "list_all is_word r" and "\<not> is_word c"
  shows "\<exists>shorter. re_match (Group (Plus Word)) (p, r @ c # rest, g) =
           (Some (last r), c # rest, g @ [r]) # shorter"
proof -
  from assms(1) obtain x xs where r: "r = x # xs" by (cases r) auto
  with assms(2) have x: "is_word x" and xs: "list_all is_word xs" by simp_all
  from word_run [OF xs assms(3)] obtain shorter where
    "star_run Word (Some x) (xs @ c # rest) g =
       ((if xs = [] then Some x else Some (last xs)), c # rest, g) # shorter"
    by blast
  then show ?thesis
    unfolding r using x by simp
qed

lemma declarator:
  assumes "r \<noteq> []" and "list_all is_word r" and "\<not> is_word c"
  shows "\<exists>shorter. re_match (seqs [Opt range_re, Star Space, Group (Plus Word)]) (p, r @ c # rest, g) =
           (Some (last r), c # rest, g @ [r]) # shorter"
proof -
  from assms(1) obtain x xs where r: "r = x # xs" by (cases r) auto
  with assms(2) have x: "\<not> is_space x" "x \<noteq> CHR ''[''" by (simp_all add: word_char)
  from group_word [OF assms] obtain shorter where
    g: "re_match (Group (Plus Word)) (p, r @ c # rest, g) =
          (Some (last r), c # rest, g @ [r]) # shorter"
    by blast
  have "re_match (seqs [Opt range_re, Star Space, Group (Plus Word)]) (p, r @ c # rest, g) =
          re_match (Group (Plus Word)) (p, r @ c # rest, g)"
    unfolding r using x by (simp add: range_re_def)
  then show ?thesis
    unfolding g by simp
qed

lemma import_at:
  assumes "w \<noteq> []" and "list_all is_word w"
  shows "\<exists>shorter. re_match import_re (p, ''import '' @ w @ ''::*'' @ rest, []) =
           (Some CHR ''*'', rest, [w]) # shorter"
proof -
  from assms(1) obtain x xs where w: "w = x # xs" by (cases w) auto
  with assms(2) have x: "\<not> is_space x" by (simp add: word_char)
  from group_word [OF assms word_char(4)] obtain shorter where
    g: "re_match (Group (Plus Word)) (Some CHR '' '', w @ CHR '':'' # '':*'' @ rest, []) =
          (Some (last w), CHR '':'' # '':*'' @ rest, [] @ [w]) # shorter"
    by blast
  have "re_match import_re (p, ''import '' @ w @ ''::*'' @ rest, []) =
          concat (map (re_match (Lit ''::*''))
            (re_match (Group (Plus Word)) (Some CHR '' '', w @ CHR '':'' # '':*'' @ rest, [])))"
    using x by (simp add: import_re_def is_space_def w)
  then show ?thesis
    unfolding g by simp
qed

lemma signal_at:
  assumes "w \<noteq> []" and "list_all is_word w"
  shows "\<exists>shorter. re_match signal_re (p, ''logic '' @ w @ '';'' @ rest, []) =
           (Some (last w), '';'' @ rest, [w]) # shorter"
proof -
  from assms(1) obtain x xs where w: "w = x # xs" by (cases w) auto
  with assms(2) have x: "\<not> is_space x" by (simp add: word_char)
  from declarator [OF assms word_char(3)] obtain shorter where
    d: "re_match (seqs [Opt range_re, Star Space, Group (Plus Word)])
          (Some CHR '' '', w @ CHR '';'' # rest, []) =
        (Some (last w), CHR '';'' # rest, [] @ [w]) # shorter"
    by blast
  have "re_match signal_re (p, ''logic '' @ w @ '';'' @ rest, []) =
          re_match (seqs [Opt range_re, Star Space, Group (Plus Word)])
            (Some CHR '' '', w @ CHR '';'' # rest, [])"
    using x by (simp add: signal_re_def is_space_def w)
  then show ?thesis
    unfolding d by simp
qed

lemma prefix_of_word:
  "starts_with (w @ c # rest) l \<Longrightarrow> c \<notin> set l \<Longrightarrow> \<exists>v. w = l @ v"
proof (induction l arbitrary: w)
  case Nil
  then show ?case by simp
next
  case (Cons a l)
  then show ?case by (cases w) auto
qed

lemma keyword_states:
  assumes "k \<in> set (re_match (Alt (Lit ''logic'') (Alt (Lit ''wire'') (Lit ''reg'')))
                      (p, w @ CHR '';'' # rest, g))"
    and "list_all is_word w"
  shows "\<exists>p' v. k = (p', v @ CHR '';'' # rest, g) \<and> list_all is_word v"
proof -
  have drop_keyword: "\<exists>v. drop (length l) (w @ CHR '';'' # rest) = v @ CHR '';'' # rest \<and> list_all is_word v"
    if "starts_with (w @ CHR '';'' # rest) l" "CHR '';'' \<notin> set l" for l
  proof -
    from prefix_of_word [OF that] obtain v where "w = l @ v" by blast
    with assms(2) show ?thesis by simp
  qed
  from assms(1) consider
      "starts_with (w @ CHR '';'' # rest) ''logic''"
        "k = (Some CHR ''c'', drop (length ''logic'') (w @ CHR '';'' # rest), g)"
    | "starts_with (w @ CHR '';'' # rest) ''wire''"
        "k = (Some CHR ''e'', drop (length ''wire'') (w @ CHR '';'' # rest), g)"
    | "starts_with (w @ CHR '';'' # rest) ''reg''"
        "k = (Some CHR ''g'', drop (length ''reg'') (w @ CHR '';'' # rest), g)"
    by (auto split: if_splits)
  then show ?thesis
  proof cases
    case 1
    from drop_keyword [OF 1(1)] 1(2) show ?thesis by auto
  next
    case 2
    from drop_keyword [OF 2(1)] 2(2) show ?thesis by auto
  next
    case 3
    from drop_keyword [OF 3(1)] 3(2) show ?thesis by auto
  qed
qed

lemma port_declarator:
  assumes "list_all is_word r"
  shows "re_match (seqs [Star Space, Opt range_re, Star Space, Group (Plus Word)])
           (p, r @ CHR '';'' # rest, g) = [] \<and> r = []
         \<or> (\<exists>shorter. re_match (seqs [Star Space, Opt range_re, Star Space, Group (Plus Word)])
                        (p, r @ CHR '';'' # rest, g) =
                      (Some (last r), CHR '';'' # rest, g @ [r]) # shorter)"
proof (cases r)
  case Nil
  then show ?thesis by (simp add: range_re_def word_char)
next
  case (Cons x xs)
  with assms have x: "\<not> is_space x" by (simp add: word_char)
  have r: "r \<noteq> []" using Cons by simp
  from declarator [OF r assms word_char(3)] obtain shorter where
    d: "re_match (seqs [Opt range_re, Star Space, Group (Plus Word)]) (p, r @ CHR '';'' # rest, g) =
          (Some (last r), CHR '';'' # rest, g @ [r]) # shorter"
    by blast
  have "re_match (seqs [Star Space, Opt range_re, Star Space, Group (Plus Word)])
          (p, r @ CHR '';'' # rest, g) =
        re_match (seqs [Opt range_re, Star Space, Group (Plus Word)]) (p, r @ CHR '';'' # rest, g)"
    unfolding Cons using x by simp
  then show ?thesis
    unfolding d by simp
qed

lemma first_of_concat:
  assumes "\<forall>k \<in> set ks. f k = [] \<or> (\<exists>p' g' shorter. f k = (p', t, g') # shorter)"
    and "\<exists>p' g' shorter. l = (p', t, g') # shorter"
  shows "\<exists>p' g' shorter. concat (map f ks) @ l = (p', t, g') # shorter"
  using assms(1)
proof (induction ks)
  case Nil
  with assms(2) show ?case by simp
next
  case (Cons k ks)
  then show ?case by (cases "f k = []") auto
qed

lemma port_at:
  assumes "w \<noteq> []" and "list_all is_word w"
  shows "\<exists>p' g' shorter. re_match port_re (p, ''input '' @ w @ CHR '';'' # rest, []) =
           (p', CHR '';'' # rest, g') # shorter"
proof -
  define kw where "kw = Alt (Lit ''logic'') (Alt (Lit ''wire'') (Lit ''reg''))"
  define declarator where
    "declarator = seqs [Star Space, Opt range_re, Star Space, Group (Plus Word)]"
  from assms(1) obtain x xs where w: "w = x # xs" by (cases w) auto
  with assms(2) have x: "\<not> is_space x" by (simp add: word_char)
  have port: "port_re =
      Seq (Alt (Lit ''input'') (Alt (Lit ''output'') (Lit ''inout'')))
        (Seq (Plus Space) (Seq (Opt kw) declarator))"
    by (simp add: port_re_def kw_def declarator_def)
  have split: "re_match port_re (p, ''input '' @ w @ CHR '';'' # rest, []) =
      concat (map (re_match declarator) (re_match kw (Some CHR '' '', w @ CHR '';'' # rest, []))) @
      re_match declarator (Some CHR '' '', w @ CHR '';'' # rest, [])"
    unfolding port using x by (simp add: is_space_def w)
  have after_keyword: "re_match declarator k = [] \<or>
                       (\<exists>p' g' shorter. re_match declarator k = (p', CHR '';'' # rest, g') # shorter)"
    if "k \<in> set (re_match kw (Some CHR '' '', w @ CHR '';'' # rest, []))" for k
  proof -
    from keyword_states [OF that [unfolded kw_def] assms(2)] obtain p' v where
      k: "k = (p', v @ CHR '';'' # rest, [])" and v: "list_all is_word v" by blast
    from port_declarator [OF v, of p' rest "[]"] show ?thesis
      unfolding k declarator_def by blast
  qed
  have without_keyword:
    "\<exists>p' g' shorter. re_match declarator (Some CHR '' '', w @ CHR '';'' # rest, []) =
        (p', CHR '';'' # rest, g') # shorter"
    using port_declarator [OF assms(2), of "Some CHR '' ''" rest "[]"] assms(1)
    unfolding declarator_def by blast
  show ?thesis
    unfolding split using after_keyword without_keyword by (intro first_of_concat) blast+
qed

text \<open>One declaration on a line of its own, at the start of a text: the global match steps over it.\<close>

lemma re_match_all_found:
  "re_match r (p, a @ b, []) = (p', b, g) # shorter \<Longrightarrow> a \<noteq> [] \<Longrightarrow>
     re_match_all r p (a @ b) = a # re_match_all r p' b"
  by (subst re_match_all.simps [of r p "a @ b"]) simp

lemma re_match_all_skip:
  "re_match r (p, c # s, []) = [] \<Longrightarrow> re_match_all r p (c # s) = re_match_all r (Some c) s"
  by (subst re_match_all.simps [of r p "c # s"]) simp

lemma line_end:
  "re_match_all import_re p ('';\<newline>'' @ rest) = re_match_all import_re None rest"
  "re_match_all signal_re p ('';\<newline>'' @ rest) = re_match_all signal_re None rest"
  "re_match_all port_re p ('';\<newline>'' @ rest) = re_match_all port_re None rest"
proof -
  have "re_match_all import_re p ('';\<newline>'' @ rest) = re_match_all import_re (Some CHR ''\<newline>'') rest"
    by (simp add: re_match_all_skip import_re_def)
  then show "re_match_all import_re p ('';\<newline>'' @ rest) = re_match_all import_re None rest"
    using re_match_all_prev [OF bol_free_passes(1)] by simp
  have "re_match_all signal_re p ('';\<newline>'' @ rest) = re_match_all signal_re (Some CHR ''\<newline>'') rest"
    by (simp add: re_match_all_skip signal_re_def)
  then show "re_match_all signal_re p ('';\<newline>'' @ rest) = re_match_all signal_re None rest"
    using re_match_all_prev [OF bol_free_passes(2)] by simp
  have "re_match_all port_re p ('';\<newline>'' @ rest) = re_match_all port_re (Some CHR ''\<newline>'') rest"
    by (simp add: re_match_all_skip port_re_def)
  then show "re_match_all port_re p ('';\<newline>'' @ rest) = re_match_all port_re None rest"
    using re_match_all_prev [OF bol_free_passes(3)] by simp
qed

lemma import_step:
  assumes "w \<noteq> []" and "list_all is_word w"
  shows "re_match_all import_re p ((''import '' @ w @ ''::*;\<newline>'') @ rest) =
           (''import '' @ w @ ''::*'') # re_match_all import_re None rest"
proof -
  from import_at [OF assms, of p "'';\<newline>'' @ rest"] obtain shorter where
    "re_match import_re (p, (''import '' @ w @ ''::*'') @ '';\<newline>'' @ rest, []) =
       (Some CHR ''*'', '';\<newline>'' @ rest, [w]) # shorter"
    by auto
  from re_match_all_found [OF this] have
    "re_match_all import_re p ((''import '' @ w @ ''::*'') @ '';\<newline>'' @ rest) =
       (''import '' @ w @ ''::*'') # re_match_all import_re (Some CHR ''*'') ('';\<newline>'' @ rest)"
    by simp
  then show ?thesis
    unfolding line_end by simp
qed

lemma signal_step:
  assumes "w \<noteq> []" and "list_all is_word w"
  shows "re_match_all signal_re p ((''logic '' @ w @ '';\<newline>'') @ rest) =
           (''logic '' @ w) # re_match_all signal_re None rest"
proof -
  from signal_at [OF assms, of p "''\<newline>'' @ rest"] obtain shorter where
    "re_match signal_re (p, (''logic '' @ w) @ '';\<newline>'' @ rest, []) =
       (Some (last w), '';\<newline>'' @ rest, [w]) # shorter"
    by auto
  from re_match_all_found [OF this] have
    "re_match_all signal_re p ((''logic '' @ w) @ '';\<newline>'' @ rest) =
       (''logic '' @ w) # re_match_all signal_re (Some (last w)) ('';\<newline>'' @ rest)"
    by simp
  then show ?thesis
    unfolding line_end by simp
qed

lemma port_step:
  assumes "w \<noteq> []" and "list_all is_word w"
  shows "re_match_all port_re p ((''input '' @ w @ '';\<newline>'') @ rest) =
           (''input '' @ w) # re_match_all port_re None rest"
proof -
  from port_at [OF assms, of p "''\<newline>'' @ rest"] obtain p' g' shorter where
    "re_match port_re (p, (''input '' @ w) @ '';\<newline>'' @ rest, []) =
       (p', '';\<newline>'' @ rest, g') # shorter"
    by auto
  from re_match_all_found [OF this] have
    "re_match_all port_re p ((''input '' @ w) @ '';\<newline>'' @ rest) =
       (''input '' @ w) # re_match_all port_re p' ('';\<newline>'' @ rest)"
    by simp
  then show ?thesis
    unfolding line_end by simp
qed

lemma lines_step:
  assumes "\<And>w p rest. w \<noteq> [] \<Longrightarrow> list_all is_word w \<Longrightarrow>
              re_match_all r p (line w @ rest) = found w # re_match_all r None rest"
    and "bol_free r"
    and "\<forall>w \<in> set ws. w \<noteq> [] \<and> list_all is_word w"
  shows "re_match_all r None (concat (map line ws) @ rest) = map found ws @ re_match_all r None rest"
  using assms(3)
proof (induction ws)
  case Nil
  show ?case by simp
next
  case (Cons w ws)
  have "re_match_all r None (concat (map line (w # ws)) @ rest) =
          re_match_all r None (line w @ (concat (map line ws) @ rest))"
    by simp
  also have "\<dots> = found w # re_match_all r None (concat (map line ws) @ rest)"
    using Cons.prems by (intro assms(1)) simp_all
  finally show ?case
    using Cons by simp
qed

text \<open>The name that each pass takes from the text of a match.\<close>

lemma import_name:
  assumes "w \<noteq> []" and "list_all is_word w"
  shows "group1 (re_search import_re None (''import '' @ w @ ''::*'')) = w"
proof -
  from import_at [OF assms, of None "[]"] obtain shorter where
    "re_match import_re (None, CHR ''i'' # ''mport '' @ w @ ''::*'', []) =
       (Some CHR ''*'', [], [w]) # shorter"
    by auto
  then have "re_search import_re None (CHR ''i'' # ''mport '' @ w @ ''::*'') =
               Some (CHR ''i'' # ''mport '' @ w @ ''::*'', [w])"
    by (simp only: re_search.simps list.case prod.case) simp
  then show ?thesis by (simp del: re_search.simps)
qed

lemma split_ws_from_word:
  "list_all (\<lambda>c. \<not> is_space c) s \<Longrightarrow> split_ws_from cur s = [cur @ s]"
  by (induction s arbitrary: cur) simp_all

lemma split_ws_from_two:
  "list_all (\<lambda>c. \<not> is_space c) a \<Longrightarrow> list_all (\<lambda>c. \<not> is_space c) w \<Longrightarrow> w \<noteq> [] \<Longrightarrow>
     split_ws_from cur (a @ CHR '' '' # w) = [cur @ a, w]"
proof (induction a arbitrary: cur)
  case Nil
  then obtain x xs where "w = x # xs" by (cases w) auto
  with Nil show ?case by (simp add: split_ws_from_word is_space_def)
next
  case (Cons c cs)
  then show ?case by simp
qed

lemma declared_name:
  assumes "w \<noteq> []" and "list_all is_word w"
  shows "pop_or_empty (split_ws (''logic '' @ w)) = w" "pop_or_empty (split_ws (''input '' @ w)) = w"
proof -
  have w: "list_all (\<lambda>c. \<not> is_space c) w"
    using assms(2) by (induction w) (simp_all add: word_char)
  have "split_ws (''logic'' @ CHR '' '' # w) = [''logic'', w]"
    unfolding split_ws_def by (subst split_ws_from_two [OF _ w assms(1)]) (simp_all add: is_space_def)
  then show "pop_or_empty (split_ws (''logic '' @ w)) = w"
    by (simp add: pop_or_empty_def)
  have "split_ws (''input'' @ CHR '' '' # w) = [''input'', w]"
    unfolding split_ws_def by (subst split_ws_from_two [OF _ w assms(1)]) (simp_all add: is_space_def)
  then show "pop_or_empty (split_ws (''input '' @ w)) = w"
    by (simp add: pop_or_empty_def)
qed

lemma names_kept:
  assumes "\<And>w. w \<noteq> [] \<Longrightarrow> list_all is_word w \<Longrightarrow> name (found w) = w"
    and "\<forall>w \<in> set ws. w \<noteq> [] \<and> list_all is_word w"
  shows "filter (\<lambda>p. length p > 0) (map name (map found ws @ others)) =
           ws @ filter (\<lambda>p. length p > 0) (map name others)"
  using assms(2) by (induction ws) (simp_all add: assms(1))

text \<open>
  C4, as the claim states it, fails: a text that imports the same package twice and
  declares the same port twice yields each identifier twice in all three result fields.
\<close>

theorem analyzeVerilogFile_content_duplicates_counterexample:
  "analyzeVerilogFile_content ''import pkg::*; import pkg::*; input logic clk; input logic clk;'' =
     \<lparr> syntax_issues = [],
       package_dependencies = [''pkg'', ''pkg''],
       signal_definitions = [''clk'', ''clk''],
       interface_ports = [''clk'', ''clk''] \<rparr>
   \<and> \<not> distinct [''pkg'', ''pkg''] \<and> \<not> distinct [''clk'', ''clk'']"
proof -
  have "analyzeVerilogFile_content ''import pkg::*; import pkg::*; input logic clk; input logic clk;'' =
     \<lparr> syntax_issues = [],
       package_dependencies = [''pkg'', ''pkg''],
       signal_definitions = [''clk'', ''clk''],
       interface_ports = [''clk'', ''clk''] \<rparr>"
    by code_simp
  then show ?thesis by simp
qed

text \<open>
  C4, amended. None of the three extraction passes deduplicates or reorders. For every
  sequence of identifiers, repetitions included, and every text that follows: the import
  declarations of the identifiers, one on a line, yield exactly these identifiers in this
  order, each as often as it is declared, as the first package dependencies, followed by
  the dependencies of the text that follows; likewise \<^verbatim>\<open>logic\<close> declarations for the signal
  definitions and \<^verbatim>\<open>input\<close> declarations for the interface ports.
\<close>

theorem analyzeVerilogFile_content_sequences:
  assumes "\<forall>w \<in> set ws. w \<noteq> [] \<and> list_all is_word w"
  shows "package_dependencies
           (analyzeVerilogFile_content
              (concat (map (\<lambda>w. ''import '' @ w @ ''::*;\<newline>'') ws) @ rest)) =
         ws @ package_dependencies (analyzeVerilogFile_content rest)
    \<and> signal_definitions
           (analyzeVerilogFile_content
              (concat (map (\<lambda>w. ''logic '' @ w @ '';\<newline>'') ws) @ rest)) =
         ws @ signal_definitions (analyzeVerilogFile_content rest)
    \<and> interface_ports
           (analyzeVerilogFile_content
              (concat (map (\<lambda>w. ''input '' @ w @ '';\<newline>'') ws) @ rest)) =
         ws @ interface_ports (analyzeVerilogFile_content rest)"
proof (intro conjI)
  have matches:
    "re_match_all import_re None (concat (map (\<lambda>w. ''import '' @ w @ ''::*;\<newline>'') ws) @ rest) =
       map (\<lambda>w. ''import '' @ w @ ''::*'') ws @ re_match_all import_re None rest"
    by (rule lines_step [where line = "\<lambda>w. ''import '' @ w @ ''::*;\<newline>''"
                           and found = "\<lambda>w. ''import '' @ w @ ''::*''",
                         OF import_step bol_free_passes(1) assms])
  have names:
    "filter (\<lambda>p. length p > 0)
       (map (\<lambda>m. group1 (re_search import_re None m))
          (map (\<lambda>w. ''import '' @ w @ ''::*'') ws @ re_match_all import_re None rest)) =
     ws @ filter (\<lambda>p. length p > 0)
            (map (\<lambda>m. group1 (re_search import_re None m)) (re_match_all import_re None rest))"
    by (rule names_kept [where name = "\<lambda>m. group1 (re_search import_re None m)"
                           and found = "\<lambda>w. ''import '' @ w @ ''::*''", OF _ assms])
       (rule import_name)
  show "package_dependencies
          (analyzeVerilogFile_content
             (concat (map (\<lambda>w. ''import '' @ w @ ''::*;\<newline>'') ws) @ rest)) =
        ws @ package_dependencies (analyzeVerilogFile_content rest)"
    unfolding analyzeVerilogFile_content_def Let_def matches
    by (simp only: verilog_analysis.select_convs names)
next
  have matches:
    "re_match_all signal_re None (concat (map (\<lambda>w. ''logic '' @ w @ '';\<newline>'') ws) @ rest) =
       map (\<lambda>w. ''logic '' @ w) ws @ re_match_all signal_re None rest"
    by (rule lines_step [where line = "\<lambda>w. ''logic '' @ w @ '';\<newline>''"
                           and found = "\<lambda>w. ''logic '' @ w",
                         OF signal_step bol_free_passes(2) assms])
  have names:
    "filter (\<lambda>p. length p > 0)
       (map (\<lambda>m. pop_or_empty (split_ws m))
          (map (\<lambda>w. ''logic '' @ w) ws @ re_match_all signal_re None rest)) =
     ws @ filter (\<lambda>p. length p > 0)
            (map (\<lambda>m. pop_or_empty (split_ws m)) (re_match_all signal_re None rest))"
    by (rule names_kept [where name = "\<lambda>m. pop_or_empty (split_ws m)"
                           and found = "\<lambda>w. ''logic '' @ w", OF _ assms])
       (rule declared_name)
  show "signal_definitions
          (analyzeVerilogFile_content
             (concat (map (\<lambda>w. ''logic '' @ w @ '';\<newline>'') ws) @ rest)) =
        ws @ signal_definitions (analyzeVerilogFile_content rest)"
    unfolding analyzeVerilogFile_content_def Let_def matches
    by (simp only: verilog_analysis.select_convs names)
next
  have matches:
    "re_match_all port_re None (concat (map (\<lambda>w. ''input '' @ w @ '';\<newline>'') ws) @ rest) =
       map (\<lambda>w. ''input '' @ w) ws @ re_match_all port_re None rest"
    by (rule lines_step [where line = "\<lambda>w. ''input '' @ w @ '';\<newline>''"
                           and found = "\<lambda>w. ''input '' @ w",
                         OF port_step bol_free_passes(3) assms])
  have names:
    "filter (\<lambda>p. length p > 0)
       (map (\<lambda>m. pop_or_empty (split_ws m))
          (map (\<lambda>w. ''input '' @ w) ws @ re_match_all port_re None rest)) =
     ws @ filter (\<lambda>p. length p > 0)
            (map (\<lambda>m. pop_or_empty (split_ws m)) (re_match_all port_re None rest))"
    by (rule names_kept [where name = "\<lambda>m. pop_or_empty (split_ws m)"
                           and found = "\<lambda>w. ''input '' @ w", OF _ assms])
       (rule declared_name)
  show "interface_ports
          (analyzeVerilogFile_content
             (concat (map (\<lambda>w. ''input '' @ w @ '';\<newline>'') ws) @ rest)) =
        ws @ interface_ports (analyzeVerilogFile_content rest)"
    unfolding analyzeVerilogFile_content_def Let_def matches
    by (simp only: verilog_analysis.select_convs names)
qed

theorem analyzeVerilogFile_content_sequences_witness:
  "package_dependencies
     (analyzeVerilogFile_content
        ''import b::*;\<newline>import a::*;\<newline>import b::*;\<newline>import a::*, b::*;'') =
     [''b'', ''a'', ''b'', ''a'']
   \<and> signal_definitions
       (analyzeVerilogFile_content ''logic b;\<newline>logic a;\<newline>logic b;\<newline>logic a, b;'') =
     [''b'', ''a'', ''b'', ''a'']
   \<and> interface_ports
       (analyzeVerilogFile_content ''input b;\<newline>input a;\<newline>input b;\<newline>input a, b;'') =
     [''b'', ''a'', ''b'', ''a'']"
proof -
  have identifiers: "\<forall>w \<in> set [''b'', ''a'', ''b'']. w \<noteq> [] \<and> list_all is_word w"
    by (simp add: is_word_def)
  have others:
    "package_dependencies (analyzeVerilogFile_content ''import a::*, b::*;'') = [''a'']"
    "signal_definitions (analyzeVerilogFile_content ''logic a, b;'') = [''a'']"
    "interface_ports (analyzeVerilogFile_content ''input a, b;'') = [''a'']"
    by code_simp+
  show ?thesis
    using analyzeVerilogFile_content_sequences [OF identifiers, of "''import a::*, b::*;''"]
      analyzeVerilogFile_content_sequences [OF identifiers, of "''logic a, b;''"]
      analyzeVerilogFile_content_sequences [OF identifiers, of "''input a, b;''"]
    unfolding others by simp
qed

subsection \<open>The Content Resolver\<close>

text \<open>
  C6. For each of the three resources backed by a file, when reading the file fails the
  resource resolves to exactly one text block with the fixed fallback message of that
  resource; and whatever the file system does, resolving such a resource returns one text
  block: it neither throws nor stays pending.
\<close>

theorem readResource_fallback:
  "(fs_readFile w h (JStr requirementsPath) = Inl e \<longrightarrow>
      readResource w ''opennic://filter-requirements'' h =
        (h @ [FsReadFile (JStr requirementsPath)],
         Returns [text_block
           ''Requirements document not found. Please ensure the OpenNIC project is available.'']))
   \<and> (fs_readFile w h (JStr submissionPath) = Inl e \<longrightarrow>
      readResource w ''opennic://filter-implementation'' h =
        (h @ [FsReadFile (JStr submissionPath)],
         Returns [text_block
           ''Implementation document not found. Please ensure the submission document exists.'']))
   \<and> (fs_readFile w h (JStr registerMapPath) = Inl e \<longrightarrow>
      readResource w ''opennic://register-map'' h =
        (h @ [FsReadFile (JStr registerMapPath)],
         Returns [text_block ''Register map documentation not found.'']))
   \<and> (u \<in> {''opennic://filter-requirements'', ''opennic://filter-implementation'',
             ''opennic://register-map''} \<longrightarrow>
        (\<exists>t. snd (readResource w u h) = Returns [text_block t]))"
  by (auto simp: readResource_def read_or_fallback)

theorem readResource_fallback_witness:
  "readResource (sample_world [] [] []) ''opennic://filter-requirements'' [] =
     ([FsReadFile (JStr requirementsPath)],
      Returns [text_block
        ''Requirements document not found. Please ensure the OpenNIC project is available.''])
   \<and> readResource (sample_world [] [] []) ''opennic://filter-implementation'' [] =
     ([FsReadFile (JStr submissionPath)],
      Returns [text_block
        ''Implementation document not found. Please ensure the submission document exists.''])
   \<and> readResource (sample_world [] [] []) ''opennic://register-map'' [] =
     ([FsReadFile (JStr registerMapPath)],
      Returns [text_block ''Register map documentation not found.''])
   \<and> (\<exists>t. snd (readResource (sample_world [] [] []) ''opennic://register-map'' []) =
          Returns [text_block t])"
proof -
  let ?w = "sample_world [] [] []"
  have r1: "fs_readFile ?w [] (JStr requirementsPath) = Inl (enoent ''open'' requirementsPath)"
    and r2: "fs_readFile ?w [] (JStr submissionPath) = Inl (enoent ''open'' submissionPath)"
    and r3: "fs_readFile ?w [] (JStr registerMapPath) = Inl (enoent ''open'' registerMapPath)"
    by (simp_all add: sample_world_def)
  show ?thesis
    using readResource_fallback [of ?w "[]" "enoent ''open'' requirementsPath" "''opennic://register-map''"]
      readResource_fallback [of ?w "[]" "enoent ''open'' submissionPath" "''opennic://register-map''"]
      readResource_fallback [of ?w "[]" "enoent ''open'' registerMapPath" "''opennic://register-map''"]
      r1 r2 r3
    by simp
qed

subsection \<open>Unknown capabilities\<close>

text \<open>
  C8. For every tool name, resource uri or prompt name that is not in the declared
  catalogue, the dispatcher throws the protocol error \<^verbatim>\<open>McpError(InvalidRequest, "Unknown ...")\<close>
  naming the id, and the record of collaborator calls is unchanged: no file is read and no
  process is spawned.
\<close>

theorem unknown_capability_rejected:
  "(name \<notin> set (map tool_name listTools) \<longrightarrow>
      callTool fl w name args h = (h, Throws (McpError InvalidRequest (''Unknown tool: '' @ name))))
   \<and> (u \<notin> set (map uri listResources) \<longrightarrow>
      readResource w u h = (h, Throws (McpError InvalidRequest (''Unknown resource: '' @ u))))
   \<and> (pname \<notin> set (map prompt_name listPrompts) \<longrightarrow>
      getPrompt pname pargs h = (h, Throws (McpError InvalidRequest (''Unknown prompt: '' @ pname))))"
proof (intro conjI impI)
  assume "name \<notin> set (map tool_name listTools)"
  then show "callTool fl w name args h =
               (h, Throws (McpError InvalidRequest (''Unknown tool: '' @ name)))"
    by (simp add: listTools_def callTool_def throwC_def)
next
  assume "u \<notin> set (map uri listResources)"
  then show "readResource w u h = (h, Throws (McpError InvalidRequest (''Unknown resource: '' @ u)))"
    by (simp add: listResources_def readResource_def throwC_def)
next
  assume "pname \<notin> set (map prompt_name listPrompts)"
  then show "getPrompt pname pargs h =
               (h, Throws (McpError InvalidRequest (''Unknown prompt: '' @ pname)))"
    by (simp add: listPrompts_def getPrompt_def throwC_def)
qed

theorem unknown_capability_rejected_witness:
  "callTool double_score_ops (sample_world [] [] []) ''delete-everything'' (Some Map.empty) [] =
     ([], Throws (McpError InvalidRequest ''Unknown tool: delete-everything''))
   \<and> readResource (sample_world [] [] []) ''opennic://unknown'' [] =
     ([], Throws (McpError InvalidRequest ''Unknown resource: opennic://unknown''))
   \<and> getPrompt ''no-such-prompt'' None [] =
     ([], Throws (McpError InvalidRequest ''Unknown prompt: no-such-prompt''))"
proof -
  have t: "''delete-everything'' \<notin> set (map tool_name listTools)"
    by (simp add: listTools_def)
  have r: "''opennic://unknown'' \<notin> set (map uri listResources)"
    by (simp add: listResources_def)
  have p: "''no-such-prompt'' \<notin> set (map prompt_name listPrompts)"
    by (simp add: listPrompts_def)
  show ?thesis
    using unknown_capability_rejected
            [of "''delete-everything''" double_score_ops "sample_world [] [] []" "Some Map.empty" "[]"
                "''opennic://unknown''" "''no-such-prompt''" None] t r p
    by simp
qed

subsection \<open>The tool handlers, case by case\<close>

lemma run_filter_simulation_cases:
  "run_filter_simulation w (Some a) h =
     (let cmd = simulation_command (get_prop a ''test_type'')
                  (with_default (get_prop a ''debug'') (JBool False))
                  (with_default (get_prop a ''waves'') (JBool False))
      in case fs_access w h testDir of
           Some e \<Rightarrow> (h @ [FsAccess testDir], Returns [text_block (simulation_failure_text e)])
         | None \<Rightarrow>
             (h @ [FsAccess testDir, Spawn ''bash'' [JStr ''-c'', JStr cmd] (Some testDir)],
              case snd (executeCommand w ''bash'' [JStr ''-c'', JStr cmd] (Some testDir)
                          (h @ [FsAccess testDir])) of
                Returns result \<Rightarrow> Returns [text_block (simulation_success_text cmd result)]
              | Throws e \<Rightarrow> Returns [text_block (simulation_failure_text e)]
              | Pending \<Rightarrow> Pending))"
proof -
  let ?cmd = "simulation_command (get_prop a ''test_type'')
                  (with_default (get_prop a ''debug'') (JBool False))
                  (with_default (get_prop a ''waves'') (JBool False))"
  let ?h1 = "h @ [FsAccess testDir]"
  show ?thesis
  proof (cases "fs_access w h testDir")
    case (Some e)
    then show ?thesis
      by (simp add: run_filter_simulation_def Let_def catchC_def bindC_def access_def returnC_def)
  next
    case None
    obtain r where r: "executeCommand w ''bash'' [JStr ''-c'', JStr ?cmd] (Some testDir) ?h1 =
                         (?h1 @ [Spawn ''bash'' [JStr ''-c'', JStr ?cmd] (Some testDir)], r)"
      using executeCommand_pair by blast
    show ?thesis
      using None r
      by (cases r)
         (simp_all add: run_filter_simulation_def Let_def catchC_def bindC_def access_def returnC_def)
  qed
qed

lemma analyzeVerilogFile_cases:
  "analyzeVerilogFile w p h =
     (h @ [FsReadFile p],
      case fs_readFile w h p of
        Inr content \<Rightarrow> Returns (analyzeVerilogFile_content content)
      | Inl e \<Rightarrow>
          Throws (JsError ''Error'' (''Verilog analysis failed: '' @
            error_toString (JsError ''Error''
              (''Failed to read file '' @ toStr p @ '': '' @ error_toString e)))))"
  by (simp add: analyzeVerilogFile_def catchC_def bindC_def returnC_def throwC_def
        readFileContent_def split: sum.splits)

lemma analyzeMakefile_cases:
  "analyzeMakefile w p h =
     (h @ [FsReadFile p],
      case fs_readFile w h p of
        Inr content \<Rightarrow> Returns (analyzeMakefile_content content)
      | Inl e \<Rightarrow>
          Throws (JsError ''Error'' (''Makefile analysis failed: '' @
            error_toString (JsError ''Error''
              (''Failed to read file '' @ toStr p @ '': '' @ error_toString e)))))"
  by (simp add: analyzeMakefile_def catchC_def bindC_def returnC_def throwC_def
        readFileContent_def split: sum.splits)

lemma suggest_makefile_fixes_cases:
  "suggest_makefile_fixes w (Some a) h =
     (let p = get_prop a ''makefile_path''
      in (h @ [FsReadFile p],
          Returns [text_block
            (case fs_readFile w h p of
               Inr content \<Rightarrow> makefile_report p (analyzeMakefile_content content)
             | Inl e \<Rightarrow>
                 cross_mark @ '' Makefile analysis failed: Error: Makefile analysis failed: '' @
                 ''Error: Failed to read file '' @ toStr p @ '': '' @ error_toString e)]))"
  by (simp add: suggest_makefile_fixes_def Let_def catchC_def bindC_def returnC_def
        analyzeMakefile_cases split: sum.splits)

lemma check_interface_compatibility_cases:
  "check_interface_compatibility fl w (Some a) h =
     (let tb = get_prop a ''testbench_file''; rtl = get_prop a ''rtl_file''
      in case fs_readFile w h tb of
           Inl e \<Rightarrow>
             (h @ [FsReadFile tb],
              Returns [text_block
                (cross_mark @ '' Interface compatibility check failed: Error: '' @
                 ''Verilog analysis failed: Error: Failed to read file '' @ toStr tb @ '': '' @
                 error_toString e)])
         | Inr tbContent \<Rightarrow>
             (h @ [FsReadFile tb, FsReadFile rtl],
              Returns [text_block
                (case fs_readFile w (h @ [FsReadFile tb]) rtl of
                   Inl e \<Rightarrow>
                     cross_mark @ '' Interface compatibility check failed: Error: '' @
                     ''Verilog analysis failed: Error: Failed to read file '' @ toStr rtl @ '': '' @
                     error_toString e
                 | Inr rtlContent \<Rightarrow>
                     compatibility_report fl tb rtl (analyzeVerilogFile_content tbContent)
                       (analyzeVerilogFile_content rtlContent))]))"
  by (simp add: check_interface_compatibility_def Let_def catchC_def bindC_def returnC_def
        analyzeVerilogFile_cases split: sum.splits)

lemma analyze_verilog_syntax_cases:
  "analyze_verilog_syntax w (Some a) h =
     (let p = get_prop a ''file_path'';
          cp = with_default (get_prop a ''check_packages'') (JBool True);
          lint = [JStr ''--lint-only'', JStr ''-Wall'', p]
      in case fs_readFile w h p of
           Inl e \<Rightarrow>
             (h @ [FsReadFile p],
              Returns [text_block
                (cross_mark @ '' Verilog analysis failed: Error: Verilog analysis failed: '' @
                 ''Error: Failed to read file '' @ toStr p @ '': '' @ error_toString e)])
         | Inr content \<Rightarrow>
             (h @ [FsReadFile p, Spawn ''verilator'' lint None],
              case snd (executeCommand w ''verilator'' lint None (h @ [FsReadFile p])) of
                Returns r \<Rightarrow>
                  Returns [text_block
                    (verilog_report p cp (analyzeVerilogFile_content content) @
                     ''\<newline>## Verilator Syntax Check\<newline>'' @ check_mark @
                     '' No syntax errors found.\<newline>'')]
              | Throws e \<Rightarrow>
                  Returns [text_block
                    (verilog_report p cp (analyzeVerilogFile_content content) @
                     ''\<newline>## Verilator Syntax Check\<newline>'' @ warning_sign @
                     '' Issues found:\<newline>'' @ error_toString e @ ''\<newline>'')]
              | Pending \<Rightarrow> Pending))"
proof -
  let ?p = "get_prop a ''file_path''"
  let ?lint = "[JStr ''--lint-only'', JStr ''-Wall'', ?p]"
  let ?h1 = "h @ [FsReadFile ?p]"
  obtain r where r: "executeCommand w ''verilator'' ?lint None ?h1 =
                       (?h1 @ [Spawn ''verilator'' ?lint None], r)"
    using executeCommand_pair by blast
  show ?thesis
  proof (cases "fs_readFile w h ?p")
    case (Inl e)
    then show ?thesis
      by (simp add: analyze_verilog_syntax_def Let_def catchC_def bindC_def returnC_def
            analyzeVerilogFile_cases)
  next
    case (Inr content)
    then show ?thesis
      using r
      by (cases r)
         (simp_all add: analyze_verilog_syntax_def Let_def catchC_def bindC_def returnC_def
            analyzeVerilogFile_cases)
  qed
qed

lemma cross_reference_signals_returns:
  "\<exists>t. cross_reference_signals (Some a) h = (h, Returns [text_block t])"
  unfolding cross_reference_signals_def Let_def catchC_def bindC_def returnC_def throwC_def
  by (auto split: option.splits)

lemma check_requirements_compliance_returns:
  "check_requirements_compliance (Some a) h =
     (h, Returns [text_block (compliance_text (get_prop a ''requirement_type''))])"
  by (simp add: check_requirements_compliance_def catchC_def returnC_def)

lemma executeCommand_settles:
  assumes "\<forall>h' command args cwd evs.
             child_process_spawn w h' command args cwd = Spawned evs \<longrightarrow> first_settling evs \<noteq> None"
  shows "snd (executeCommand w command args cwd h) \<noteq> Pending"
proof (cases "child_process_spawn w h command args cwd")
  case (SpawnThrows e)
  then show ?thesis by (simp add: executeCommand_def)
next
  case (Spawned evs)
  with assms have "first_settling evs \<noteq> None" by blast
  with Spawned show ?thesis
    using first_settling_not_data [of evs]
    by (auto simp: executeCommand_def executeCommand_events_cases split: option.splits child_event.splits)
qed

lemma run_filter_simulation_response:
  "snd (run_filter_simulation w (Some a) h) \<noteq> Throws e"
  "snd (run_filter_simulation w (Some a) h) = Returns bs \<Longrightarrow> \<exists>t. bs = [text_block t]"
  by (auto simp: run_filter_simulation_cases Let_def split: option.splits completion.splits)

lemma analyze_verilog_syntax_response:
  "snd (analyze_verilog_syntax w (Some a) h) \<noteq> Throws e"
  "snd (analyze_verilog_syntax w (Some a) h) = Returns bs \<Longrightarrow> \<exists>t. bs = [text_block t]"
  by (auto simp: analyze_verilog_syntax_cases Let_def split: sum.splits completion.splits)

lemma suggest_makefile_fixes_response:
  "\<exists>t. snd (suggest_makefile_fixes w (Some a) h) = Returns [text_block t]"
  by (auto simp: suggest_makefile_fixes_cases Let_def)

lemma check_interface_compatibility_response:
  "\<exists>t. snd (check_interface_compatibility fl w (Some a) h) = Returns [text_block t]"
  by (auto simp: check_interface_compatibility_cases Let_def split: sum.splits)

lemma registered_tool:
  "name \<in> set (map tool_name listTools) \<longleftrightarrow>
     name = ''run-filter-simulation'' \<or> name = ''analyze-verilog-syntax'' \<or>
     name = ''check-interface-compatibility'' \<or> name = ''suggest-makefile-fixes'' \<or>
     name = ''cross-reference-signals'' \<or> name = ''check-requirements-compliance''"
  by (simp add: listTools_def)

lemma callTool_registered:
  "callTool fl w ''run-filter-simulation'' args = run_filter_simulation w args"
  "callTool fl w ''analyze-verilog-syntax'' args = analyze_verilog_syntax w args"
  "callTool fl w ''suggest-makefile-fixes'' args = suggest_makefile_fixes w args"
  "callTool fl w ''check-interface-compatibility'' args = check_interface_compatibility fl w args"
  "callTool fl w ''cross-reference-signals'' args = cross_reference_signals args"
  "callTool fl w ''check-requirements-compliance'' args = check_requirements_compliance args"
  by (simp_all add: callTool_def)

lemma callTool_never_throws:
  assumes "name \<in> set (map tool_name listTools)"
  shows "snd (callTool fl w name (Some a) h) \<noteq> Throws e"
  using assms [unfolded registered_tool] run_filter_simulation_response(1) [of w a h e]
    analyze_verilog_syntax_response(1) [of w a h e]
    suggest_makefile_fixes_response [of w a h]
    check_interface_compatibility_response [of fl w a h]
    cross_reference_signals_returns [of a h]
    check_requirements_compliance_returns [of a h]
  by (auto simp: callTool_registered)

lemma callTool_one_block:
  assumes "name \<in> set (map tool_name listTools)"
    and "snd (callTool fl w name (Some a) h) = Returns bs"
  shows "\<exists>t. bs = [text_block t]"
  using assms [unfolded registered_tool] run_filter_simulation_response(2) [of w a h bs]
    analyze_verilog_syntax_response(2) [of w a h bs]
    suggest_makefile_fixes_response [of w a h]
    check_interface_compatibility_response [of fl w a h]
    cross_reference_signals_returns [of a h]
    check_requirements_compliance_returns [of a h]
  by (auto simp: callTool_registered)

lemma callTool_settles:
  assumes "name \<in> set (map tool_name listTools)"
    and "\<forall>h' command args cwd evs.
           child_process_spawn w h' command args cwd = Spawned evs \<longrightarrow> first_settling evs \<noteq> None"
  shows "snd (callTool fl w name (Some a) h) \<noteq> Pending"
proof -
  have run: "snd (executeCommand w command args cwd h') \<noteq> Pending" for command args cwd h'
    using assms(2) by (rule executeCommand_settles)
  have sim: "snd (run_filter_simulation w (Some a) h) \<noteq> Pending"
    using run by (auto simp: run_filter_simulation_cases Let_def split: option.splits completion.splits)
  have lint: "snd (analyze_verilog_syntax w (Some a) h) \<noteq> Pending"
    using run by (auto simp: analyze_verilog_syntax_cases Let_def split: sum.splits completion.splits)
  show ?thesis
    using assms(1) [unfolded registered_tool] sim lint
      suggest_makefile_fixes_response [of w a h]
      check_interface_compatibility_response [of fl w a h]
      cross_reference_signals_returns [of a h]
      check_requirements_compliance_returns [of a h]
    by (auto simp: callTool_registered)
qed

subsection \<open>The tool handlers of the earlier module\<close>

lemma run_filter_simulation_earlier_cases:
  "run_filter_simulation_earlier w (Some a) h =
     (let cmd = simulation_command_earlier (get_prop a ''test_type'')
                  (with_default (get_prop a ''debug'') (JBool False))
                  (with_default (get_prop a ''waves'') (JBool False))
      in case fs_access w h testDir of
           Some e \<Rightarrow> (h @ [FsAccess testDir], Returns [text_block (simulation_failure_text_earlier e)])
         | None \<Rightarrow>
             (h @ [FsAccess testDir, Spawn ''bash'' [JStr ''-c'', JStr cmd] (Some testDir)],
              case snd (executeCommand w ''bash'' [JStr ''-c'', JStr cmd] (Some testDir)
                          (h @ [FsAccess testDir])) of
                Returns result \<Rightarrow> Returns [text_block (simulation_success_text_earlier result)]
              | Throws e \<Rightarrow> Returns [text_block (simulation_failure_text_earlier e)]
              | Pending \<Rightarrow> Pending))"
proof -
  let ?cmd = "simulation_command_earlier (get_prop a ''test_type'')
                  (with_default (get_prop a ''debug'') (JBool False))
                  (with_default (get_prop a ''waves'') (JBool False))"
  let ?h1 = "h @ [FsAccess testDir]"
  show ?thesis
  proof (cases "fs_access w h testDir")
    case (Some e)
    then show ?thesis
      by (simp add: run_filter_simulation_earlier_def Let_def catchC_def bindC_def access_def
            returnC_def)
  next
    case None
    obtain r where r: "executeCommand w ''bash'' [JStr ''-c'', JStr ?cmd] (Some testDir) ?h1 =
                         (?h1 @ [Spawn ''bash'' [JStr ''-c'', JStr ?cmd] (Some testDir)], r)"
      using executeCommand_pair by blast
    show ?thesis
      using None r
      by (cases r)
         (simp_all add: run_filter_simulation_earlier_def Let_def catchC_def bindC_def access_def
            returnC_def)
  qed
qed

lemma analyze_filter_code_cases:
  "analyze_filter_code w (Some a) h =
     (h @ [FsAccess filterDir],
      Returns [text_block
        (case fs_access w h filterDir of
           None \<Rightarrow> code_analysis_text (get_prop a ''analysis_type'')
         | Some e \<Rightarrow>
             ''Code analysis failed: '' @ error_toString e @
             ''\<newline>\<newline>Please ensure the filter source directory exists.'')])"
  by (simp add: analyze_filter_code_def Let_def catchC_def bindC_def access_def returnC_def
        split: option.splits)

lemma check_requirements_compliance_earlier_returns:
  "check_requirements_compliance_earlier (Some a) h =
     (h, Returns [text_block (compliance_text_earlier (get_prop a ''requirement_type''))])"
  by (simp add: check_requirements_compliance_earlier_def catchC_def returnC_def)

lemma registered_tool_earlier:
  "name \<in> set (map tool_name listTools_earlier) \<longleftrightarrow>
     name = ''run-filter-simulation'' \<or> name = ''check-requirements-compliance'' \<or>
     name = ''analyze-filter-code''"
  by (simp add: listTools_earlier_def)

lemma callTool_earlier_registered:
  "callTool_earlier w ''run-filter-simulation'' args = run_filter_simulation_earlier w args"
  "callTool_earlier w ''check-requirements-compliance'' args = check_requirements_compliance_earlier args"
  "callTool_earlier w ''analyze-filter-code'' args = analyze_filter_code w args"
  by (simp_all add: callTool_earlier_def)

lemma callTool_earlier_never_throws:
  assumes "name \<in> set (map tool_name listTools_earlier)"
  shows "snd (callTool_earlier w name (Some a) h) \<noteq> Throws e"
  using assms [unfolded registered_tool_earlier]
  by (auto simp: callTool_earlier_registered run_filter_simulation_earlier_cases Let_def
        analyze_filter_code_cases check_requirements_compliance_earlier_returns
        split: option.splits completion.splits)

lemma simulation_command_earlier_undefined:
  "simulation_command_earlier JUndefined debug waves = simulation_command_earlier (JStr ''all'') debug waves"
  by (simp add: simulation_command_earlier_def simulation_env_earlier_def)

lemma cross_reference_signals_undefined:
  \<open>a ''hierarchy_level'' = None \<Longrightarrow>
   cross_reference_signals (Some a) h =
     (h, Returns [text_block (
              ''# Signal Cross-Reference Map\<newline>'' @
              ''\<newline>'' @
              ''**Hierarchy Level:** undefined\<newline>'' @
              ''\<newline>'' @
              ''## Signal Definitions\<newline>'' @
              ''undefined\<newline>'' @
              ''\<newline>'' @
              ''## Testbench Access Patterns\<newline>'' @
              ''```python\<newline>'' @
              ''# Access top-level signals\<newline>'' @
              ''await ClockCycles(dut.aclk, 10)\<newline>'' @
              ''dut.aresetn.value = 0\<newline>'' @
              ''\<newline>'' @
              ''# Access filter configuration\<newline>'' @
              ''dut.rule_0_ip_addr.value = 0x0A000001  # 10.0.0.1\<newline>'' @
              ''await ClockCycles(dut.aclk, 1)\<newline>'' @
              ''\<newline>'' @
              ''# Monitor statistics\<newline>'' @
              ''hit_count = dut.hit_count_0.value\<newline>'' @
              ''```\<newline>'')])\<close>
  by (simp add: cross_reference_signals_def get_prop_def Let_def catchC_def bindC_def returnC_def
        signalMap_def object_prototype_keys_def testbench_access_patterns_def)

lemma compliance_text_undefined:
  \<open>compliance_text JUndefined =
              ''# Enhanced Requirements Compliance Report\<newline>'' @
              ''\<newline>'' @
              ''\<newline>'' @
              ''\<newline>'' @
              ''**Overall Status**: '' @ check_mark @ '' All specified requirements met with enhanced verification capabilities\<newline>'' @
              ''\<newline>'' @
              ''**Verification Tools Used:**\<newline>'' @
              ''- Verilator syntax validation\<newline>'' @
              ''- Interface compatibility checking\<newline>'' @
              ''- Signal cross-referencing\<newline>'' @
              ''- Makefile configuration analysis''\<close>
  by (simp add: compliance_text_def checksToRun_def)

lemma compliance_text_earlier_undefined:
  \<open>compliance_text_earlier JUndefined =
              ''# Requirements Compliance Report\<newline>'' @
              ''\<newline>'' @
              ''\<newline>'' @
              ''\<newline>'' @
              ''**Overall Status**: All specified requirements appear to be met based on implementation review.''\<close>
  by (simp add: compliance_text_earlier_def checksToRun_earlier_def)

lemma code_analysis_text_undefined:
  \<open>code_analysis_text JUndefined =
              ''# Filter Code Analysis\<newline>'' @
              ''\<newline>'' @
              ''\<newline>'' @
              ''\<newline>'' @
              ''**Note**: For detailed analysis, run the specific tools mentioned above.''\<close>
  by (simp add: code_analysis_text_def analyses_earlier_def)

subsection \<open>Collaborator failures\<close>

text \<open>
  C2. For every registered tool invoked with an arguments object, in every world: the
  call never throws, a returned response is exactly one text block, and when every child
  process settles the call does return. Each collaborator failure inside a handler (the
  test directory missing, the simulation or lint process failing to spawn or exiting
  non-zero, a file that cannot be read) ends in a returned text block that contains the
  text of the error.
\<close>

theorem collaborator_failures_are_reported:
  "(name \<in> set (map tool_name listTools) \<longrightarrow>
      (\<forall>e. snd (callTool fl w name (Some a) h) \<noteq> Throws e)
      \<and> (\<forall>bs. snd (callTool fl w name (Some a) h) = Returns bs \<longrightarrow> (\<exists>t. bs = [text_block t]))
      \<and> ((\<forall>h' command args cwd evs.
             child_process_spawn w h' command args cwd = Spawned evs \<longrightarrow> first_settling evs \<noteq> None)
          \<longrightarrow> (\<exists>t. snd (callTool fl w name (Some a) h) = Returns [text_block t])))
   \<and> (fs_access w h testDir = Some e \<longrightarrow>
        (\<exists>t. snd (callTool fl w ''run-filter-simulation'' (Some a) h) = Returns [text_block t]
             \<and> includes_str t (error_toString e)))
   \<and> (fs_access w h testDir = None
        \<and> snd (executeCommand w ''bash''
                 [JStr ''-c'',
                  JStr (simulation_command (get_prop a ''test_type'')
                          (with_default (get_prop a ''debug'') (JBool False))
                          (with_default (get_prop a ''waves'') (JBool False)))]
                 (Some testDir) (h @ [FsAccess testDir])) = Throws e \<longrightarrow>
        (\<exists>t. snd (callTool fl w ''run-filter-simulation'' (Some a) h) = Returns [text_block t]
             \<and> includes_str t (error_toString e)))
   \<and> (fs_readFile w h (get_prop a ''file_path'') = Inl e \<longrightarrow>
        (\<exists>t. snd (callTool fl w ''analyze-verilog-syntax'' (Some a) h) = Returns [text_block t]
             \<and> includes_str t (error_toString e)))
   \<and> (fs_readFile w h (get_prop a ''file_path'') = Inr content
        \<and> snd (executeCommand w ''verilator''
                 [JStr ''--lint-only'', JStr ''-Wall'', get_prop a ''file_path''] None
                 (h @ [FsReadFile (get_prop a ''file_path'')])) = Throws e \<longrightarrow>
        (\<exists>t. snd (callTool fl w ''analyze-verilog-syntax'' (Some a) h) = Returns [text_block t]
             \<and> includes_str t (error_toString e)))
   \<and> (fs_readFile w h (get_prop a ''makefile_path'') = Inl e \<longrightarrow>
        (\<exists>t. snd (callTool fl w ''suggest-makefile-fixes'' (Some a) h) = Returns [text_block t]
             \<and> includes_str t (error_toString e)))
   \<and> (fs_readFile w h (get_prop a ''testbench_file'') = Inl e \<longrightarrow>
        (\<exists>t. snd (callTool fl w ''check-interface-compatibility'' (Some a) h) = Returns [text_block t]
             \<and> includes_str t (error_toString e)))
   \<and> (fs_readFile w h (get_prop a ''testbench_file'') = Inr content
        \<and> fs_readFile w (h @ [FsReadFile (get_prop a ''testbench_file'')]) (get_prop a ''rtl_file'') = Inl e
        \<longrightarrow>
        (\<exists>t. snd (callTool fl w ''check-interface-compatibility'' (Some a) h) = Returns [text_block t]
             \<and> includes_str t (error_toString e)))"
proof (intro conjI impI allI)
  fix e
  assume "name \<in> set (map tool_name listTools)"
  then show "snd (callTool fl w name (Some a) h) \<noteq> Throws e"
    by (rule callTool_never_throws)
next
  fix bs
  assume "name \<in> set (map tool_name listTools)" "snd (callTool fl w name (Some a) h) = Returns bs"
  then show "\<exists>t. bs = [text_block t]"
    by (rule callTool_one_block)
next
  assume reg: "name \<in> set (map tool_name listTools)"
    and settle: "\<forall>h' command args cwd evs.
             child_process_spawn w h' command args cwd = Spawned evs \<longrightarrow> first_settling evs \<noteq> None"
  obtain r where r: "snd (callTool fl w name (Some a) h) = r" by blast
  show "\<exists>t. snd (callTool fl w name (Some a) h) = Returns [text_block t]"
  proof (cases r)
    case Pending
    with r callTool_settles [OF reg settle] show ?thesis by blast
  next
    case (Throws e)
    with r callTool_never_throws [OF reg] show ?thesis by blast
  next
    case (Returns bs)
    with r callTool_one_block [OF reg] show ?thesis by force
  qed
next
  assume "fs_access w h testDir = Some e"
  then have "snd (callTool fl w ''run-filter-simulation'' (Some a) h) =
               Returns [text_block (simulation_failure_text e)]"
    by (simp add: callTool_registered run_filter_simulation_cases)
  moreover have "includes_str (simulation_failure_text e) (error_toString e)"
    unfolding simulation_failure_text_def by (intro includes_str_search)
  ultimately show "\<exists>t. snd (callTool fl w ''run-filter-simulation'' (Some a) h) = Returns [text_block t]
                      \<and> includes_str t (error_toString e)"
    by blast
next
  assume "fs_access w h testDir = None
        \<and> snd (executeCommand w ''bash''
                 [JStr ''-c'',
                  JStr (simulation_command (get_prop a ''test_type'')
                          (with_default (get_prop a ''debug'') (JBool False))
                          (with_default (get_prop a ''waves'') (JBool False)))]
                 (Some testDir) (h @ [FsAccess testDir])) = Throws e"
  then have "snd (callTool fl w ''run-filter-simulation'' (Some a) h) =
               Returns [text_block (simulation_failure_text e)]"
    by (simp add: callTool_registered run_filter_simulation_cases Let_def)
  moreover have "includes_str (simulation_failure_text e) (error_toString e)"
    unfolding simulation_failure_text_def by (intro includes_str_search)
  ultimately show "\<exists>t. snd (callTool fl w ''run-filter-simulation'' (Some a) h) = Returns [text_block t]
                      \<and> includes_str t (error_toString e)"
    by blast
next
  let ?p = "get_prop a ''file_path''"
  let ?t = "cross_mark @ '' Verilog analysis failed: Error: Verilog analysis failed: '' @
            ''Error: Failed to read file '' @ toStr ?p @ '': '' @ error_toString e"
  assume "fs_readFile w h ?p = Inl e"
  then have "snd (callTool fl w ''analyze-verilog-syntax'' (Some a) h) = Returns [text_block ?t]"
    by (simp add: callTool_registered analyze_verilog_syntax_cases Let_def)
  moreover have "includes_str ?t (error_toString e)"
    by (intro includes_str_search)
  ultimately show "\<exists>t. snd (callTool fl w ''analyze-verilog-syntax'' (Some a) h) = Returns [text_block t]
                      \<and> includes_str t (error_toString e)"
    by blast
next
  let ?p = "get_prop a ''file_path''"
  let ?r = "verilog_report ?p (with_default (get_prop a ''check_packages'') (JBool True))
              (analyzeVerilogFile_content content) @
            ''\<newline>## Verilator Syntax Check\<newline>'' @ warning_sign @ '' Issues found:\<newline>''"
  assume "fs_readFile w h ?p = Inr content
        \<and> snd (executeCommand w ''verilator''
                 [JStr ''--lint-only'', JStr ''-Wall'', ?p] None (h @ [FsReadFile ?p])) = Throws e"
  then have "snd (callTool fl w ''analyze-verilog-syntax'' (Some a) h) =
               Returns [text_block (?r @ error_toString e @ ''\<newline>'')]"
    by (simp add: callTool_registered analyze_verilog_syntax_cases Let_def)
  moreover have "includes_str (?r @ error_toString e @ ''\<newline>'') (error_toString e)"
    by (intro includes_str_search)
  ultimately show "\<exists>t. snd (callTool fl w ''analyze-verilog-syntax'' (Some a) h) = Returns [text_block t]
                      \<and> includes_str t (error_toString e)"
    by blast
next
  let ?p = "get_prop a ''makefile_path''"
  let ?t = "cross_mark @ '' Makefile analysis failed: Error: Makefile analysis failed: '' @
            ''Error: Failed to read file '' @ toStr ?p @ '': '' @ error_toString e"
  assume "fs_readFile w h ?p = Inl e"
  then have "snd (callTool fl w ''suggest-makefile-fixes'' (Some a) h) = Returns [text_block ?t]"
    by (simp add: callTool_registered suggest_makefile_fixes_cases Let_def)
  moreover have "includes_str ?t (error_toString e)"
    by (intro includes_str_search)
  ultimately show "\<exists>t. snd (callTool fl w ''suggest-makefile-fixes'' (Some a) h) = Returns [text_block t]
                      \<and> includes_str t (error_toString e)"
    by blast
next
  let ?p = "get_prop a ''testbench_file''"
  let ?t = "cross_mark @ '' Interface compatibility check failed: Error: '' @
            ''Verilog analysis failed: Error: Failed to read file '' @ toStr ?p @ '': '' @
            error_toString e"
  assume "fs_readFile w h ?p = Inl e"
  then have "snd (callTool fl w ''check-interface-compatibility'' (Some a) h) = Returns [text_block ?t]"
    by (simp add: callTool_registered check_interface_compatibility_cases Let_def)
  moreover have "includes_str ?t (error_toString e)"
    by (intro includes_str_search)
  ultimately show "\<exists>t. snd (callTool fl w ''check-interface-compatibility'' (Some a) h) =
                        Returns [text_block t] \<and> includes_str t (error_toString e)"
    by blast
next
  let ?p = "get_prop a ''testbench_file''"
  let ?q = "get_prop a ''rtl_file''"
  let ?t = "cross_mark @ '' Interface compatibility check failed: Error: '' @
            ''Verilog analysis failed: Error: Failed to read file '' @ toStr ?q @ '': '' @
            error_toString e"
  assume "fs_readFile w h ?p = Inr content \<and> fs_readFile w (h @ [FsReadFile ?p]) ?q = Inl e"
  then have "snd (callTool fl w ''check-interface-compatibility'' (Some a) h) = Returns [text_block ?t]"
    by (simp add: callTool_registered check_interface_compatibility_cases Let_def)
  moreover have "includes_str ?t (error_toString e)"
    by (intro includes_str_search)
  ultimately show "\<exists>t. snd (callTool fl w ''check-interface-compatibility'' (Some a) h) =
                        Returns [text_block t] \<and> includes_str t (error_toString e)"
    by blast
qed

theorem collaborator_failures_are_reported_witness:
  "(\<forall>e. snd (callTool double_score_ops (sample_world [] [] []) ''run-filter-simulation''
               (Some [''test_type'' \<mapsto> JStr ''basic'']) []) \<noteq> Throws e)
   \<and> (\<exists>t. snd (callTool double_score_ops (sample_world [] [] []) ''run-filter-simulation''
               (Some [''test_type'' \<mapsto> JStr ''basic'']) []) = Returns [text_block t]
          \<and> includes_str t ''Error: ENOENT: no such file or directory, access'')
   \<and> (\<exists>t. snd (callTool double_score_ops
               (sample_world [] [testDir] [StderrData ''make: *** No rule'', Close (Some 2)])
               ''run-filter-simulation'' (Some [''test_type'' \<mapsto> JStr ''basic'']) [])
             = Returns [text_block t]
          \<and> includes_str t ''Error: Command failed with exit code 2: make: *** No rule'')
   \<and> (\<exists>t. snd (callTool double_score_ops (sample_world [] [] []) ''analyze-verilog-syntax''
               (Some [''file_path'' \<mapsto> JStr ''top.sv'']) []) = Returns [text_block t]
          \<and> includes_str t ''Error: ENOENT: no such file or directory, open'')"
proof -
  let ?a = "[''test_type'' \<mapsto> JStr ''basic'']"
  let ?f = "[''file_path'' \<mapsto> JStr ''top.sv'']"
  let ?w0 = "sample_world [] [] []"
  let ?w1 = "sample_world [] [testDir] [StderrData ''make: *** No rule'', Close (Some 2)]"
  let ?cmd = "simulation_command (get_prop ?a ''test_type'')
                (with_default (get_prop ?a ''debug'') (JBool False))
                (with_default (get_prop ?a ''waves'') (JBool False))"
  let ?e2 = "JsError ''Error'' ''Command failed with exit code 2: make: *** No rule''"
  have reg: "''run-filter-simulation'' \<in> set (map tool_name listTools)"
    by (simp add: listTools_def)
  have nodir: "fs_access ?w0 [] testDir = Some (enoent ''access'' testDir)"
    by (simp add: sample_world_def testDir_def)
  have dir: "fs_access ?w1 [] testDir = None"
    by (simp add: sample_world_def)
  have n2: "string_of_nat 2 = ''2''"
    by code_simp
  have exit2: "snd (executeCommand ?w1 ''bash'' [JStr ''-c'', JStr ?cmd] (Some testDir)
                      ([] @ [FsAccess testDir])) = Throws ?e2"
    using n2 by (simp add: executeCommand_def sample_world_def string_of_int_def)
  have nofile: "fs_readFile ?w0 [] (get_prop ?f ''file_path'') = Inl (enoent ''open'' ''top.sv'')"
    by (simp add: sample_world_def get_prop_def)
  have t0: "\<exists>t. snd (callTool double_score_ops ?w0 ''run-filter-simulation'' (Some ?a) []) =
                   Returns [text_block t]
                 \<and> includes_str t (error_toString (enoent ''access'' testDir))"
    using collaborator_failures_are_reported
            [of "''run-filter-simulation''" double_score_ops ?w0 ?a "[]" "enoent ''access'' testDir"]
          nodir
    by blast
  have t1: "\<exists>t. snd (callTool double_score_ops ?w1 ''run-filter-simulation'' (Some ?a) []) =
                   Returns [text_block t]
                 \<and> includes_str t (error_toString ?e2)"
    using collaborator_failures_are_reported
            [of "''run-filter-simulation''" double_score_ops ?w1 ?a "[]" ?e2] dir exit2
    by blast
  have t2: "\<exists>t. snd (callTool double_score_ops ?w0 ''analyze-verilog-syntax'' (Some ?f) []) =
                   Returns [text_block t]
                 \<and> includes_str t (error_toString (enoent ''open'' ''top.sv''))"
    using collaborator_failures_are_reported
            [of "''run-filter-simulation''" double_score_ops ?w0 ?f "[]" "enoent ''open'' ''top.sv''"]
          nofile
    by blast
  have nt: "\<forall>e. snd (callTool double_score_ops ?w0 ''run-filter-simulation'' (Some ?a) []) \<noteq> Throws e"
    using collaborator_failures_are_reported
            [of "''run-filter-simulation''" double_score_ops ?w0 ?a "[]"] reg
    by blast
  have part: "includes_str t (p @ q) \<Longrightarrow> includes_str t p" for t p q
    by (metis append.assoc includes_str_iff)
  have a0: "error_toString (enoent ''access'' testDir) =
              ''Error: ENOENT: no such file or directory, access'' @ '' '' @ [CHR 0x27] @ testDir @ [CHR 0x27]"
    by (simp add: enoent_def)
  have a2: "error_toString (enoent ''open'' ''top.sv'') =
              ''Error: ENOENT: no such file or directory, open'' @ '' '' @ [CHR 0x27] @ ''top.sv'' @ [CHR 0x27]"
    by (simp add: enoent_def)
  have a1: "error_toString ?e2 = ''Error: Command failed with exit code 2: make: *** No rule'' @ []"
    by simp
  show ?thesis
    using nt t0 [unfolded a0] t1 [unfolded a1] t2 [unfolded a2] part
    by (intro conjI) blast+
qed

subsection \<open>Omitted required parameters\<close>

text \<open>
  C1, as the claim states it, fails: \<^verbatim>\<open>run-filter-simulation\<close> declares \<^verbatim>\<open>test_type\<close> required,
  but invoked without it, with the test directory in place, the handler runs, the Process
  Runner is called with \<^verbatim>\<open>SIM=verilator make test\<close>, and the success response is returned.
\<close>

theorem missing_test_type_counterexample:
  "tool_name (listTools ! 0) = ''run-filter-simulation''
   \<and> required (listTools ! 0) = [''test_type'']
   \<and> callTool double_score_ops (sample_world [] [testDir] [StdoutData ''ok'', Close (Some 0)])
        ''run-filter-simulation'' (Some (map_of [(''debug'', JBool False)])) []
      = ([FsAccess testDir,
          Spawn ''bash'' [JStr ''-c'', JStr ''SIM=verilator make test''] (Some testDir)],
         Returns [text_block (simulation_success_text ''SIM=verilator make test'' (''ok'', []))])"
proof -
  have cmd: "simulation_command JUndefined (JBool False) (JBool False) = ''SIM=verilator make test''"
    by (simp add: simulation_command_def simulation_env_def)
  show ?thesis
    by (simp add: listTools_def callTool_registered run_filter_simulation_cases get_prop_def cmd
          sample_world_def executeCommand_def Let_def)
qed

lemma simulation_command_undefined:
  "simulation_command JUndefined debug waves = simulation_command (JStr ''all'') debug waves"
  by (simp add: simulation_command_def simulation_env_def)

text \<open>
  C1, amended. The dispatcher does not validate arguments against the declared input
  shape, in either version of the module. Every tool declares a required parameter, yet a
  registered tool invoked with an arguments object never throws a protocol error, whatever
  is omitted, and its handler runs with the omitted parameter \<^verbatim>\<open>undefined\<close>.
  \<^verbatim>\<open>run-filter-simulation\<close> without \<^verbatim>\<open>test_type\<close>, when the test directory exists, hands the
  Process Runner the command line of \<^verbatim>\<open>test_type\<close> \<^verbatim>\<open>all\<close> (\<^verbatim>\<open>SIM=verilator make test\<close>, and
  \<^verbatim>\<open> make test\<close> in the earlier module, when \<^verbatim>\<open>debug\<close> and \<^verbatim>\<open>waves\<close> are off).
  \<^verbatim>\<open>analyze-verilog-syntax\<close>, \<^verbatim>\<open>suggest-makefile-fixes\<close> and \<^verbatim>\<open>check-interface-compatibility\<close>
  read the file at the path \<^verbatim>\<open>undefined\<close> (and, when that read succeeds, go on to the linter
  or to the second file). \<^verbatim>\<open>cross-reference-signals\<close> without \<^verbatim>\<open>hierarchy_level\<close> returns the
  report for the level \<^verbatim>\<open>undefined\<close>; \<^verbatim>\<open>check-requirements-compliance\<close> without
  \<^verbatim>\<open>requirement_type\<close> returns the report with no checks; \<^verbatim>\<open>analyze-filter-code\<close> of the
  earlier module without \<^verbatim>\<open>analysis_type\<close> looks the source directory up and returns the
  analysis with no entries.
\<close>

theorem callTool_does_not_validate:
  \<open>map (\<lambda>t. (tool_name t, required t)) listTools =
     [(''run-filter-simulation'', [''test_type'']),
      (''analyze-verilog-syntax'', [''file_path'']),
      (''check-interface-compatibility'', [''testbench_file'', ''rtl_file'']),
      (''suggest-makefile-fixes'', [''makefile_path'']),
      (''cross-reference-signals'', [''hierarchy_level'']),
      (''check-requirements-compliance'', [''requirement_type''])]
   \<and> map (\<lambda>t. (tool_name t, required t)) listTools_earlier =
     [(''run-filter-simulation'', [''test_type'']),
      (''check-requirements-compliance'', [''requirement_type'']),
      (''analyze-filter-code'', [''analysis_type''])]
   \<and> (name \<in> set (map tool_name listTools) \<longrightarrow>
      (\<forall>c msg. snd (callTool fl w name (Some a) h) \<noteq> Throws (McpError c msg)))
   \<and> (a ''test_type'' = None \<and> fs_access w h testDir = None \<longrightarrow>
        fst (callTool fl w ''run-filter-simulation'' (Some a) h) =
          h @ [FsAccess testDir,
               Spawn ''bash''
                 [JStr ''-c'',
                  JStr (simulation_command (JStr ''all'')
                          (with_default (get_prop a ''debug'') (JBool False))
                          (with_default (get_prop a ''waves'') (JBool False)))]
                 (Some testDir)])
   \<and> simulation_command (JStr ''all'') (JBool False) (JBool False) = ''SIM=verilator make test''
   \<and> (a ''file_path'' = None \<longrightarrow>
        fst (callTool fl w ''analyze-verilog-syntax'' (Some a) h) =
          h @ FsReadFile JUndefined #
              (case fs_readFile w h JUndefined of
                 Inl e \<Rightarrow> []
               | Inr content \<Rightarrow>
                   [Spawn ''verilator'' [JStr ''--lint-only'', JStr ''-Wall'', JUndefined] None]))
   \<and> (a ''makefile_path'' = None \<longrightarrow>
        callTool fl w ''suggest-makefile-fixes'' (Some a) h =
          (h @ [FsReadFile JUndefined],
           Returns [text_block
             (case fs_readFile w h JUndefined of
                Inr content \<Rightarrow> makefile_report JUndefined (analyzeMakefile_content content)
              | Inl e \<Rightarrow>
                  cross_mark @ '' Makefile analysis failed: Error: Makefile analysis failed: '' @
                  ''Error: Failed to read file undefined: '' @ error_toString e)]))
   \<and> (a ''testbench_file'' = None \<longrightarrow>
        fst (callTool fl w ''check-interface-compatibility'' (Some a) h) =
          h @ FsReadFile JUndefined #
              (case fs_readFile w h JUndefined of
                 Inl e \<Rightarrow> []
               | Inr content \<Rightarrow> [FsReadFile (get_prop a ''rtl_file'')]))
   \<and> (a ''rtl_file'' = None \<longrightarrow>
        fst (callTool fl w ''check-interface-compatibility'' (Some a) h) =
          h @ FsReadFile (get_prop a ''testbench_file'') #
              (case fs_readFile w h (get_prop a ''testbench_file'') of
                 Inl e \<Rightarrow> []
               | Inr content \<Rightarrow> [FsReadFile JUndefined]))
   \<and> (a ''hierarchy_level'' = None \<longrightarrow>
        callTool fl w ''cross-reference-signals'' (Some a) h =
          (h, Returns [text_block (
              ''# Signal Cross-Reference Map\<newline>'' @
              ''\<newline>'' @
              ''**Hierarchy Level:** undefined\<newline>'' @
              ''\<newline>'' @
              ''## Signal Definitions\<newline>'' @
              ''undefined\<newline>'' @
              ''\<newline>'' @
              ''## Testbench Access Patterns\<newline>'' @
              ''```python\<newline>'' @
              ''# Access top-level signals\<newline>'' @
              ''await ClockCycles(dut.aclk, 10)\<newline>'' @
              ''dut.aresetn.value = 0\<newline>'' @
              ''\<newline>'' @
              ''# Access filter configuration\<newline>'' @
              ''dut.rule_0_ip_addr.value = 0x0A000001  # 10.0.0.1\<newline>'' @
              ''await ClockCycles(dut.aclk, 1)\<newline>'' @
              ''\<newline>'' @
              ''# Monitor statistics\<newline>'' @
              ''hit_count = dut.hit_count_0.value\<newline>'' @
              ''```\<newline>'')]))
   \<and> (a ''requirement_type'' = None \<longrightarrow>
        callTool fl w ''check-requirements-compliance'' (Some a) h =
          (h, Returns [text_block (
              ''# Enhanced Requirements Compliance Report\<newline>'' @
              ''\<newline>'' @
              ''\<newline>'' @
              ''\<newline>'' @
              ''**Overall Status**: '' @ check_mark @ '' All specified requirements met with enhanced verification capabilities\<newline>'' @
              ''\<newline>'' @
              ''**Verification Tools Used:**\<newline>'' @
              ''- Verilator syntax validation\<newline>'' @
              ''- Interface compatibility checking\<newline>'' @
              ''- Signal cross-referencing\<newline>'' @
              ''- Makefile configuration analysis'')]))
   \<and> (name \<in> set (map tool_name listTools_earlier) \<longrightarrow>
        (\<forall>c msg. snd (callTool_earlier w name (Some a) h) \<noteq> Throws (McpError c msg)))
   \<and> (a ''test_type'' = None \<and> fs_access w h testDir = None \<longrightarrow>
        fst (callTool_earlier w ''run-filter-simulation'' (Some a) h) =
          h @ [FsAccess testDir,
               Spawn ''bash''
                 [JStr ''-c'',
                  JStr (simulation_command_earlier (JStr ''all'')
                          (with_default (get_prop a ''debug'') (JBool False))
                          (with_default (get_prop a ''waves'') (JBool False)))]
                 (Some testDir)])
   \<and> simulation_command_earlier (JStr ''all'') (JBool False) (JBool False) = '' make test''
   \<and> (a ''analysis_type'' = None \<longrightarrow>
        callTool_earlier w ''analyze-filter-code'' (Some a) h =
          (h @ [FsAccess filterDir],
           Returns [text_block
             (case fs_access w h filterDir of
                None \<Rightarrow>
                  ''# Filter Code Analysis\<newline>'' @
                  ''\<newline>'' @
                  ''\<newline>'' @
                  ''\<newline>'' @
                  ''**Note**: For detailed analysis, run the specific tools mentioned above.''
              | Some e \<Rightarrow>
                  ''Code analysis failed: '' @ error_toString e @ ''\<newline>'' @
                  ''\<newline>'' @
                  ''Please ensure the filter source directory exists.'')]))
   \<and> (a ''requirement_type'' = None \<longrightarrow>
        callTool_earlier w ''check-requirements-compliance'' (Some a) h =
          (h, Returns [text_block (
              ''# Requirements Compliance Report\<newline>'' @
              ''\<newline>'' @
              ''\<newline>'' @
              ''\<newline>'' @
              ''**Overall Status**: All specified requirements appear to be met based on implementation review.'')]))\<close>
proof (intro conjI)
  show "map (\<lambda>t. (tool_name t, required t)) listTools =
     [(''run-filter-simulation'', [''test_type'']),
      (''analyze-verilog-syntax'', [''file_path'']),
      (''check-interface-compatibility'', [''testbench_file'', ''rtl_file'']),
      (''suggest-makefile-fixes'', [''makefile_path'']),
      (''cross-reference-signals'', [''hierarchy_level'']),
      (''check-requirements-compliance'', [''requirement_type''])]"
    by (simp add: listTools_def)
  show "map (\<lambda>t. (tool_name t, required t)) listTools_earlier =
     [(''run-filter-simulation'', [''test_type'']),
      (''check-requirements-compliance'', [''requirement_type'']),
      (''analyze-filter-code'', [''analysis_type''])]"
    by (simp add: listTools_earlier_def)
  show "name \<in> set (map tool_name listTools) \<longrightarrow>
      (\<forall>c msg. snd (callTool fl w name (Some a) h) \<noteq> Throws (McpError c msg))"
    using callTool_never_throws by blast
  show "name \<in> set (map tool_name listTools_earlier) \<longrightarrow>
      (\<forall>c msg. snd (callTool_earlier w name (Some a) h) \<noteq> Throws (McpError c msg))"
    using callTool_earlier_never_throws by blast
  show "simulation_command (JStr ''all'') (JBool False) (JBool False) = ''SIM=verilator make test''"
    by (simp add: simulation_command_def simulation_env_def)
  show "simulation_command_earlier (JStr ''all'') (JBool False) (JBool False) = '' make test''"
    by (simp add: simulation_command_earlier_def simulation_env_earlier_def)
qed (simp_all add: callTool_registered callTool_earlier_registered get_prop_def Let_def
       run_filter_simulation_cases simulation_command_undefined
       analyze_verilog_syntax_cases suggest_makefile_fixes_cases
       check_interface_compatibility_cases cross_reference_signals_undefined
       check_requirements_compliance_returns compliance_text_undefined
       run_filter_simulation_earlier_cases simulation_command_earlier_undefined
       analyze_filter_code_cases code_analysis_text_undefined
       check_requirements_compliance_earlier_returns compliance_text_earlier_undefined
       split: sum.splits option.splits)

theorem callTool_does_not_validate_witness:
  \<open>(\<forall>c msg. snd (callTool double_score_ops (sample_world [] [testDir, filterDir] [Close (Some 0)])
                    ''run-filter-simulation'' (Some (map_of [(''waves'', JBool True)])) [])
              \<noteq> Throws (McpError c msg))
   \<and> fst (callTool double_score_ops (sample_world [] [testDir, filterDir] [Close (Some 0)])
            ''run-filter-simulation'' (Some (map_of [(''waves'', JBool True)])) [])
      = [FsAccess testDir,
         Spawn ''bash''
           [JStr ''-c'', JStr ''SIM=verilator WAVES=1 EXTRA_ARGS=--trace --trace-structs make test'']
           (Some testDir)]
   \<and> fst (callTool double_score_ops (sample_world [] [testDir, filterDir] [Close (Some 0)])
            ''analyze-verilog-syntax'' (Some (map_of [(''waves'', JBool True)])) [])
      = [FsReadFile JUndefined]
   \<and> callTool double_score_ops (sample_world [] [testDir, filterDir] [Close (Some 0)])
         ''suggest-makefile-fixes'' (Some (map_of [(''waves'', JBool True)])) []
      = ([FsReadFile JUndefined],
         Returns [text_block
           (cross_mark @ '' Makefile analysis failed: Error: Makefile analysis failed: '' @
            ''Error: Failed to read file undefined: TypeError [ERR_INVALID_ARG_TYPE]: '' @
            ''The "path" argument must be of type string or an instance of Buffer or URL. '' @
            ''Received undefined'')])
   \<and> fst (callTool double_score_ops (sample_world [] [testDir, filterDir] [Close (Some 0)])
            ''check-interface-compatibility'' (Some (map_of [(''waves'', JBool True)])) [])
      = [FsReadFile JUndefined]
   \<and> callTool double_score_ops (sample_world [] [testDir, filterDir] [Close (Some 0)])
         ''cross-reference-signals'' (Some (map_of [(''waves'', JBool True)])) []
      = ([], Returns [text_block (
              ''# Signal Cross-Reference Map\<newline>'' @
              ''\<newline>'' @
              ''**Hierarchy Level:** undefined\<newline>'' @
              ''\<newline>'' @
              ''## Signal Definitions\<newline>'' @
              ''undefined\<newline>'' @
              ''\<newline>'' @
              ''## Testbench Access Patterns\<newline>'' @
              ''```python\<newline>'' @
              ''# Access top-level signals\<newline>'' @
              ''await ClockCycles(dut.aclk, 10)\<newline>'' @
              ''dut.aresetn.value = 0\<newline>'' @
              ''\<newline>'' @
              ''# Access filter configuration\<newline>'' @
              ''dut.rule_0_ip_addr.value = 0x0A000001  # 10.0.0.1\<newline>'' @
              ''await ClockCycles(dut.aclk, 1)\<newline>'' @
              ''\<newline>'' @
              ''# Monitor statistics\<newline>'' @
              ''hit_count = dut.hit_count_0.value\<newline>'' @
              ''```\<newline>'')])
   \<and> callTool double_score_ops (sample_world [] [testDir, filterDir] [Close (Some 0)])
         ''check-requirements-compliance'' (Some (map_of [(''waves'', JBool True)])) []
      = ([], Returns [text_block (
              ''# Enhanced Requirements Compliance Report\<newline>'' @
              ''\<newline>'' @
              ''\<newline>'' @
              ''\<newline>'' @
              ''**Overall Status**: '' @ check_mark @ '' All specified requirements met with enhanced verification capabilities\<newline>'' @
              ''\<newline>'' @
              ''**Verification Tools Used:**\<newline>'' @
              ''- Verilator syntax validation\<newline>'' @
              ''- Interface compatibility checking\<newline>'' @
              ''- Signal cross-referencing\<newline>'' @
              ''- Makefile configuration analysis'')])
   \<and> (\<forall>c msg. snd (callTool_earlier (sample_world [] [testDir, filterDir] [Close (Some 0)])
                      ''run-filter-simulation'' (Some (map_of [(''waves'', JBool True)])) [])
                \<noteq> Throws (McpError c msg))
   \<and> fst (callTool_earlier (sample_world [] [testDir, filterDir] [Close (Some 0)])
            ''run-filter-simulation'' (Some (map_of [(''waves'', JBool True)])) [])
      = [FsAccess testDir,
         Spawn ''bash'' [JStr ''-c'', JStr ''WAVES=1 make test''] (Some testDir)]
   \<and> callTool_earlier (sample_world [] [testDir, filterDir] [Close (Some 0)])
         ''analyze-filter-code'' (Some (map_of [(''waves'', JBool True)])) []
      = ([FsAccess filterDir], Returns [text_block (
              ''# Filter Code Analysis\<newline>'' @
              ''\<newline>'' @
              ''\<newline>'' @
              ''\<newline>'' @
              ''**Note**: For detailed analysis, run the specific tools mentioned above.'')])
   \<and> callTool_earlier (sample_world [] [testDir, filterDir] [Close (Some 0)])
         ''check-requirements-compliance'' (Some (map_of [(''waves'', JBool True)])) []
      = ([], Returns [text_block (
              ''# Requirements Compliance Report\<newline>'' @
              ''\<newline>'' @
              ''\<newline>'' @
              ''\<newline>'' @
              ''**Overall Status**: All specified requirements appear to be met based on implementation review.'')])\<close>
proof -
  let ?w = "sample_world [] [testDir, filterDir] [Close (Some 0)]"
  let ?a = "map_of [(''waves'', JBool True)]"
  have reg: "''run-filter-simulation'' \<in> set (map tool_name listTools)"
    "''run-filter-simulation'' \<in> set (map tool_name listTools_earlier)"
    by (simp_all add: listTools_def listTools_earlier_def)
  have omitted: "?a ''test_type'' = None" "?a ''file_path'' = None" "?a ''makefile_path'' = None"
    "?a ''testbench_file'' = None" "?a ''rtl_file'' = None" "?a ''hierarchy_level'' = None"
    "?a ''requirement_type'' = None" "?a ''analysis_type'' = None"
    by simp_all
  have there: "fs_access ?w [] testDir = None" "fs_access ?w [] filterDir = None"
    by (simp_all add: sample_world_def)
  have unreadable: "fs_readFile ?w [] JUndefined = Inl (invalid_path JUndefined)"
    by (simp add: sample_world_def)
  have message: \<open>error_toString (invalid_path JUndefined) =
      ''TypeError [ERR_INVALID_ARG_TYPE]: '' @
      ''The "path" argument must be of type string or an instance of Buffer or URL. '' @
      ''Received undefined''\<close>
    by (simp add: invalid_path_def received_def)
  have props: "get_prop ?a ''debug'' = JUndefined" "get_prop ?a ''waves'' = JBool True"
    "get_prop ?a ''testbench_file'' = JUndefined" "get_prop ?a ''rtl_file'' = JUndefined"
    by (simp_all add: get_prop_def)
  have cmd: "simulation_command (JStr ''all'') (with_default JUndefined (JBool False))
               (with_default (JBool True) (JBool False)) =
             ''SIM=verilator WAVES=1 EXTRA_ARGS=--trace --trace-structs make test''"
    "simulation_command_earlier (JStr ''all'') (with_default JUndefined (JBool False))
               (with_default (JBool True) (JBool False)) = ''WAVES=1 make test''"
    by (simp_all add: simulation_command_def simulation_env_def simulation_command_earlier_def
          simulation_env_earlier_def)
  show ?thesis
    using callTool_does_not_validate [of "''run-filter-simulation''" double_score_ops ?w ?a "[]"]
    unfolding omitted there unreadable message props cmd
    using reg by (simp add: message)
qed

subsection \<open>The build-fix suggestions\<close>



















subsection \<open>The compliance report\<close>

lemma status_checks:
  "list_all (\<lambda>c. starts_with (status c) check_mark) functional_checks"
  "list_all (\<lambda>c. starts_with (status c) check_mark) interface_checks"
  "list_all (\<lambda>c. starts_with (status c) check_mark) performance_checks"
  by (simp_all add: functional_checks_def interface_checks_def performance_checks_def check_mark_def)

lemma status_checks_earlier:
  "list_all (\<lambda>c. starts_with (status c) check_mark) functional_checks_earlier"
  "list_all (\<lambda>c. starts_with (status c) check_mark) interface_checks_earlier"
  "list_all (\<lambda>c. starts_with (status c) check_mark) performance_checks_earlier"
  by (simp_all add: functional_checks_earlier_def interface_checks_earlier_def
        performance_checks_earlier_def check_mark_def)

lemma compliance_text_values:
  "compliance_text (JStr ''functional'') =
         ''# Enhanced Requirements Compliance Report\<newline>'' @
         ''\<newline>'' @
         ''**IPv4/IPv6 Filtering**\<newline>'' @
         ''- Check: Verify packet parsing and filtering logic\<newline>'' @
         ''- Status: '' @ check_mark @ '' Implemented in filter_rx_pipeline.sv with Verilator validation\<newline>'' @
         ''\<newline>'' @
         ''**Port-based Filtering**\<newline>'' @
         ''- Check: Verify TCP/UDP port filtering\<newline>'' @
         ''- Status: '' @ check_mark @ '' Implemented with wildcard support and syntax validation\<newline>'' @
         ''\<newline>'' @
         ''**Statistics Counters**\<newline>'' @
         ''- Check: Verify hit/miss/total counters\<newline>'' @
         ''- Status: '' @ check_mark @ '' Implemented in CSR registers with interface compatibility check\<newline>'' @
         ''\<newline>'' @
         ''\<newline>'' @
         ''**Overall Status**: '' @ check_mark @ '' All specified requirements met with enhanced verification capabilities\<newline>'' @
         ''\<newline>'' @
         ''**Verification Tools Used:**\<newline>'' @
         ''- Verilator syntax validation\<newline>'' @
         ''- Interface compatibility checking\<newline>'' @
         ''- Signal cross-referencing\<newline>'' @
         ''- Makefile configuration analysis''"
  "compliance_text (JStr ''interface'') =
         ''# Enhanced Requirements Compliance Report\<newline>'' @
         ''\<newline>'' @
         ''**AXI-Stream Interface**\<newline>'' @
         ''- Check: Verify 512-bit data width compliance\<newline>'' @
         ''- Status: '' @ check_mark @ '' Maintains existing interface with cross-reference validation\<newline>'' @
         ''\<newline>'' @
         ''**AXI-Lite CSR Interface**\<newline>'' @
         ''- Check: Verify register map at 0xB000\<newline>'' @
         ''- Status: '' @ check_mark @ '' Implemented with proper addressing and Makefile integration\<newline>'' @
         ''\<newline>'' @
         ''\<newline>'' @
         ''**Overall Status**: '' @ check_mark @ '' All specified requirements met with enhanced verification capabilities\<newline>'' @
         ''\<newline>'' @
         ''**Verification Tools Used:**\<newline>'' @
         ''- Verilator syntax validation\<newline>'' @
         ''- Interface compatibility checking\<newline>'' @
         ''- Signal cross-referencing\<newline>'' @
         ''- Makefile configuration analysis''"
  "compliance_text (JStr ''performance'') =
         ''# Enhanced Requirements Compliance Report\<newline>'' @
         ''\<newline>'' @
         ''**Throughput Maintenance**\<newline>'' @
         ''- Check: Verify no performance degradation\<newline>'' @
         ''- Status: '' @ check_mark @ '' Single-cycle filtering decision with Verilator timing analysis\<newline>'' @
         ''\<newline>'' @
         ''**Clock Domain**\<newline>'' @
         ''- Check: Verify 250MHz operation\<newline>'' @
         ''- Status: '' @ check_mark @ '' Integrated in 250MHz user box with dependency validation\<newline>'' @
         ''\<newline>'' @
         ''\<newline>'' @
         ''**Overall Status**: '' @ check_mark @ '' All specified requirements met with enhanced verification capabilities\<newline>'' @
         ''\<newline>'' @
         ''**Verification Tools Used:**\<newline>'' @
         ''- Verilator syntax validation\<newline>'' @
         ''- Interface compatibility checking\<newline>'' @
         ''- Signal cross-referencing\<newline>'' @
         ''- Makefile configuration analysis''"
  "compliance_text (JStr ''all'') =
         ''# Enhanced Requirements Compliance Report\<newline>'' @
         ''\<newline>'' @
         ''**IPv4/IPv6 Filtering**\<newline>'' @
         ''- Check: Verify packet parsing and filtering logic\<newline>'' @
         ''- Status: '' @ check_mark @ '' Implemented in filter_rx_pipeline.sv with Verilator validation\<newline>'' @
         ''\<newline>'' @
         ''**Port-based Filtering**\<newline>'' @
         ''- Check: Verify TCP/UDP port filtering\<newline>'' @
         ''- Status: '' @ check_mark @ '' Implemented with wildcard support and syntax validation\<newline>'' @
         ''\<newline>'' @
         ''**Statistics Counters**\<newline>'' @
         ''- Check: Verify hit/miss/total counters\<newline>'' @
         ''- Status: '' @ check_mark @ '' Implemented in CSR registers with interface compatibility check\<newline>'' @
         ''\<newline>'' @
         ''**AXI-Stream Interface**\<newline>'' @
         ''- Check: Verify 512-bit data width compliance\<newline>'' @
         ''- Status: '' @ check_mark @ '' Maintains existing interface with cross-reference validation\<newline>'' @
         ''\<newline>'' @
         ''**AXI-Lite CSR Interface**\<newline>'' @
         ''- Check: Verify register map at 0xB000\<newline>'' @
         ''- Status: '' @ check_mark @ '' Implemented with proper addressing and Makefile integration\<newline>'' @
         ''\<newline>'' @
         ''**Throughput Maintenance**\<newline>'' @
         ''- Check: Verify no performance degradation\<newline>'' @
         ''- Status: '' @ check_mark @ '' Single-cycle filtering decision with Verilator timing analysis\<newline>'' @
         ''\<newline>'' @
         ''**Clock Domain**\<newline>'' @
         ''- Check: Verify 250MHz operation\<newline>'' @
         ''- Status: '' @ check_mark @ '' Integrated in 250MHz user box with dependency validation\<newline>'' @
         ''\<newline>'' @
         ''\<newline>'' @
         ''**Overall Status**: '' @ check_mark @ '' All specified requirements met with enhanced verification capabilities\<newline>'' @
         ''\<newline>'' @
         ''**Verification Tools Used:**\<newline>'' @
         ''- Verilator syntax validation\<newline>'' @
         ''- Interface compatibility checking\<newline>'' @
         ''- Signal cross-referencing\<newline>'' @
         ''- Makefile configuration analysis''"
  by (simp_all add: compliance_text_def checksToRun_def functional_checks_def interface_checks_def
        performance_checks_def)

lemma compliance_text_earlier_values:
  "compliance_text_earlier (JStr ''functional'') =
         ''# Requirements Compliance Report\<newline>'' @
         ''\<newline>'' @
         ''**IPv4/IPv6 Filtering**\<newline>'' @
         ''- Check: Verify packet parsing and filtering logic\<newline>'' @
         ''- Status: '' @ check_mark @ '' Implemented in filter_rx_pipeline.sv\<newline>'' @
         ''\<newline>'' @
         ''**Port-based Filtering**\<newline>'' @
         ''- Check: Verify TCP/UDP port filtering\<newline>'' @
         ''- Status: '' @ check_mark @ '' Implemented with wildcard support\<newline>'' @
         ''\<newline>'' @
         ''**Statistics Counters**\<newline>'' @
         ''- Check: Verify hit/miss/total counters\<newline>'' @
         ''- Status: '' @ check_mark @ '' Implemented in CSR registers\<newline>'' @
         ''\<newline>'' @
         ''\<newline>'' @
         ''**Overall Status**: All specified requirements appear to be met based on implementation review.''"
  "compliance_text_earlier (JStr ''interface'') =
         ''# Requirements Compliance Report\<newline>'' @
         ''\<newline>'' @
         ''**AXI-Stream Interface**\<newline>'' @
         ''- Check: Verify 512-bit data width compliance\<newline>'' @
         ''- Status: '' @ check_mark @ '' Maintains existing interface\<newline>'' @
         ''\<newline>'' @
         ''**AXI-Lite CSR Interface**\<newline>'' @
         ''- Check: Verify register map at 0xB000\<newline>'' @
         ''- Status: '' @ check_mark @ '' Implemented with proper addressing\<newline>'' @
         ''\<newline>'' @
         ''\<newline>'' @
         ''**Overall Status**: All specified requirements appear to be met based on implementation review.''"
  "compliance_text_earlier (JStr ''performance'') =
         ''# Requirements Compliance Report\<newline>'' @
         ''\<newline>'' @
         ''**Throughput Maintenance**\<newline>'' @
         ''- Check: Verify no performance degradation\<newline>'' @
         ''- Status: '' @ check_mark @ '' Single-cycle filtering decision\<newline>'' @
         ''\<newline>'' @
         ''**Clock Domain**\<newline>'' @
         ''- Check: Verify 250MHz operation\<newline>'' @
         ''- Status: '' @ check_mark @ '' Integrated in 250MHz user box\<newline>'' @
         ''\<newline>'' @
         ''\<newline>'' @
         ''**Overall Status**: All specified requirements appear to be met based on implementation review.''"
  "compliance_text_earlier (JStr ''all'') =
         ''# Requirements Compliance Report\<newline>'' @
         ''\<newline>'' @
         ''**IPv4/IPv6 Filtering**\<newline>'' @
         ''- Check: Verify packet parsing and filtering logic\<newline>'' @
         ''- Status: '' @ check_mark @ '' Implemented in filter_rx_pipeline.sv\<newline>'' @
         ''\<newline>'' @
         ''**Port-based Filtering**\<newline>'' @
         ''- Check: Verify TCP/UDP port filtering\<newline>'' @
         ''- Status: '' @ check_mark @ '' Implemented with wildcard support\<newline>'' @
         ''\<newline>'' @
         ''**Statistics Counters**\<newline>'' @
         ''- Check: Verify hit/miss/total counters\<newline>'' @
         ''- Status: '' @ check_mark @ '' Implemented in CSR registers\<newline>'' @
         ''\<newline>'' @
         ''**AXI-Stream Interface**\<newline>'' @
         ''- Check: Verify 512-bit data width compliance\<newline>'' @
         ''- Status: '' @ check_mark @ '' Maintains existing interface\<newline>'' @
         ''\<newline>'' @
         ''**AXI-Lite CSR Interface**\<newline>'' @
         ''- Check: Verify register map at 0xB000\<newline>'' @
         ''- Status: '' @ check_mark @ '' Implemented with proper addressing\<newline>'' @
         ''\<newline>'' @
         ''**Throughput Maintenance**\<newline>'' @
         ''- Check: Verify no performance degradation\<newline>'' @
         ''- Status: '' @ check_mark @ '' Single-cycle filtering decision\<newline>'' @
         ''\<newline>'' @
         ''**Clock Domain**\<newline>'' @
         ''- Check: Verify 250MHz operation\<newline>'' @
         ''- Status: '' @ check_mark @ '' Integrated in 250MHz user box\<newline>'' @
         ''\<newline>'' @
         ''\<newline>'' @
         ''**Overall Status**: All specified requirements appear to be met based on implementation review.''"
  by (simp_all add: compliance_text_earlier_def checksToRun_earlier_def functional_checks_earlier_def
        interface_checks_earlier_def performance_checks_earlier_def)

text \<open>
  C9. The report of \<^verbatim>\<open>check-requirements-compliance\<close> is a function of \<^verbatim>\<open>requirement_type\<close>
  alone: the handler makes no collaborator call and returns the text \<^verbatim>\<open>compliance_text\<close> of
  its \<^verbatim>\<open>requirement_type\<close>, so two invocations with the same \<^verbatim>\<open>requirement_type\<close> return the
  same response in any two worlds; the checks of each type are the fixed lists, every
  status begins with the check mark, and the returned text for each of the four types is
  the literal report below. The handler of the earlier module has the same properties with
  its own texts.
\<close>

theorem check_requirements_compliance_hardcoded:
  "callTool fl w ''check-requirements-compliance'' (Some a) h =
     (h, Returns [text_block (compliance_text (get_prop a ''requirement_type''))])
   \<and> (get_prop a ''requirement_type'' = get_prop a' ''requirement_type'' \<longrightarrow>
        snd (callTool fl w ''check-requirements-compliance'' (Some a) h) =
        snd (callTool fl' w' ''check-requirements-compliance'' (Some a') h'))
   \<and> checksToRun (JStr ''functional'') = functional_checks
   \<and> checksToRun (JStr ''interface'') = interface_checks
   \<and> checksToRun (JStr ''performance'') = performance_checks
   \<and> checksToRun (JStr ''all'') = functional_checks @ interface_checks @ performance_checks
   \<and> list_all (\<lambda>c. starts_with (status c) check_mark) (checksToRun requirement_type)
   \<and> check_requirements_compliance_earlier (Some a) h =
       (h, Returns [text_block (compliance_text_earlier (get_prop a ''requirement_type''))])
   \<and> list_all (\<lambda>c. starts_with (status c) check_mark) (checksToRun_earlier requirement_type)
   \<and> callTool_earlier w ''check-requirements-compliance'' (Some a) h =
       (h, Returns [text_block (compliance_text_earlier (get_prop a ''requirement_type''))])
   \<and> check_mark = [CHR 0xE2, CHR 0x9C, CHR 0x85]
   \<and> compliance_text (JStr ''functional'') =
         ''# Enhanced Requirements Compliance Report\<newline>'' @
         ''\<newline>'' @
         ''**IPv4/IPv6 Filtering**\<newline>'' @
         ''- Check: Verify packet parsing and filtering logic\<newline>'' @
         ''- Status: '' @ check_mark @ '' Implemented in filter_rx_pipeline.sv with Verilator validation\<newline>'' @
         ''\<newline>'' @
         ''**Port-based Filtering**\<newline>'' @
         ''- Check: Verify TCP/UDP port filtering\<newline>'' @
         ''- Status: '' @ check_mark @ '' Implemented with wildcard support and syntax validation\<newline>'' @
         ''\<newline>'' @
         ''**Statistics Counters**\<newline>'' @
         ''- Check: Verify hit/miss/total counters\<newline>'' @
         ''- Status: '' @ check_mark @ '' Implemented in CSR registers with interface compatibility check\<newline>'' @
         ''\<newline>'' @
         ''\<newline>'' @
         ''**Overall Status**: '' @ check_mark @ '' All specified requirements met with enhanced verification capabilities\<newline>'' @
         ''\<newline>'' @
         ''**Verification Tools Used:**\<newline>'' @
         ''- Verilator syntax validation\<newline>'' @
         ''- Interface compatibility checking\<newline>'' @
         ''- Signal cross-referencing\<newline>'' @
         ''- Makefile configuration analysis''
   \<and> compliance_text (JStr ''interface'') =
         ''# Enhanced Requirements Compliance Report\<newline>'' @
         ''\<newline>'' @
         ''**AXI-Stream Interface**\<newline>'' @
         ''- Check: Verify 512-bit data width compliance\<newline>'' @
         ''- Status: '' @ check_mark @ '' Maintains existing interface with cross-reference validation\<newline>'' @
         ''\<newline>'' @
         ''**AXI-Lite CSR Interface**\<newline>'' @
         ''- Check: Verify register map at 0xB000\<newline>'' @
         ''- Status: '' @ check_mark @ '' Implemented with proper addressing and Makefile integration\<newline>'' @
         ''\<newline>'' @
         ''\<newline>'' @
         ''**Overall Status**: '' @ check_mark @ '' All specified requirements met with enhanced verification capabilities\<newline>'' @
         ''\<newline>'' @
         ''**Verification Tools Used:**\<newline>'' @
         ''- Verilator syntax validation\<newline>'' @
         ''- Interface compatibility checking\<newline>'' @
         ''- Signal cross-referencing\<newline>'' @
         ''- Makefile configuration analysis''
   \<and> compliance_text (JStr ''performance'') =
         ''# Enhanced Requirements Compliance Report\<newline>'' @
         ''\<newline>'' @
         ''**Throughput Maintenance**\<newline>'' @
         ''- Check: Verify no performance degradation\<newline>'' @
         ''- Status: '' @ check_mark @ '' Single-cycle filtering decision with Verilator timing analysis\<newline>'' @
         ''\<newline>'' @
         ''**Clock Domain**\<newline>'' @
         ''- Check: Verify 250MHz operation\<newline>'' @
         ''- Status: '' @ check_mark @ '' Integrated in 250MHz user box with dependency validation\<newline>'' @
         ''\<newline>'' @
         ''\<newline>'' @
         ''**Overall Status**: '' @ check_mark @ '' All specified requirements met with enhanced verification capabilities\<newline>'' @
         ''\<newline>'' @
         ''**Verification Tools Used:**\<newline>'' @
         ''- Verilator syntax validation\<newline>'' @
         ''- Interface compatibility checking\<newline>'' @
         ''- Signal cross-referencing\<newline>'' @
         ''- Makefile configuration analysis''
   \<and> compliance_text (JStr ''all'') =
         ''# Enhanced Requirements Compliance Report\<newline>'' @
         ''\<newline>'' @
         ''**IPv4/IPv6 Filtering**\<newline>'' @
         ''- Check: Verify packet parsing and filtering logic\<newline>'' @
         ''- Status: '' @ check_mark @ '' Implemented in filter_rx_pipeline.sv with Verilator validation\<newline>'' @
         ''\<newline>'' @
         ''**Port-based Filtering**\<newline>'' @
         ''- Check: Verify TCP/UDP port filtering\<newline>'' @
         ''- Status: '' @ check_mark @ '' Implemented with wildcard support and syntax validation\<newline>'' @
         ''\<newline>'' @
         ''**Statistics Counters**\<newline>'' @
         ''- Check: Verify hit/miss/total counters\<newline>'' @
         ''- Status: '' @ check_mark @ '' Implemented in CSR registers with interface compatibility check\<newline>'' @
         ''\<newline>'' @
         ''**AXI-Stream Interface**\<newline>'' @
         ''- Check: Verify 512-bit data width compliance\<newline>'' @
         ''- Status: '' @ check_mark @ '' Maintains existing interface with cross-reference validation\<newline>'' @
         ''\<newline>'' @
         ''**AXI-Lite CSR Interface**\<newline>'' @
         ''- Check: Verify register map at 0xB000\<newline>'' @
         ''- Status: '' @ check_mark @ '' Implemented with proper addressing and Makefile integration\<newline>'' @
         ''\<newline>'' @
         ''**Throughput Maintenance**\<newline>'' @
         ''- Check: Verify no performance degradation\<newline>'' @
         ''- Status: '' @ check_mark @ '' Single-cycle filtering decision with Verilator timing analysis\<newline>'' @
         ''\<newline>'' @
         ''**Clock Domain**\<newline>'' @
         ''- Check: Verify 250MHz operation\<newline>'' @
         ''- Status: '' @ check_mark @ '' Integrated in 250MHz user box with dependency validation\<newline>'' @
         ''\<newline>'' @
         ''\<newline>'' @
         ''**Overall Status**: '' @ check_mark @ '' All specified requirements met with enhanced verification capabilities\<newline>'' @
         ''\<newline>'' @
         ''**Verification Tools Used:**\<newline>'' @
         ''- Verilator syntax validation\<newline>'' @
         ''- Interface compatibility checking\<newline>'' @
         ''- Signal cross-referencing\<newline>'' @
         ''- Makefile configuration analysis''
   \<and> compliance_text_earlier (JStr ''functional'') =
         ''# Requirements Compliance Report\<newline>'' @
         ''\<newline>'' @
         ''**IPv4/IPv6 Filtering**\<newline>'' @
         ''- Check: Verify packet parsing and filtering logic\<newline>'' @
         ''- Status: '' @ check_mark @ '' Implemented in filter_rx_pipeline.sv\<newline>'' @
         ''\<newline>'' @
         ''**Port-based Filtering**\<newline>'' @
         ''- Check: Verify TCP/UDP port filtering\<newline>'' @
         ''- Status: '' @ check_mark @ '' Implemented with wildcard support\<newline>'' @
         ''\<newline>'' @
         ''**Statistics Counters**\<newline>'' @
         ''- Check: Verify hit/miss/total counters\<newline>'' @
         ''- Status: '' @ check_mark @ '' Implemented in CSR registers\<newline>'' @
         ''\<newline>'' @
         ''\<newline>'' @
         ''**Overall Status**: All specified requirements appear to be met based on implementation review.''
   \<and> compliance_text_earlier (JStr ''interface'') =
         ''# Requirements Compliance Report\<newline>'' @
         ''\<newline>'' @
         ''**AXI-Stream Interface**\<newline>'' @
         ''- Check: Verify 512-bit data width compliance\<newline>'' @
         ''- Status: '' @ check_mark @ '' Maintains existing interface\<newline>'' @
         ''\<newline>'' @
         ''**AXI-Lite CSR Interface**\<newline>'' @
         ''- Check: Verify register map at 0xB000\<newline>'' @
         ''- Status: '' @ check_mark @ '' Implemented with proper addressing\<newline>'' @
         ''\<newline>'' @
         ''\<newline>'' @
         ''**Overall Status**: All specified requirements appear to be met based on implementation review.''
   \<and> compliance_text_earlier (JStr ''performance'') =
         ''# Requirements Compliance Report\<newline>'' @
         ''\<newline>'' @
         ''**Throughput Maintenance**\<newline>'' @
         ''- Check: Verify no performance degradation\<newline>'' @
         ''- Status: '' @ check_mark @ '' Single-cycle filtering decision\<newline>'' @
         ''\<newline>'' @
         ''**Clock Domain**\<newline>'' @
         ''- Check: Verify 250MHz operation\<newline>'' @
         ''- Status: '' @ check_mark @ '' Integrated in 250MHz user box\<newline>'' @
         ''\<newline>'' @
         ''\<newline>'' @
         ''**Overall Status**: All specified requirements appear to be met based on implementation review.''
   \<and> compliance_text_earlier (JStr ''all'') =
         ''# Requirements Compliance Report\<newline>'' @
         ''\<newline>'' @
         ''**IPv4/IPv6 Filtering**\<newline>'' @
         ''- Check: Verify packet parsing and filtering logic\<newline>'' @
         ''- Status: '' @ check_mark @ '' Implemented in filter_rx_pipeline.sv\<newline>'' @
         ''\<newline>'' @
         ''**Port-based Filtering**\<newline>'' @
         ''- Check: Verify TCP/UDP port filtering\<newline>'' @
         ''- Status: '' @ check_mark @ '' Implemented with wildcard support\<newline>'' @
         ''\<newline>'' @
         ''**Statistics Counters**\<newline>'' @
         ''- Check: Verify hit/miss/total counters\<newline>'' @
         ''- Status: '' @ check_mark @ '' Implemented in CSR registers\<newline>'' @
         ''\<newline>'' @
         ''**AXI-Stream Interface**\<newline>'' @
         ''- Check: Verify 512-bit data width compliance\<newline>'' @
         ''- Status: '' @ check_mark @ '' Maintains existing interface\<newline>'' @
         ''\<newline>'' @
         ''**AXI-Lite CSR Interface**\<newline>'' @
         ''- Check: Verify register map at 0xB000\<newline>'' @
         ''- Status: '' @ check_mark @ '' Implemented with proper addressing\<newline>'' @
         ''\<newline>'' @
         ''**Throughput Maintenance**\<newline>'' @
         ''- Check: Verify no performance degradation\<newline>'' @
         ''- Status: '' @ check_mark @ '' Single-cycle filtering decision\<newline>'' @
         ''\<newline>'' @
         ''**Clock Domain**\<newline>'' @
         ''- Check: Verify 250MHz operation\<newline>'' @
         ''- Status: '' @ check_mark @ '' Integrated in 250MHz user box\<newline>'' @
         ''\<newline>'' @
         ''\<newline>'' @
         ''**Overall Status**: All specified requirements appear to be met based on implementation review.''"
proof -
  have run: "callTool fl w ''check-requirements-compliance'' (Some a) h =
               (h, Returns [text_block (compliance_text (get_prop a ''requirement_type''))])"
    for fl w a h
    by (simp add: callTool_def check_requirements_compliance_def catchC_def returnC_def)
  have marks: "list_all (\<lambda>c. starts_with (status c) check_mark) (checksToRun requirement_type)"
    by (simp add: checksToRun_def status_checks)
  have lists:
    "checksToRun (JStr ''functional'') = functional_checks"
    "checksToRun (JStr ''interface'') = interface_checks"
    "checksToRun (JStr ''performance'') = performance_checks"
    "checksToRun (JStr ''all'') = functional_checks @ interface_checks @ performance_checks"
    by (simp_all add: checksToRun_def)
  have earlier: "check_requirements_compliance_earlier (Some a) h =
       (h, Returns [text_block (compliance_text_earlier (get_prop a ''requirement_type''))])"
    by (simp add: check_requirements_compliance_earlier_def catchC_def returnC_def)
  have marks_earlier:
    "list_all (\<lambda>c. starts_with (status c) check_mark) (checksToRun_earlier requirement_type)"
    by (simp add: checksToRun_earlier_def status_checks_earlier)
  have earlier_call: "callTool_earlier w ''check-requirements-compliance'' (Some a) h =
       (h, Returns [text_block (compliance_text_earlier (get_prop a ''requirement_type''))])"
    by (simp add: callTool_earlier_def earlier)
  have mark: "check_mark = [CHR 0xE2, CHR 0x9C, CHR 0x85]"
    by (simp add: check_mark_def)
  show ?thesis
    apply (intro conjI impI)
    subgoal by (rule run)
    subgoal by (simp add: run)
    subgoal by (rule lists)
    subgoal by (rule lists)
    subgoal by (rule lists)
    subgoal by (rule lists)
    subgoal by (rule marks)
    subgoal by (rule earlier)
    subgoal by (rule marks_earlier)
    subgoal by (rule earlier_call)
    subgoal by (rule mark)
    subgoal by (rule compliance_text_values)
    subgoal by (rule compliance_text_values)
    subgoal by (rule compliance_text_values)
    subgoal by (rule compliance_text_values)
    subgoal by (rule compliance_text_earlier_values)
    subgoal by (rule compliance_text_earlier_values)
    subgoal by (rule compliance_text_earlier_values)
    subgoal by (rule compliance_text_earlier_values)
    done
qed

theorem check_requirements_compliance_hardcoded_witness:
  "snd (callTool double_score_ops (sample_world [] [] []) ''check-requirements-compliance''
          (Some [''requirement_type'' \<mapsto> JStr ''interface'']) [])
   = snd (callTool double_score_ops
            (sample_world [(requirementsPath, ''# Requirements'')] [testDir] [Close (Some 0)])
            ''check-requirements-compliance''
            (Some [''requirement_type'' \<mapsto> JStr ''interface'', ''debug'' \<mapsto> JBool True])
            [FsAccess testDir])"
proof -
  have same: "get_prop [''requirement_type'' \<mapsto> JStr ''interface''] ''requirement_type'' =
              get_prop [''requirement_type'' \<mapsto> JStr ''interface'', ''debug'' \<mapsto> JBool True]
                ''requirement_type''"
    by (simp add: get_prop_def)
  show ?thesis
    using check_requirements_compliance_hardcoded
            [of double_score_ops "sample_world [] [] []" "[''requirement_type'' \<mapsto> JStr ''interface'']" "[]"
                "[''requirement_type'' \<mapsto> JStr ''interface'', ''debug'' \<mapsto> JBool True]"
                double_score_ops
                "sample_world [(requirementsPath, ''# Requirements'')] [testDir] [Close (Some 0)]"
                "[FsAccess testDir]" JNull] same
    by blast
qed

subsection \<open>The simulator of a simulation run\<close>

lemma simulation_command_prefix:
  "starts_with (simulation_command test_type debug waves) ''SIM=verilator ''"
  by (simp add: simulation_command_def simulation_env_def Let_def)

text \<open>
  C10. When the test directory exists, \<^verbatim>\<open>run-filter-simulation\<close> hands the Process Runner
  \<^verbatim>\<open>bash -c\<close> with the command line built from its arguments, and for every \<^verbatim>\<open>test_type\<close>,
  \<^verbatim>\<open>debug\<close> and \<^verbatim>\<open>waves\<close> that command line begins with, and so contains, \<^verbatim>\<open>SIM=verilator\<close>.
\<close>

theorem run_filter_simulation_enforces_verilator:
  "(fs_access w h testDir = None \<longrightarrow>
      fst (callTool fl w ''run-filter-simulation'' (Some a) h) =
        h @ [FsAccess testDir,
             Spawn ''bash''
               [JStr ''-c'',
                JStr (simulation_command (get_prop a ''test_type'')
                        (with_default (get_prop a ''debug'') (JBool False))
                        (with_default (get_prop a ''waves'') (JBool False)))]
               (Some testDir)])
   \<and> starts_with (simulation_command test_type debug waves) ''SIM=verilator ''
   \<and> includes_str (simulation_command test_type debug waves) ''SIM=verilator''"
proof -
  have "includes_str (simulation_command test_type debug waves) ''SIM=verilator''"
    by (simp add: simulation_command_def simulation_env_def Let_def)
  moreover have "fs_access w h testDir = None \<Longrightarrow>
      fst (callTool fl w ''run-filter-simulation'' (Some a) h) =
        h @ [FsAccess testDir,
             Spawn ''bash''
               [JStr ''-c'',
                JStr (simulation_command (get_prop a ''test_type'')
                        (with_default (get_prop a ''debug'') (JBool False))
                        (with_default (get_prop a ''waves'') (JBool False)))]
               (Some testDir)]"
    by (simp add: callTool_def run_filter_simulation_def Let_def catchC_def bindC_def access_def
          executeCommand_def returnC_def split: spawn_result.splits completion.splits)
  ultimately show ?thesis
    using simulation_command_prefix by blast
qed

theorem run_filter_simulation_enforces_verilator_witness:
  "fst (callTool double_score_ops (sample_world [] [testDir] [StdoutData ''ok'', Close (Some 0)])
          ''run-filter-simulation''
          (Some [''test_type'' \<mapsto> JStr ''csr'', ''waves'' \<mapsto> JBool True]) [])
   = [FsAccess testDir,
      Spawn ''bash''
        [JStr ''-c'',
         JStr ''SIM=verilator WAVES=1 EXTRA_ARGS=--trace --trace-structs TESTCASE=test_csr_interface make test'']
        (Some testDir)]"
proof -
  let ?w = "sample_world [] [testDir] [StdoutData ''ok'', Close (Some 0)]"
  let ?a = "[''test_type'' \<mapsto> JStr ''csr'', ''waves'' \<mapsto> JBool True]"
  have dir: "fs_access ?w [] testDir = None"
    by (simp add: sample_world_def)
  have cmd: "simulation_command (get_prop ?a ''test_type'')
               (with_default (get_prop ?a ''debug'') (JBool False))
               (with_default (get_prop ?a ''waves'') (JBool False)) =
             ''SIM=verilator WAVES=1 EXTRA_ARGS=--trace --trace-structs TESTCASE=test_csr_interface make test''"
    by (simp add: get_prop_def simulation_command_def simulation_env_def)
  show ?thesis
    using run_filter_simulation_enforces_verilator [of ?w "[]" double_score_ops ?a] dir cmd
    by simp
qed

subsection \<open>The compatibility score in double precision\<close>

text \<open>
  23 common ports of 80: the quotient 0.2875 is not a double, the score is the double just
  below 28.75, and \<^verbatim>\<open>toFixed(1)\<close> prints 28.7.
\<close>

lemma bit_length_numeral:
  "bit_length (numeral k) = Suc (bit_length (numeral k div 2))"
  "bit_length 0 = 0" "bit_length (Suc 0) = Suc 0"
  by (subst bit_length.simps, simp add: bit_length.simps [of 0])+

lemma double_score_example:
  "score_double 23 80 = (8092405580431359, 281474976710656)"
  "score_toFixed1 double_score_ops 23 80 = ''28.7''"
  "score_below_80 double_score_ops 23 80"
proof -
  have lengths: "bit_length 23 = 5" "bit_length 80 = 7"
    "bit_length 517913957147607000 = 59" "bit_length 18014398509481984 = 55"
    by (simp_all add: bit_length_numeral)
  have quotient: "round_double 23 80 = (5179139571476070, 18014398509481984)"
    by (simp add: round_double_def round_half_even_def lengths Let_def)
  have product: "round_double 517913957147607000 18014398509481984 =
                   (8092405580431359, 281474976710656)"
    by (simp add: round_double_def round_half_even_def lengths Let_def)
  show score: "score_double 23 80 = (8092405580431359, 281474976710656)"
    by (simp add: score_double_def quotient product)
  have digits: "digit_char 2 = CHR ''2''" "digit_char 8 = CHR ''8''" "digit_char 7 = CHR ''7''"
    by code_simp+
  show "score_toFixed1 double_score_ops 23 80 = ''28.7''"
    by (simp add: double_score_ops_def score Let_def digits)
  show "score_below_80 double_score_ops 23 80"
    by (simp add: double_score_ops_def score Let_def)
qed

text \<open>
  End to end: a testbench with the ports \<^verbatim>\<open>a\<close>, \<^verbatim>\<open>b\<close>, \<^verbatim>\<open>c\<close> against a design with the port
  \<^verbatim>\<open>a\<close> scores one third, printed as 33.3.
\<close>

lemma check_interface_compatibility_example:
  \<open>callTool double_score_ops
     (sample_world [(''tb.sv'', ''input a;\<newline>input b;\<newline>input c;''), (''rtl.sv'', ''input a;'')] [] [])
     ''check-interface-compatibility''
     (Some [''testbench_file'' \<mapsto> JStr ''tb.sv'', ''rtl_file'' \<mapsto> JStr ''rtl.sv'']) [] =
   ([FsReadFile (JStr ''tb.sv''), FsReadFile (JStr ''rtl.sv'')],
    Returns [text_block (
      ''# Interface Compatibility Analysis\<newline>'' @
      ''\<newline>'' @
      ''**Testbench:** tb.sv\<newline>'' @
      ''**RTL:** rtl.sv\<newline>'' @
      ''\<newline>'' @
      ''## '' @ check_mark @ '' Matching Interfaces\<newline>'' @
      ''- a\<newline>'' @
      ''\<newline>'' @
      ''## '' @ warning_sign @ '' Testbench-Only Signals\<newline>'' @
      ''- b\<newline>'' @
      ''- c\<newline>'' @
      ''\<newline>'' @
      ''## Compatibility Score: 33.3%\<newline>'' @
      ''\<newline>'' @
      warning_sign @ '' **Recommendation:** Review interface connections - '' @
      ''low compatibility score suggests potential issues.\<newline>'')])\<close>
proof -
  let ?w = "sample_world [(''tb.sv'', ''input a;\<newline>input b;\<newline>input c;''), (''rtl.sv'', ''input a;'')] [] []"
  have reads: "fs_readFile ?w h (JStr ''tb.sv'') = Inr ''input a;\<newline>input b;\<newline>input c;''"
    "fs_readFile ?w h (JStr ''rtl.sv'') = Inr ''input a;''" for h
    by (simp_all add: sample_world_def)
  have ports:
    "interface_ports (analyzeVerilogFile_content ''input a;\<newline>input b;\<newline>input c;'') =
       [''a'', ''b'', ''c'']"
    "interface_ports (analyzeVerilogFile_content ''input a;'') = [''a'']"
    by code_simp+
  have lengths: "bit_length (Suc 0) = 1" "bit_length 3 = 2"
    "bit_length 600479950316066100 = 60" "bit_length 18014398509481984 = 55"
    by (simp_all add: bit_length_numeral)
  have quotient: "round_double (Suc 0) 3 = (6004799503160661, 18014398509481984)"
    by (simp add: round_double_def round_half_even_def lengths Let_def)
  have product: "round_double 600479950316066100 18014398509481984 =
                   (4691249611844266, 140737488355328)"
    by (simp add: round_double_def round_half_even_def lengths Let_def)
  have score: "score_double (Suc 0) 3 = (4691249611844266, 140737488355328)"
    by (simp add: score_double_def quotient product)
  have digits: "digit_char 3 = CHR ''3''"
    by code_simp
  have "score_toFixed1 double_score_ops (Suc 0) 3 = ''33.3''"
    "score_below_80 double_score_ops (Suc 0) 3"
    by (simp_all add: double_score_ops_def score Let_def digits)
  then have printed: "score_toFixed1 double_score_ops (Suc 0) (Suc (Suc (Suc 0))) = ''33.3''"
    "score_below_80 double_score_ops (Suc 0) (Suc (Suc (Suc 0)))"
    by (simp_all add: numeral_3_eq_3)
  show ?thesis
    by (simp add: callTool_registered check_interface_compatibility_cases get_prop_def reads
          compatibility_report_def ports printed Let_def)
qed

end
